(* ===== verification/Prelude.thy ===== *)
theory Prelude
  imports Complex_Main "HOL-Library.AList" "HOL-Library.Sublist"
begin

text \<open>
  Shared vocabulary of the model of \<^verbatim>\<open>src/BPL_TEST2_Batch_fmpy_explore.py\<close>:
  the Python exceptions the script can raise, the diagnostics it prints,
  Python dictionaries as insertion-ordered association lists (the semantics of
  \<^verbatim>\<open>dict\<close> since Python 3.7), the string operations of the script
  (negative indexing, slicing from the end, the substring test \<^verbatim>\<open>in\<close>),
  and the type \<open>'s outcome\<close> of a statement sequence that either returns a
  state or raises an exception in the state reached at the raise.
\<close>

named_theorems dict_simps "evaluation rules of the Python dictionary model"
named_theorems pystr_simps "evaluation rules of the Python string model"
named_theorems outcome_rules "rules that carry a property of states through an outcome"

section \<open>Exceptions and diagnostics\<close>

datatype py_error =
    KeyError | IndexError | ValueError | TypeError | NameError
  | UnboundLocalError | StopIteration
  | SimulationError \<comment> \<open>any exception of the external \<^verbatim>\<open>simulate_fmu\<close>\<close>
  | RenderError \<comment> \<open>any exception of \<^verbatim>\<open>eval\<close> of a plot command\<close>
  | ZeroDivisionError

text \<open>A value check of \<^verbatim>\<open>parCheck\<close>: the string
  \<^verbatim>\<open>"parDict['Y'] > 0"\<close> is \<open>Check ''Y'' Gt 0\<close>.\<close>

datatype cmp = Gt | Ge

datatype check = Check string cmp real

text \<open>A start value as FMPy reads it from the model description: a number,
  or a text that is no number (\<^verbatim>\<open>float\<close> of it raises).\<close>

datatype startval = Numeric real | Text string

text \<open>The lines the script prints, in the order of the source.\<close>

datatype msg =
    MsgTooManyStates \<comment> \<open>line 150\<close>
  | MsgNotAccessible string \<comment> \<open>line 351\<close>
  | MsgRequirementsHeader \<comment> \<open>line 356\<close>
  | MsgRequirement check \<comment> \<open>line 357\<close>
  | MsgNotInitial string \<comment> \<open>line 369\<close>
  | MsgNotLogged \<comment> \<open>line 393\<close>
  | MsgAfterFirstSimulation \<comment> \<open>line 397\<close>
  | MsgPlotTypeNotCorrect \<comment> \<open>line 304\<close>
  | MsgFirstInit \<comment> \<open>line 514\<close>
  | MsgModeNotCorrect \<comment> \<open>line 548\<close>
  | MsgNoSimulation \<comment> \<open>line 563\<close>
  | MsgParts "string list" \<comment> \<open>line 594: the sorted component list\<close>
  | MsgDisp "string list" real \<comment> \<open>lines 428--453: labels and the rounded value\<close>
  | MsgPlatform string \<comment> \<open>lines 69 and 75: the FMU chosen for the platform\<close>
  | MsgNoPlatform \<comment> \<open>lines 81, 89 and 109\<close>
  | MsgText string \<comment> \<open>a fixed line of \<^verbatim>\<open>describe()\<close> (lines 311, 324, 325)\<close>
  | MsgSubstance string "real option" "real option"
      \<comment> \<open>lines 326--327: description, index and molecular weight\<close>
  | MsgDescribe string "real option" string
      \<comment> \<open>lines 607, 618--622 and 633--637: description, rounded value, unit\<close>
  | MsgMSL "startval option" \<comment> \<open>line 599\<close>

section \<open>Python dictionaries\<close>

text \<open>
  A dictionary is an association list with distinct keys in insertion order.
  \<open>d[k] = v\<close> is \<open>AList.update k v d\<close> (replace in place, or append),
  \<open>del d[k]\<close> is \<open>AList.delete k d\<close>, \<open>d.update(e)\<close> stores the
  entries of \<open>e\<close> one after the other, and \<open>dict(ps)\<close> does the same
  from the empty dictionary, so that a later pair wins.
\<close>

type_synonym ('k, 'v) pydict = "('k \<times> 'v) list"

definition dict_get :: "('k, 'v) pydict \<Rightarrow> 'k \<Rightarrow> py_error + 'v" where
  "dict_get d k = (case map_of d k of None \<Rightarrow> Inl KeyError | Some v \<Rightarrow> Inr v)"

definition dict_keys :: "('k, 'v) pydict \<Rightarrow> 'k list" where
  "dict_keys d = map fst d"

definition dict_update :: "('k, 'v) pydict \<Rightarrow> ('k, 'v) pydict \<Rightarrow> ('k, 'v) pydict" where
  "dict_update d e = fold (\<lambda>(k, v). AList.update k v) e d"

definition dict_of :: "('k \<times> 'v) list \<Rightarrow> ('k, 'v) pydict" where
  "dict_of ps = dict_update [] ps"

definition is_dict :: "('k, 'v) pydict \<Rightarrow> bool" where
  "is_dict d \<longleftrightarrow> distinct (map fst d)"

section \<open>Python strings\<close>

text \<open>\<open>s[i]\<close> with a negative \<open>i\<close> counts from the end and raises
  \<open>IndexError\<close> out of range.\<close>

definition py_at :: "string \<Rightarrow> int \<Rightarrow> py_error + char" where
  "py_at s i =
     (let n = int (length s); j = (if i < 0 then n + i else i)
      in if 0 \<le> j \<and> j < n then Inr (s ! nat j) else Inl IndexError)"

text \<open>\<open>s[-n:]\<close> and \<open>s[:-n]\<close> for \<open>n > 0\<close>; slicing never raises.\<close>

definition py_take_end :: "string \<Rightarrow> nat \<Rightarrow> string" where
  "py_take_end s n = drop (length s - n) s"

definition py_drop_end :: "string \<Rightarrow> nat \<Rightarrow> string" where
  "py_drop_end s n = take (length s - n) s"

text \<open>\<open>a in b\<close> on strings: \<open>a\<close> occurs contiguously in \<open>b\<close>.\<close>

fun starts_with :: "'a list \<Rightarrow> 'a list \<Rightarrow> bool" where
  "starts_with [] ys = True"
| "starts_with (x # xs) [] = False"
| "starts_with (x # xs) (y # ys) = (x = y \<and> starts_with xs ys)"

fun py_in :: "'a list \<Rightarrow> 'a list \<Rightarrow> bool" where
  "py_in xs [] = (xs = [])"
| "py_in xs (y # ys) = (starts_with xs (y # ys) \<or> py_in xs ys)"

section \<open>Outcomes of statement sequences\<close>

text \<open>
  A Python statement sequence on a state \<open>'s\<close> returns (\<open>Inr s'\<close>) or
  raises (\<open>Inl (e, s')\<close>), where \<open>s'\<close> keeps every assignment made before
  the raise. \<open>obind\<close> runs the rest of the sequence only after a return;
  \<open>olift\<close> raises the error of a pure computation in the current state.
\<close>

type_synonym 's outcome = "(py_error \<times> 's) + 's"

definition obind :: "'s outcome \<Rightarrow> ('s \<Rightarrow> 's outcome) \<Rightarrow> 's outcome" where
  "obind r f = (case r of Inl es \<Rightarrow> Inl es | Inr s \<Rightarrow> f s)"

definition olift :: "py_error + 'a \<Rightarrow> 's \<Rightarrow> ('a \<Rightarrow> 's outcome) \<Rightarrow> 's outcome" where
  "olift r s f = (case r of Inl e \<Rightarrow> Inl (e, s) | Inr a \<Rightarrow> f a)"

fun ofold :: "('a \<Rightarrow> 's \<Rightarrow> 's outcome) \<Rightarrow> 'a list \<Rightarrow> 's \<Rightarrow> 's outcome" where
  "ofold f [] s = Inr s"
| "ofold f (x # xs) s = obind (f x s) (ofold f xs)"

text \<open>The state an outcome ends in, returned or raised.\<close>

definition ostate :: "'s outcome \<Rightarrow> 's" where
  "ostate r = (case r of Inl (e, s) \<Rightarrow> s | Inr s \<Rightarrow> s)"

section \<open>Lemmas on dictionaries\<close>

lemma dict_get_Some [dict_simps]: "map_of d k = Some v \<Longrightarrow> dict_get d k = Inr v"
  by (simp add: dict_get_def)

lemma dict_get_None [dict_simps]: "map_of d k = None \<Longrightarrow> dict_get d k = Inl KeyError"
  by (simp add: dict_get_def)

lemma dict_get_Inr_iff: "dict_get d k = Inr v \<longleftrightarrow> map_of d k = Some v"
  by (simp add: dict_get_def split: option.split)

lemma dict_keys_Nil [simp]: "dict_keys [] = []"
  by (simp add: dict_keys_def)

lemma dict_update_Nil [simp, dict_simps]: "dict_update d [] = d"
  by (simp add: dict_update_def)

lemma dict_update_Cons [simp, dict_simps]:
  "dict_update d ((k, v) # e) = dict_update (AList.update k v d) e"
  by (simp add: dict_update_def)

lemma dict_update_append: "dict_update d (e @ e') = dict_update (dict_update d e) e'"
  by (simp add: dict_update_def)

text \<open>The abstraction of a dictionary is \<open>map_of\<close>: \<open>d.update(e)\<close> is the
  map override by \<open>e\<close>, where the last pair of \<open>e\<close> for a key wins.\<close>

lemma map_of_dict_update: "map_of (dict_update d e) = map_of d ++ map_of (rev e)"
proof (induction e arbitrary: d)
  case Nil
  then show ?case by simp
next
  case (Cons p e)
  obtain k v where p: "p = (k, v)" by (cases p)
  have "map_of (dict_update d (p # e)) = map_of (AList.update k v d) ++ map_of (rev e)"
    using Cons.IH p by simp
  also have "\<dots> = map_of d ++ map_of (rev (p # e))"
    by (simp add: p update_conv' map_add_def fun_eq_iff split: option.split)
  finally show ?case .
qed

lemma map_of_rev_dict:
  assumes "is_dict d"
  shows "map_of (rev d) = map_of d"
  using assms
proof (induction d)
  case Nil
  then show ?case by simp
next
  case (Cons p d)
  obtain k v where p: "p = (k, v)" by (cases p)
  from Cons.prems p have "is_dict d" and k: "map_of d k = None"
    by (auto simp: is_dict_def map_of_eq_None_iff)
  then have "map_of (rev (p # d)) = [k \<mapsto> v] ++ map_of d"
    using Cons.IH p by simp
  also have "\<dots> = map_of d ++ [k \<mapsto> v]"
    by (rule map_add_comm) (use k in auto)
  also have "\<dots> = map_of (p # d)"
    using p by simp
  finally show ?case .
qed

lemma map_of_dict_update_dict:
  "is_dict e \<Longrightarrow> map_of (dict_update d e) = map_of d ++ map_of e"
  by (simp add: map_of_dict_update map_of_rev_dict)

lemma dict_keys_update [simp]:
  "set (dict_keys (AList.update k v d)) = insert k (set (dict_keys d))"
  by (simp add: dict_keys_def dom_update)

lemma set_dict_keys_update:
  "set (dict_keys (dict_update d e)) = set (dict_keys d) \<union> set (map fst e)"
proof (induction e arbitrary: d)
  case Nil
  then show ?case by simp
next
  case (Cons p e)
  then show ?case by (cases p) auto
qed

lemma set_dict_keys_dict_of: "set (dict_keys (dict_of ps)) = set (map fst ps)"
  by (simp add: dict_of_def set_dict_keys_update)

lemma is_dict_update [intro]: "is_dict d \<Longrightarrow> is_dict (dict_update d e)"
  by (induction e arbitrary: d) (auto simp: is_dict_def distinct_update)

lemma is_dict_of [intro]: "is_dict (dict_of ps)"
proof -
  have "is_dict ([] :: ('k \<times> 'v) list)" by (simp add: is_dict_def)
  then show ?thesis unfolding dict_of_def by (rule is_dict_update)
qed

lemma map_of_dict_of: "map_of (dict_of ps) = map_of (rev ps)"
  by (simp add: dict_of_def map_of_dict_update)

text \<open>An update whose keys are all present keeps the key order.\<close>

lemma dict_keys_update_known:
  "set (map fst e) \<subseteq> set (dict_keys d) \<Longrightarrow> dict_keys (dict_update d e) = dict_keys d"
proof (induction e arbitrary: d)
  case Nil
  then show ?case by simp
next
  case (Cons p e)
  obtain k v where p: "p = (k, v)" by (cases p)
  with Cons.prems have k: "k \<in> set (map fst d)" by (auto simp: dict_keys_def)
  then have "dict_keys (AList.update k v d) = dict_keys d"
    by (simp add: dict_keys_def update_keys)
  with Cons p show ?case by auto
qed

text \<open>Two dictionaries with the same keys in the same order and the same
  abstraction are equal.\<close>

lemma dict_eqI:
  assumes "is_dict a" "is_dict b" "dict_keys a = dict_keys b" "map_of a = map_of b"
  shows "a = b"
  using assms
proof (induction a arbitrary: b)
  case Nil
  then show ?case by (simp add: dict_keys_def)
next
  case (Cons p a)
  obtain k v where p: "p = (k, v)" by (cases p)
  from Cons.prems(3) p obtain v' b' where b: "b = (k, v') # b'"
    by (cases b) (auto simp: dict_keys_def)
  have v: "v = v'" using Cons.prems(4) p b by (metis map_of_Cons_code(2) option.inject)
  have m: "map_of a = map_of b'"
  proof
    fix x
    show "map_of a x = map_of b' x"
    proof (cases "x = k")
      case True
      have "map_of a k = None" "map_of b' k = None"
        using Cons.prems(1,2) p b by (simp_all add: is_dict_def map_of_eq_None_iff)
      with True show ?thesis by simp
    next
      case False
      with Cons.prems(4) p b show ?thesis
        by (metis map_of_Cons_code(2))
    qed
  qed
  have "is_dict a" "is_dict b'" "dict_keys a = dict_keys b'"
    using Cons.prems p b by (auto simp: is_dict_def dict_keys_def)
  then have "a = b'" using m by (rule Cons.IH)
  with v p b show ?case by simp
qed

lemma map_of_filter_keys:
  "map_of (filter (\<lambda>(k, v). P k) kw) = map_of kw |` {k. P k}"
  using AList.restr_conv'[of "{k. P k}" kw] by (simp add: AList.restrict_eq)

lemma is_dict_filter [intro]: "is_dict d \<Longrightarrow> is_dict (filter P d)"
  by (simp add: is_dict_def distinct_map_filter)

lemma set_dict_keys_dom: "set (dict_keys d) = dom (map_of d)"
  by (simp add: dict_keys_def dom_map_of_conv_image_fst)

lemma dict_keys_in_iff: "k \<in> set (dict_keys d) \<longleftrightarrow> map_of d k \<noteq> None"
  by (simp add: dict_keys_def map_of_eq_None_iff)

section \<open>Lemmas on strings\<close>

text \<open>Concatenating two dictionaries is map override.\<close>

lemma map_of_dict_of_append:
  "is_dict a \<Longrightarrow> is_dict b \<Longrightarrow> map_of (dict_of (a @ b)) = map_of a ++ map_of b"
proof -
  assume a: "is_dict a" and b: "is_dict b"
  have "map_of (dict_of (a @ b)) = map_of (rev b @ rev a)"
    by (simp add: map_of_dict_of)
  also have "\<dots> = map_of (rev a) ++ map_of (rev b)"
    by (rule map_of_append)
  also have "\<dots> = map_of a ++ map_of b"
    using a b by (simp add: map_of_rev_dict)
  finally show ?thesis .
qed

text \<open>Renaming the keys of a dictionary one-to-one.\<close>

lemma map_keys_inj:
  assumes "is_dict d" "inj_on f (set (dict_keys d))"
  shows "is_dict (map (\<lambda>(k, v). (f k, v)) d) \<and>
         (\<forall>k \<in> set (dict_keys d). map_of (map (\<lambda>(k, v). (f k, v)) d) (f k) = map_of d k) \<and>
         set (dict_keys (map (\<lambda>(k, v). (f k, v)) d)) = f ` set (dict_keys d)"
  using assms
proof (induction d)
  case Nil
  then show ?case by (simp add: is_dict_def dict_keys_def)
next
  case (Cons p d)
  obtain k v where p: "p = (k, v)" by (cases p)
  have d: "is_dict d" "inj_on f (set (dict_keys d))" "k \<notin> set (dict_keys d)"
    using Cons.prems p by (auto simp: is_dict_def dict_keys_def inj_on_insert)
  have fk: "f k \<notin> f ` set (dict_keys d)"
    using Cons.prems p d(3) by (auto simp: dict_keys_def inj_on_def)
  from Cons.IH[OF d(1,2)] fk p d(3) Cons.prems show ?case
    by (auto simp: is_dict_def dict_keys_def inj_on_def image_iff)
qed

lemma starts_with_prefix [simp]: "starts_with xs ys \<longleftrightarrow> prefix xs ys"
  by (induction xs ys rule: starts_with.induct) auto

text \<open>The executable substring test refines the library's \<open>sublist\<close>.\<close>

lemma py_in_sublist: "py_in xs ys \<longleftrightarrow> sublist xs ys"
  by (induction ys) (auto simp: sublist_Cons_right)

lemma py_in_refl [simp]: "py_in xs xs"
  by (simp add: py_in_sublist)

lemma py_in_append: "py_in xs (as @ xs @ bs)"
  by (simp add: py_in_sublist sublist_def) blast

lemma py_at_neg [pystr_simps]:
  "0 < i \<Longrightarrow> int i \<le> int (length s) \<Longrightarrow> py_at s (- int i) = Inr (s ! (length s - i))"
  by (simp add: py_at_def Let_def nat_diff_distrib)

text \<open>\<open>s[-i]\<close> is the \<open>i\<close>-th character of the reversed string.\<close>

lemma py_at_neg_rev:
  assumes "0 < i" "i \<le> length s"
  shows "py_at s (- int i) = Inr (rev s ! (i - 1))"
proof -
  have "py_at s (- int i) = Inr (s ! (length s - i))"
    using assms by (simp add: py_at_neg)
  also have "\<dots> = Inr (rev s ! (i - 1))"
    using assms by (simp add: rev_nth Suc_diff_Suc)
  finally show ?thesis .
qed

lemma py_at_neg_short [pystr_simps]:
  "int (length s) < int i \<Longrightarrow> py_at s (- int i) = Inl IndexError"
  by (simp add: py_at_def Let_def)

lemma py_take_end_append [pystr_simps]:
  "length b = n \<Longrightarrow> py_take_end (a @ b) n = b"
  by (simp add: py_take_end_def)

lemma py_drop_end_append [pystr_simps]:
  "length b = n \<Longrightarrow> py_drop_end (a @ b) n = a"
  by (simp add: py_drop_end_def)

section \<open>Lemmas on outcomes\<close>

lemma obind_Inr [simp]: "obind (Inr s) f = f s"
  by (simp add: obind_def)

lemma obind_Inl [simp]: "obind (Inl es) f = Inl es"
  by (simp add: obind_def)

lemma olift_Inr [simp]: "olift (Inr a) s f = f a"
  by (simp add: olift_def)

lemma olift_Inl [simp]: "olift (Inl e) s f = Inl (e, s)"
  by (simp add: olift_def)

lemma ostate_simps [simp]: "ostate (Inr s) = s" "ostate (Inl (e, s)) = s"
  by (simp_all add: ostate_def)

lemma ofold_append: "ofold f (xs @ ys) s = obind (ofold f xs s) (ofold f ys)"
  by (induction xs arbitrary: s) (auto simp: obind_def split: sum.split)

text \<open>A loop over \<open>ofold\<close> returns when every iteration returns.\<close>

lemma ofold_returns:
  assumes "\<And>x s. x \<in> set xs \<Longrightarrow> \<exists>s'. f x s = Inr s'"
  shows "\<exists>s'. ofold f xs s = Inr s'"
  using assms
proof (induction xs arbitrary: s)
  case Nil
  then show ?case by simp
next
  case (Cons x xs)
  then obtain s1 where "f x s = Inr s1" by fastforce
  with Cons show ?case by simp
qed

text \<open>An invariant kept by every returning and every raising iteration holds
  for the state the loop ends in.\<close>

lemma ofold_invariant:
  assumes "P s"
    and "\<And>x s. x \<in> set xs \<Longrightarrow> P s \<Longrightarrow> P (ostate (f x s))"
  shows "P (ostate (ofold f xs s))"
  using assms
proof (induction xs arbitrary: s)
  case Nil
  then show ?case by simp
next
  case (Cons x xs)
  have "P (ostate (f x s))" using Cons.prems by simp
  then show ?case
    using Cons.IH[of "ostate (f x s)"] Cons.prems(2) by (cases "f x s") auto
qed


text \<open>A property of the state a sequence ends in follows from the property
  of every state it can stop in.\<close>

lemma ostate_olift [outcome_rules]:
  "P s \<Longrightarrow> (\<And>a. r = Inr a \<Longrightarrow> P (ostate (f a))) \<Longrightarrow> P (ostate (olift r s f))"
  by (cases r) simp_all

lemma ostate_obind [outcome_rules]:
  "P (ostate r) \<Longrightarrow> (\<And>s. r = Inr s \<Longrightarrow> P (ostate (f s))) \<Longrightarrow> P (ostate (obind r f))"
  by (cases r) auto

lemma ostate_Inl_Inr [outcome_rules]: "P s \<Longrightarrow> P (ostate (Inl (e, s)))" "P s \<Longrightarrow> P (ostate (Inr s))"
  by simp_all

end
