(* ===== verification/Catalog.thy ===== *)
theory Catalog
  imports Prelude
begin

text \<open>
  The model introspector: the variable catalog that
  \<^verbatim>\<open>read_model_description(fmu_model).modelVariables\<close> yields (FMPy's
  \<^verbatim>\<open>ModelVariable\<close>, read-only), the state dictionary
  \<^verbatim>\<open>stateDict\<close> built from it at startup (lines 129--132) and the
  \<^verbatim>\<open>float\<close> conversion of a start value that \<^verbatim>\<open>model_get\<close> applies.
  The causality and variability constructors are those of the FMI 2.0
  standard whose strings the script compares against.
\<close>

datatype causality =
    Parameter | CalculatedParameter | Input | Output | Local | Independent

datatype variability = Constant | Fixed | Tunable | Discrete | Continuous

text \<open>\<open>mv_derivative\<close> is the name of the variable that FMPy's
  back-reference \<^verbatim>\<open>variable.derivative\<close> points to.\<close>

record model_variable =
  mv_name :: string
  mv_causality :: causality
  mv_variability :: variability
  mv_start :: "startval option"
  mv_derivative :: "string option"
  mv_description :: string
  mv_unit :: string

type_synonym catalog = "model_variable list"

text \<open>\<^verbatim>\<open>float(v.start)\<close>: \<^verbatim>\<open>float(None)\<close> raises \<open>TypeError\<close>.\<close>

definition py_float :: "startval option \<Rightarrow> py_error + real" where
  "py_float s = (case s of
       None \<Rightarrow> Inl TypeError
     | Some (Numeric r) \<Rightarrow> Inr r
     | Some (Text t) \<Rightarrow> Inl ValueError)"

text \<open>The keys of the comprehension at line 130, in catalog order:
  \<^verbatim>\<open>variable.derivative.name for variable in modelVariables
  if variable.derivative is not None\<close>.\<close>

fun state_keys :: "catalog \<Rightarrow> string list" where
  "state_keys [] = []"
| "state_keys (v # vs) =
     (case mv_derivative v of None \<Rightarrow> state_keys vs | Some x \<Rightarrow> x # state_keys vs)"

text \<open>Lines 130--132: the dictionary with value \<^verbatim>\<open>None\<close> for every state,
  updated with \<^verbatim>\<open>timeDiscreteStates\<close> (line 116, empty in this model).\<close>

definition state_dict_of ::
    "catalog \<Rightarrow> (string, real option) pydict \<Rightarrow> (string, real option) pydict" where
  "state_dict_of cat tds = dict_update (dict_of (map (\<lambda>k. (k, None)) (state_keys cat))) tds"

text \<open>\<^verbatim>\<open>[v for v in model_description.modelVariables if v.causality == 'local']\<close>
  (lines 97, 484 and 674).\<close>

definition locals_of :: "catalog \<Rightarrow> model_variable list" where
  "locals_of cat = filter (\<lambda>v. mv_causality v = Local) cat"

definition catalog_names :: "catalog \<Rightarrow> string list" where
  "catalog_names cat = map mv_name cat"

text \<open>The catalog is well formed when names are unique (FMI requires it).\<close>

definition wf_catalog :: "catalog \<Rightarrow> bool" where
  "wf_catalog cat \<longleftrightarrow> distinct (catalog_names cat)"

section \<open>An example catalog\<close>

text \<open>
  The variables of the BPL\_TEST2\_Batch model that the script names, with the
  start values of its parameters: the three states \<^verbatim>\<open>bioreactor.V\<close>,
  \<^verbatim>\<open>bioreactor.m[1]\<close> and \<^verbatim>\<open>bioreactor.m[2]\<close> with their derivatives, the
  concentrations and the growth rate, the six parameters, and one constant.
  It is test data for the witnesses, not a translation of the script.
\<close>

definition mvar ::
    "string \<Rightarrow> causality \<Rightarrow> variability \<Rightarrow> startval option \<Rightarrow> string option \<Rightarrow> model_variable" where
  "mvar n c v s d = \<lparr>mv_name = n, mv_causality = c, mv_variability = v, mv_start = s,
                     mv_derivative = d, mv_description = [], mv_unit = []\<rparr>"

definition bpl_catalog :: catalog where
  "bpl_catalog =
     [mvar ''bioreactor.V'' Local Continuous None None,
      mvar ''der(bioreactor.V)'' Local Continuous None (Some ''bioreactor.V''),
      mvar ''bioreactor.m[1]'' Local Continuous None None,
      mvar ''der(bioreactor.m[1])'' Local Continuous None (Some ''bioreactor.m[1]''),
      mvar ''bioreactor.m[2]'' Local Continuous None None,
      mvar ''der(bioreactor.m[2])'' Local Continuous None (Some ''bioreactor.m[2]''),
      mvar ''bioreactor.c[1]'' Local Continuous None None,
      mvar ''bioreactor.c[2]'' Local Continuous None None,
      mvar ''bioreactor.culture.mu'' Local Continuous None None,
      mvar ''bioreactor.V_start'' Parameter Fixed (Some (Numeric 1)) None,
      mvar ''bioreactor.m_start[1]'' Parameter Fixed (Some (Numeric 1)) None,
      mvar ''bioreactor.m_start[2]'' Parameter Fixed (Some (Numeric 10)) None,
      mvar ''bioreactor.culture.Y'' Parameter Fixed (Some (Numeric 0.5)) None,
      mvar ''bioreactor.culture.qSmax'' Parameter Fixed (Some (Numeric 1)) None,
      mvar ''bioreactor.culture.Ks'' Parameter Fixed (Some (Numeric 0.1)) None,
      mvar ''liquidphase.mw[1]'' Local Constant (Some (Numeric 24.6)) None]"

lemma mvar_simps [simp]:
  "mv_name (mvar n c v s d) = n" "mv_causality (mvar n c v s d) = c"
  "mv_variability (mvar n c v s d) = v" "mv_start (mvar n c v s d) = s"
  "mv_derivative (mvar n c v s d) = d"
  by (simp_all add: mvar_def)

lemma set_state_keys:
  "set (state_keys cat) = {x. \<exists>v \<in> set cat. mv_derivative v = Some x}"
  by (induction cat) (auto split: option.splits)

lemma state_dict_of_keys:
  "set (dict_keys (state_dict_of cat tds)) = set (state_keys cat) \<union> set (map fst tds)"
  by (simp add: state_dict_of_def dict_of_def set_dict_keys_update)

lemma is_dict_state_dict_of: "is_dict (state_dict_of cat tds)"
  unfolding state_dict_of_def by (intro is_dict_update is_dict_of)

lemma py_float_Inr_iff: "py_float s = Inr r \<longleftrightarrow> s = Some (Numeric r)"
  by (auto simp: py_float_def split: option.splits startval.splits)

end
