(* ===== verification/Names.thy ===== *)
theory Names
  imports Catalog
begin

text \<open>
  The name/location mapper: the initial-value name of every state
  (\<^verbatim>\<open>stateDictInitial\<close>, lines 134--151), the identity location map of those
  names (\<^verbatim>\<open>stateDictInitialLoc\<close>, lines 153--155), and the symbolic
  parameters of the application with their default values and locations
  (\<^verbatim>\<open>parDict\<close>, \<^verbatim>\<open>parLocation\<close> and \<^verbatim>\<open>key_variables\<close>, lines 158--181).
\<close>

section \<open>Initial-value names of states\<close>

text \<open>The outcome of one iteration of the loop at line 135: a name, or the
  \<^verbatim>\<open>else\<close> branch that prints and breaks.\<close>

datatype init_name = InitName string | TooManyStates

text \<open>Lines 136--150 for one key. Every subscript \<^verbatim>\<open>key[-i]\<close> may raise
  \<open>IndexError\<close> on a short key; the slices never raise.\<close>

definition state_initial_name :: "string \<Rightarrow> py_error + init_name" where
  "state_initial_name key =
     (case py_at key (-1) of
        Inl e \<Rightarrow> Inl e
      | Inr c1 \<Rightarrow>
          if c1 \<noteq> CHR '']'' then
            Inr (InitName
              (if py_take_end key 3 = ''I.y'' then py_drop_end key 10 @ ''I_start''
               else if py_take_end key 3 = ''D.x'' then py_drop_end key 10 @ ''D_start''
               else key @ ''_start''))
          else (case py_at key (-3) of
            Inl e \<Rightarrow> Inl e
          | Inr c3 \<Rightarrow>
              if c3 = CHR ''['' then
                Inr (InitName (py_drop_end key 3 @ ''_start'' @ py_take_end key 3))
              else (case py_at key (-4) of
                Inl e \<Rightarrow> Inl e
              | Inr c4 \<Rightarrow>
                  if c4 = CHR ''['' then
                    Inr (InitName (py_drop_end key 4 @ ''_start'' @ py_take_end key 4))
                  else (case py_at key (-5) of
                    Inl e \<Rightarrow> Inl e
                  | Inr c5 \<Rightarrow>
                      if c5 = CHR ''['' then
                        Inr (InitName (py_drop_end key 5 @ ''_start'' @ py_take_end key 5))
                      else Inr TooManyStates))))"

text \<open>The loop of lines 135--151 over the keys of \<^verbatim>\<open>stateDict\<close>: it stores
  each name into the dictionary, and on \<open>TooManyStates\<close> prints and leaves
  the loop with the entries computed so far.\<close>

fun state_initial_loop ::
    "string list \<Rightarrow> (string, string) pydict \<Rightarrow> py_error + ((string, string) pydict \<times> msg list)"
where
  "state_initial_loop [] acc = Inr (acc, [])"
| "state_initial_loop (k # ks) acc =
     (case state_initial_name k of
        Inl e \<Rightarrow> Inl e
      | Inr (InitName n) \<Rightarrow> state_initial_loop ks (AList.update k n acc)
      | Inr TooManyStates \<Rightarrow> Inr (acc, [MsgTooManyStates]))"

definition state_dict_initial ::
    "(string, real option) pydict \<Rightarrow> py_error + ((string, string) pydict \<times> msg list)" where
  "state_dict_initial sd = state_initial_loop (dict_keys sd) []"

text \<open>Lines 153--155: \<^verbatim>\<open>stateDictInitialLoc[value] = value\<close> for every value.\<close>

definition state_dict_initial_loc :: "(string, string) pydict \<Rightarrow> (string, string) pydict" where
  "state_dict_initial_loc sdi = dict_of (map (\<lambda>v. (v, v)) (map snd sdi))"

section \<open>Application parameters\<close>

text \<open>Lines 158--165.\<close>

definition par_dict_default :: "(string, real) pydict" where
  "par_dict_default =
     dict_of [(''V_start'', 1.0), (''VX_start'', 1.0), (''VS_start'', 10.0),
              (''Y'', 0.5), (''qSmax'', 1.0), (''Ks'', 0.1)]"

text \<open>Lines 167--181: the locations of the parameters, then the entries of the
  key variables, which only \<^verbatim>\<open>describe()\<close> uses.\<close>

definition par_location_default :: "(string, string) pydict" where
  "par_location_default =
     dict_of [(''V_start'', ''bioreactor.V_start''), (''VX_start'', ''bioreactor.m_start[1]''),
              (''VS_start'', ''bioreactor.m_start[2]''), (''Y'', ''bioreactor.culture.Y''),
              (''qSmax'', ''bioreactor.culture.qSmax''), (''Ks'', ''bioreactor.culture.Ks''),
              (''mu'', ''bioreactor.culture.mu''), (''V'', ''bioreactor.V''),
              (''VX'', ''bioreactor.m[1]''), (''VS'', ''bioreactor.m[2]'')]"

definition key_variables_default :: "string list" where
  "key_variables_default =
     [''bioreactor.culture.mu'', ''bioreactor.V'', ''bioreactor.m[1]'', ''bioreactor.m[2]'']"

text \<open>The digits of an index block.\<close>

definition is_digit :: "char \<Rightarrow> bool" where
  "is_digit c \<longleftrightarrow> c \<in> set ''0123456789''"

section \<open>Lemmas\<close>

lemma state_initial_name_Nil: "state_initial_name [] = Inl IndexError"
  by (simp add: state_initial_name_def py_at_def)

text \<open>A digit block holds no bracket.\<close>

lemma digit_not_bracket [simp]: "is_digit c \<Longrightarrow> c \<noteq> CHR ''[''"
  by (auto simp: is_digit_def)

lemma rev_indexed_key:
  "rev (pre @ CHR ''['' # ds @ [CHR '']'']) = CHR '']'' # rev ds @ CHR ''['' # rev pre"
  by simp

lemma length_indexed_key:
  "length (pre @ CHR ''['' # ds @ [CHR '']'']) = length pre + length ds + 2"
  by simp

lemma py_at_last: "k \<noteq> [] \<Longrightarrow> py_at k (-1) = Inr (last k)"
  using py_at_neg_rev[of 1 k] by (simp add: rev_nth last_conv_nth Suc_le_eq)

text \<open>The loop computes a name for every key it has passed.\<close>

lemma state_initial_loop_keys:
  "state_initial_loop ks acc = Inr (d, m) \<Longrightarrow> set (dict_keys acc) \<subseteq> set (dict_keys d)"
proof (induction ks arbitrary: acc)
  case Nil
  then show ?case by simp
next
  case (Cons k ks)
  show ?case
  proof (cases "state_initial_name k")
    case (Inl e)
    with Cons.prems show ?thesis by simp
  next
    case (Inr r)
    show ?thesis
    proof (cases r)
      case (InitName n)
      with Inr Cons.prems have "state_initial_loop ks (AList.update k n acc) = Inr (d, m)"
        by simp
      then have "set (dict_keys (AList.update k n acc)) \<subseteq> set (dict_keys d)"
        by (rule Cons.IH)
      then show ?thesis by auto
    next
      case TooManyStates
      with Inr Cons.prems show ?thesis by simp
    qed
  qed
qed

text \<open>\<^verbatim>\<open>stateDictInitialLoc\<close> maps every initial-value name to itself.\<close>

lemma map_of_state_dict_initial_loc:
  "map_of (state_dict_initial_loc sdi) v = (if v \<in> set (map snd sdi) then Some v else None)"
proof -
  have "map_of (rev (map (\<lambda>v. (v, v)) (map snd sdi))) v = (if v \<in> set (map snd sdi) then Some v else None)"
    by (induction sdi rule: rev_induct) auto
  then show ?thesis by (simp add: state_dict_initial_loc_def map_of_dict_of)
qed

lemma is_dict_state_dict_initial_loc: "is_dict (state_dict_initial_loc sdi)"
  by (simp add: state_dict_initial_loc_def is_dict_of)

section \<open>The rule table of initial-value names\<close>

text \<open>
  Claim C13. A state key that ends in an index block of one to three digits,
  \<^verbatim>\<open>foo[12]\<close>, gets the name with \<^verbatim>\<open>_start\<close> inserted before the
  block, \<^verbatim>\<open>foo_start[12]\<close>.
\<close>

theorem initial_name_indexed:
  assumes "\<forall>c \<in> set ds. is_digit c" "1 \<le> length ds" "length ds \<le> 3"
  shows "state_initial_name (pre @ CHR ''['' # ds @ [CHR '']'']) =
         Inr (InitName (pre @ ''_start'' @ CHR ''['' # ds @ [CHR '']'']))"
proof -
  let ?k = "pre @ CHR ''['' # ds @ [CHR '']'']"
  have at: "\<And>i. 0 < i \<Longrightarrow> i \<le> length ds + 2 \<Longrightarrow> py_at ?k (- int i) = Inr (rev ?k ! (i - 1))"
    by (rule py_at_neg_rev) simp_all
  have "length ds = 1 \<or> length ds = 2 \<or> length ds = 3" using assms(2,3) by arith
  then show ?thesis
  proof (elim disjE)
    assume l: "length ds = 1"
    then obtain a where "rev ds = [a]"
      by (metis length_Suc_conv length_rev One_nat_def length_0_conv)
    then show ?thesis using at[of 1] at[of 3] l assms(1)
      by (simp add: state_initial_name_def py_take_end_def py_drop_end_def)
  next
    assume l: "length ds = 2"
    then obtain a b where "rev ds = [a, b]"
      by (metis length_Suc_conv length_rev numeral_2_eq_2 length_0_conv)
    then show ?thesis using at[of 1] at[of 3] at[of 4] l assms(1)
      by (simp add: state_initial_name_def py_take_end_def py_drop_end_def)
  next
    assume l: "length ds = 3"
    then obtain a b c where "rev ds = [a, b, c]"
      by (metis length_Suc_conv length_rev numeral_3_eq_3 length_0_conv)
    then show ?thesis using at[of 1] at[of 3] at[of 4] at[of 5] l assms(1)
      by (simp add: state_initial_name_def py_take_end_def py_drop_end_def)
  qed
qed

theorem initial_name_indexed_witness:
  "1 \<le> length ''1'' \<and> length ''1'' \<le> 3 \<and>
   state_initial_name ''bioreactor.m[1]'' = Inr (InitName ''bioreactor.m_start[1]'')"
  using initial_name_indexed[of "''1''" "''bioreactor.m''"] by (simp add: is_digit_def)

text \<open>
  Claim C14. A key whose index block has four or more digits matches no rule:
  the iteration reports that the state vector is too large.
\<close>

theorem initial_name_too_many_states:
  assumes "\<forall>c \<in> set ds. is_digit c" "4 \<le> length ds"
  shows "state_initial_name (pre @ CHR ''['' # ds @ [CHR '']'']) = Inr TooManyStates"
proof -
  let ?k = "pre @ CHR ''['' # ds @ [CHR '']'']"
  obtain a b c d r where r: "rev ds = a # b # c # d # r"
    using assms(2)
    by (cases "rev ds" rule: list.exhaust; auto; metis Suc_le_length_iff length_rev numeral_eq_Suc pred_numeral_simps)
  have digits: "is_digit a" "is_digit b" "is_digit c" "is_digit d"
    using assms(1) r by (metis list.set_intros set_rev)+
  have "5 \<le> length ?k" using assms(2) by simp
  then show ?thesis
    using py_at_neg_rev[of 1 ?k] py_at_neg_rev[of 3 ?k] py_at_neg_rev[of 4 ?k] py_at_neg_rev[of 5 ?k]
      r digits
    by (simp add: state_initial_name_def)
qed

theorem initial_name_too_many_states_witness:
  "4 \<le> length ''1000'' \<and>
   state_initial_name ''bioreactor.m[1000]'' = Inr TooManyStates"
  using initial_name_too_many_states[of "''1000''" "''bioreactor.m''"] by (simp add: is_digit_def)

text \<open>
  Claim C15. A non-empty key that ends neither in a bracket nor in
  \<^verbatim>\<open>I.y\<close> or \<^verbatim>\<open>D.x\<close> gets \<^verbatim>\<open>_start\<close> appended; a key that ends in
  \<^verbatim>\<open>I.y\<close> (\<^verbatim>\<open>D.x\<close>) loses its last ten characters and gets
  \<^verbatim>\<open>I_start\<close> (\<^verbatim>\<open>D_start\<close>); the empty key raises \<open>IndexError\<close>.
\<close>

theorem initial_name_unindexed:
  assumes "k \<noteq> []" "last k \<noteq> CHR '']''"
  shows "state_initial_name k = Inr (InitName
     (if py_take_end k 3 = ''I.y'' then take (length k - 10) k @ ''I_start''
      else if py_take_end k 3 = ''D.x'' then take (length k - 10) k @ ''D_start''
      else k @ ''_start''))"
  using assms py_at_last[OF assms(1)]
  by (simp add: state_initial_name_def py_drop_end_def)

theorem initial_name_unindexed_witness:
  "''bioreactor.V'' \<noteq> [] \<and> last ''bioreactor.V'' \<noteq> CHR '']'' \<and>
   state_initial_name ''bioreactor.V'' = Inr (InitName ''bioreactor.V_start'') \<and>
   ''controller.PI.I.y'' \<noteq> [] \<and> last ''controller.PI.I.y'' \<noteq> CHR '']'' \<and>
   state_initial_name ''controller.PI.I.y'' = Inr (InitName ''controlI_start'')"
  using initial_name_unindexed[of "''bioreactor.V''"] initial_name_unindexed[of "''controller.PI.I.y''"]
  by (simp_all add: py_take_end_def)

text \<open>
  Claim C16. When every state key matches a rule, the naming loop runs to its
  end, prints nothing, and names every state.
\<close>

theorem state_dict_initial_total:
  assumes "\<forall>k \<in> set (dict_keys sd). \<exists>n. state_initial_name k = Inr (InitName n)"
  shows "\<exists>d. state_dict_initial sd = Inr (d, []) \<and> set (dict_keys d) = set (dict_keys sd)"
proof -
  have "\<exists>d. state_initial_loop ks acc = Inr (d, []) \<and>
          set (dict_keys d) = set (dict_keys acc) \<union> set ks"
    if "\<forall>k \<in> set ks. \<exists>n. state_initial_name k = Inr (InitName n)" for ks acc
    using that
  proof (induction ks arbitrary: acc)
    case Nil
    then show ?case by simp
  next
    case (Cons k ks)
    then obtain n where n: "state_initial_name k = Inr (InitName n)" by auto
    from Cons.IH[of "AList.update k n acc"] Cons.prems n show ?case by auto
  qed
  from this[OF assms, of "[]"] show ?thesis by (simp add: state_dict_initial_def)
qed

theorem state_dict_initial_total_witness:
  "(\<exists>d. state_dict_initial [(''bioreactor.V'', None), (''bioreactor.m[1]'', None :: real option)] = Inr (d, []) \<and>
      set (dict_keys d) = {''bioreactor.V'', ''bioreactor.m[1]''})"
proof -
  have h: "\<forall>k \<in> set (dict_keys [(''bioreactor.V'', None), (''bioreactor.m[1]'', None :: real option)]).
      \<exists>n. state_initial_name k = Inr (InitName n)"
    by (simp add: dict_keys_def state_initial_name_def py_at_def py_take_end_def py_drop_end_def)
  show ?thesis using h state_dict_initial_total[OF h] by (simp add: dict_keys_def)
qed

end
