(* ===== verification/Store.thy ===== *)
theory Store
  imports Names
begin

text \<open>
  The parameter and state store: the value checks \<^verbatim>\<open>parCheck\<close>
  (lines 184--190) that \<^verbatim>\<open>par()\<close> evaluates with \<^verbatim>\<open>eval\<close>, the update
  functions \<^verbatim>\<open>par()\<close> (lines 343--357) and \<^verbatim>\<open>init()\<close> (lines 360--370),
  and how Python binds a call of them to their parameters.
  \<^verbatim>\<open>par()\<close> mutates the dictionary before it evaluates the checks, so a
  check that raises leaves the update in place: its result is an
  \<open>outcome\<close> over the pair of dictionary and printed lines.
\<close>

section \<open>Value checks\<close>

text \<open>Lines 185--190 as data.\<close>

definition par_check_default :: "check list" where
  "par_check_default =
     [Check ''Y'' Gt 0, Check ''qSmax'' Gt 0, Check ''Ks'' Gt 0,
      Check ''V_start'' Gt 0, Check ''VX_start'' Ge 0, Check ''VS_start'' Ge 0]"

fun check_key :: "check \<Rightarrow> string" where
  "check_key (Check k _ _) = k"

text \<open>\<^verbatim>\<open>eval("parDict['k'] > c")\<close>: the lookup raises \<open>KeyError\<close> on a
  missing key.\<close>

fun eval_check :: "(string, real) pydict \<Rightarrow> check \<Rightarrow> py_error + bool" where
  "eval_check d (Check k Gt c) = (case dict_get d k of Inl e \<Rightarrow> Inl e | Inr v \<Rightarrow> Inr (c < v))"
| "eval_check d (Check k Ge c) = (case dict_get d k of Inl e \<Rightarrow> Inl e | Inr v \<Rightarrow> Inr (c \<le> v))"

text \<open>Line 354: \<^verbatim>\<open>[r for r in parCheck if not(eval(r))]\<close>, evaluated in
  order; the first exception ends the comprehension.\<close>

fun check_errors :: "(string, real) pydict \<Rightarrow> check list \<Rightarrow> py_error + check list" where
  "check_errors d [] = Inr []"
| "check_errors d (c # cs) =
     (case eval_check d c of
        Inl e \<Rightarrow> Inl e
      | Inr b \<Rightarrow> (case check_errors d cs of
                   Inl e \<Rightarrow> Inl e
                 | Inr es \<Rightarrow> Inr (if b then es else c # es)))"

definition check_holds :: "(string, real) pydict \<Rightarrow> check \<Rightarrow> bool" where
  "check_holds d c \<longleftrightarrow> eval_check d c = Inr True"

section \<open>Updates\<close>

text \<open>The loop shared by lines 347--351 and 365--369: every entry of the
  keyword dictionary that passes the test is stored in the staging
  dictionary, every other key is printed.\<close>

fun select_keys ::
    "(string \<Rightarrow> bool) \<Rightarrow> (string \<Rightarrow> msg) \<Rightarrow> (string, real) pydict \<Rightarrow>
     (string, real) pydict \<times> msg list \<Rightarrow> (string, real) pydict \<times> msg list"
where
  "select_keys P mk [] acc = acc"
| "select_keys P mk ((k, v) # kw) (t, m) =
     select_keys P mk kw (if P k then (AList.update k v t, m) else (t, m @ [mk k]))"

text \<open>Lines 345--357. \<open>x_kwarg\<close> is the keyword dictionary after
  \<^verbatim>\<open>x_kwarg.update(*x)\<close>.\<close>

definition par ::
    "(string, real) pydict \<Rightarrow> check list \<Rightarrow> (string, real) pydict \<Rightarrow>
     ((string, real) pydict \<times> msg list) outcome"
where
  "par pd checks x_kwarg =
     (let (x_temp, m) = select_keys (\<lambda>k. k \<in> set (dict_keys pd)) MsgNotAccessible x_kwarg ([], []);
          pd' = dict_update pd x_temp
      in case check_errors pd' checks of
           Inl e \<Rightarrow> Inl (e, (pd', m))
         | Inr errs \<Rightarrow> Inr (pd', m @ (if errs = [] then []
                                      else MsgRequirementsHeader # map MsgRequirement errs)))"

text \<open>Lines 363--370: only keys that contain \<^verbatim>\<open>_start\<close> are stored, and
  they are stored whether the store knows them or not.\<close>

definition init ::
    "(string, real) pydict \<Rightarrow> (string, real) pydict \<Rightarrow> (string, real) pydict \<times> msg list"
where
  "init pd x_kwarg =
     (let (x_init, m) = select_keys (py_in ''_start'') MsgNotInitial x_kwarg ([], [])
      in (dict_update pd x_init, m))"

section \<open>Argument binding\<close>

text \<open>
  The signatures are \<^verbatim>\<open>par(parDict=parDict, parCheck=parCheck,
  parLocation=parLocation, *x, **x_kwarg)\<close> and
  \<^verbatim>\<open>init(parDict=parDict, *x, **x_kwarg)\<close>. A call with keywords only,
  \<^verbatim>\<open>par(Y=0.6)\<close>, works on the global dictionary; a call whose first
  argument is a dictionary literal, \<^verbatim>\<open>init({'V_start': 2.0})\<close>, binds it to
  the parameter \<^verbatim>\<open>parDict\<close>, so the function updates that fresh
  dictionary and the global one is left as it was.
\<close>

datatype call = CallKw "(string, real) pydict" | CallPos "(string, real) pydict" "(string, real) pydict"

definition par_call ::
    "(string, real) pydict \<Rightarrow> check list \<Rightarrow> call \<Rightarrow> ((string, real) pydict \<times> msg list) outcome"
where
  "par_call pd checks c = (case c of
       CallKw kw \<Rightarrow> par pd checks kw
     | CallPos d kw \<Rightarrow> (case par d checks kw of
                          Inl (e, (_, m)) \<Rightarrow> Inl (e, (pd, m))
                        | Inr (_, m) \<Rightarrow> Inr (pd, m)))"

definition init_call :: "(string, real) pydict \<Rightarrow> call \<Rightarrow> (string, real) pydict \<times> msg list" where
  "init_call pd c = (case c of
       CallKw kw \<Rightarrow> init pd kw
     | CallPos d kw \<Rightarrow> (pd, snd (init d kw)))"

text \<open>The dictionary after \<^verbatim>\<open>par()\<close>, whether it returns or raises.\<close>

definition par_store :: "(string, real) pydict \<Rightarrow> (string, real) pydict \<Rightarrow> (string, real) pydict" where
  "par_store pd kw = dict_update pd (dict_of (filter (\<lambda>(k, v). k \<in> set (dict_keys pd)) kw))"

section \<open>Lemmas\<close>

lemma select_keys_fst:
  "fst (select_keys P mk kw (t, m)) = dict_update t (filter (\<lambda>(k, v). P k) kw)"
  by (induction P mk kw "(t, m)" arbitrary: t m rule: select_keys.induct) auto

lemma select_keys_snd:
  "snd (select_keys P mk kw (t, m)) = m @ map mk (filter (\<lambda>k. \<not> P k) (map fst kw))"
  by (induction P mk kw "(t, m)" arbitrary: t m rule: select_keys.induct) auto

lemma select_keys_eq:
  "select_keys P mk kw ([], []) =
     (dict_of (filter (\<lambda>(k, v). P k) kw), map mk (filter (\<lambda>k. \<not> P k) (map fst kw)))"
  using select_keys_fst[of P mk kw "[]" "[]"] select_keys_snd[of P mk kw "[]" "[]"]
  by (simp add: dict_of_def prod_eq_iff)

lemma par_eq:
  "par pd checks kw =
     (case check_errors (par_store pd kw) checks of
        Inl e \<Rightarrow> Inl (e, (par_store pd kw, map MsgNotAccessible (filter (\<lambda>k. k \<notin> set (dict_keys pd)) (map fst kw))))
      | Inr errs \<Rightarrow> Inr (par_store pd kw,
          map MsgNotAccessible (filter (\<lambda>k. k \<notin> set (dict_keys pd)) (map fst kw)) @
          (if errs = [] then [] else MsgRequirementsHeader # map MsgRequirement errs)))"
  unfolding par_def par_store_def by (simp add: select_keys_eq Let_def)

lemma fst_ostate_par [simp]: "fst (ostate (par pd checks kw)) = par_store pd kw"
  by (simp add: par_eq split: sum.split)

lemma map_of_par_store:
  "map_of (par_store pd kw) = map_of pd ++ map_of (rev (filter (\<lambda>(k, v). k \<in> set (dict_keys pd)) kw))"
  by (simp add: par_store_def map_of_dict_update map_of_rev_dict[OF is_dict_of] map_of_dict_of)

lemma init_eq:
  "init pd kw = (dict_update pd (dict_of (filter (\<lambda>(k, v). py_in ''_start'' k) kw)),
                 map MsgNotInitial (filter (\<lambda>k. \<not> py_in ''_start'' k) (map fst kw)))"
  by (simp add: init_def select_keys_eq)

lemma check_errors_subset: "check_errors d cs = Inr es \<Longrightarrow> set es \<subseteq> set cs"
proof (induction cs arbitrary: es)
  case Nil
  then show ?case by simp
next
  case (Cons c cs)
  then show ?case
    by (auto split: sum.splits if_splits dest: Cons.IH)
qed

lemma eval_check_present:
  assumes "check_key c \<in> set (dict_keys d)"
  shows "eval_check d c = Inr (check_holds d c)"
proof (cases c)
  case (Check k op r)
  with assms show ?thesis
    by (cases op) (auto simp: check_holds_def dict_get_def dict_keys_in_iff split: option.splits)
qed

lemma eval_check_missing:
  assumes "check_key c \<notin> set (dict_keys d)"
  shows "eval_check d c = Inl KeyError"
proof (cases c)
  case (Check k op r)
  with assms show ?thesis
    by (cases op) (auto simp: dict_get_def dict_keys_in_iff split: option.splits)
qed

lemma check_errors_present:
  "\<forall>c \<in> set cs. check_key c \<in> set (dict_keys d) \<Longrightarrow>
   check_errors d cs = Inr (filter (\<lambda>c. \<not> check_holds d c) cs)"
  by (induction cs) (auto simp: eval_check_present)

lemma check_errors_missing:
  "\<exists>c \<in> set cs. check_key c \<notin> set (dict_keys d) \<Longrightarrow> check_errors d cs = Inl KeyError"
proof (induction cs)
  case Nil
  then show ?case by simp
next
  case (Cons c cs)
  show ?case
  proof (cases "check_key c \<in> set (dict_keys d)")
    case True
    with Cons.prems have "check_errors d cs = Inl KeyError" by (intro Cons.IH) auto
    with True show ?thesis by (simp add: eval_check_present)
  next
    case False
    then show ?thesis by (simp add: eval_check_missing)
  qed
qed

lemma par_store_keys: "dict_keys (par_store pd kw) = dict_keys pd"
  unfolding par_store_def
proof (rule dict_keys_update_known)
  let ?F = "filter (\<lambda>(k, v). k \<in> set (dict_keys pd)) kw"
  have "set (map fst (dict_of ?F)) = set (map fst ?F)"
    using set_dict_keys_dict_of[of ?F] by (simp only: dict_keys_def)
  also have "\<dots> \<subseteq> set (dict_keys pd)"
    by (induction kw) auto
  finally show "set (map fst (dict_of ?F)) \<subseteq> set (dict_keys pd)" .
qed

lemma is_dict_par_store: "is_dict pd \<Longrightarrow> is_dict (par_store pd kw)"
  by (simp add: par_store_def is_dict_update)

lemma snd_ostate_par:
  "set (map MsgNotAccessible (filter (\<lambda>k. k \<notin> set (dict_keys pd)) (map fst kw)))
     \<subseteq> set (snd (ostate (par pd checks kw)))"
  by (auto simp: par_eq split: sum.split)

section \<open>Properties of par() and init()\<close>

text \<open>
  Claim C17. After \<^verbatim>\<open>par()\<close>, returned or raised, the store is the old
  store overridden by the keyword arguments restricted to the keys it knows:
  \<^verbatim>\<open>par()\<close> refines map override on the known parameters.
\<close>

theorem par_refines:
  assumes "is_dict kw"
  shows "map_of (fst (ostate (par pd checks kw))) = map_of pd ++ (map_of kw |` set (dict_keys pd))"
proof -
  have "map_of (rev (filter (\<lambda>(k, v). k \<in> set (dict_keys pd)) kw)) =
        map_of kw |` set (dict_keys pd)"
    using map_of_rev_dict[OF is_dict_filter[OF assms]] map_of_filter_keys[of "\<lambda>k. k \<in> set (dict_keys pd)" kw]
    by simp
  then show ?thesis by (simp add: map_of_par_store)
qed

theorem par_refines_witness:
  "is_dict [(''Y'', 0.6::real)] \<and>
   map_of (fst (ostate (par par_dict_default par_check_default [(''Y'', 0.6)]))) ''Y'' = Some 0.6"
proof -
  have d: "is_dict [(''Y'', 0.6::real)]" by (simp add: is_dict_def)
  have "map_of (fst (ostate (par par_dict_default par_check_default [(''Y'', 0.6)]))) =
        map_of par_dict_default ++ (map_of [(''Y'', 0.6)] |` set (dict_keys par_dict_default))"
    by (rule par_refines[OF d])
  then show ?thesis using d by (simp add: par_dict_default_def dict_of_def dict_keys_def)
qed

text \<open>
  Claim C18. \<^verbatim>\<open>par()\<close> never adds, removes or reorders a key of the store.
\<close>

theorem par_keys_preserved: "dict_keys (fst (ostate (par pd checks kw))) = dict_keys pd"
  by (simp add: par_store_keys)

text \<open>
  Claim C19. \<^verbatim>\<open>par()\<close> is idempotent: a second application of the same
  keyword arguments leaves the store as the first left it.
\<close>

theorem par_idempotent:
  assumes "is_dict pd" "is_dict kw"
  shows "fst (ostate (par (fst (ostate (par pd cs kw))) cs kw)) = fst (ostate (par pd cs kw))"
proof -
  let ?s = "par_store pd kw"
  have keys: "dict_keys (par_store ?s kw) = dict_keys ?s"
    by (rule par_store_keys)
  let ?R = "map_of kw |` set (dict_keys pd)"
  have s: "map_of ?s = map_of pd ++ ?R"
    using par_refines[OF assms(2), of pd cs] by simp
  have "map_of (par_store ?s kw) = map_of ?s ++ ?R"
    using par_refines[OF assms(2), of ?s cs] by (simp add: par_store_keys)
  also have "\<dots> = map_of pd ++ (?R ++ ?R)"
    by (simp only: s map_add_assoc)
  also have "?R ++ ?R = ?R"
    by (rule map_add_subsumed1) (rule map_le_refl)
  finally have "map_of (par_store ?s kw) = map_of ?s"
    using s by simp
  then show ?thesis
    using keys assms by (simp add: dict_eqI is_dict_par_store)
qed

theorem par_idempotent_witness:
  "is_dict par_dict_default \<and> is_dict [(''Y'', 0.6::real)] \<and>
   fst (ostate (par (fst (ostate (par par_dict_default par_check_default [(''Y'', 0.6)])))
      par_check_default [(''Y'', 0.6)])) =
   fst (ostate (par par_dict_default par_check_default [(''Y'', 0.6)]))"
proof -
  have h: "is_dict par_dict_default" "is_dict [(''Y'', 0.6::real)]"
    by (simp_all add: par_dict_default_def is_dict_of) (simp add: is_dict_def)
  show ?thesis by (intro conjI h par_idempotent[OF h])
qed

text \<open>
  Claim C20. A keyword the store does not know is reported as not accessible
  and is not stored.
\<close>

theorem par_unknown_key:
  assumes "k \<notin> set (dict_keys pd)" "k \<in> set (dict_keys kw)"
  shows "map_of (fst (ostate (par pd cs kw))) k = None \<and>
         MsgNotAccessible k \<in> set (snd (ostate (par pd cs kw)))"
proof
  show "map_of (fst (ostate (par pd cs kw))) k = None"
    using assms(1) par_keys_preserved[of pd cs kw] by (metis dict_keys_in_iff)
  show "MsgNotAccessible k \<in> set (snd (ostate (par pd cs kw)))"
    using assms snd_ostate_par[of pd kw cs] by (auto simp: dict_keys_def)
qed

theorem par_unknown_key_witness:
  "''bogus_name'' \<notin> set (dict_keys par_dict_default) \<and>
   ''bogus_name'' \<in> set (dict_keys [(''bogus_name'', 1::real)]) \<and>
   map_of (fst (ostate (par par_dict_default par_check_default [(''bogus_name'', 1)]))) ''bogus_name'' = None \<and>
   MsgNotAccessible ''bogus_name'' \<in> set (snd (ostate (par par_dict_default par_check_default [(''bogus_name'', 1)])))"
proof -
  have h: "''bogus_name'' \<notin> set (dict_keys par_dict_default)"
          "''bogus_name'' \<in> set (dict_keys [(''bogus_name'', 1::real)])"
    by (simp_all add: par_dict_default_def dict_of_def dict_keys_def)
  show ?thesis using h par_unknown_key[OF h, of par_check_default] by simp
qed

text \<open>
  Claim C21. The checks are advisory: when every checked key is in the store,
  \<^verbatim>\<open>par()\<close> returns with the update committed and reports every check that
  fails on the updated store.
\<close>

theorem par_fail_open:
  assumes "\<forall>c \<in> set cs. check_key c \<in> set (dict_keys pd)"
  shows "\<exists>m. par pd cs kw = Inr (par_store pd kw, m) \<and>
             (\<forall>c \<in> set cs. \<not> check_holds (par_store pd kw) c \<longrightarrow> MsgRequirement c \<in> set m)"
proof -
  have "check_errors (par_store pd kw) cs = Inr (filter (\<lambda>c. \<not> check_holds (par_store pd kw) c) cs)"
    using assms by (intro check_errors_present) (simp add: par_store_keys)
  then show ?thesis by (auto simp: par_eq filter_empty_conv)
qed

theorem par_fail_open_witness:
  "(\<exists>m. par par_dict_default par_check_default [(''Y'', -1)] = Inr (par_store par_dict_default [(''Y'', -1)], m) \<and>
        MsgRequirement (Check ''Y'' Gt 0) \<in> set m)"
proof -
  have h: "\<forall>c \<in> set par_check_default. check_key c \<in> set (dict_keys par_dict_default)"
    by (simp add: par_check_default_def par_dict_default_def dict_of_def dict_keys_def)
  have f: "\<not> check_holds (par_store par_dict_default [(''Y'', -1)]) (Check ''Y'' Gt 0)"
    by (simp add: check_holds_def par_store_def par_dict_default_def dict_of_def dict_keys_def dict_get_def)
  show ?thesis using h f par_fail_open[OF h, of "[(''Y'', -1)]"]
    by (auto simp: par_check_default_def)
qed

text \<open>
  Claim C22. \<^verbatim>\<open>init()\<close> stores exactly the keyword arguments whose name
  contains \<^verbatim>\<open>_start\<close>, known to the store or not, and reports every other
  keyword.
\<close>

theorem init_refines:
  assumes "is_dict kw"
  shows "map_of (fst (init pd kw)) = map_of pd ++ (map_of kw |` {k. py_in ''_start'' k}) \<and>
         snd (init pd kw) = map MsgNotInitial (filter (\<lambda>k. \<not> py_in ''_start'' k) (dict_keys kw))"
proof -
  have "map_of (rev (dict_of (filter (\<lambda>(k, v). py_in ''_start'' k) kw))) =
        map_of kw |` {k. py_in ''_start'' k}"
    using map_of_rev_dict[OF is_dict_filter[OF assms]]
    by (simp add: map_of_rev_dict[OF is_dict_of] map_of_dict_of map_of_filter_keys)
  then show ?thesis by (simp add: init_eq map_of_dict_update dict_keys_def)
qed

theorem init_refines_witness:
  "is_dict [(''V_start'', 2::real), (''Y'', 3)] \<and>
   map_of (fst (init par_dict_default [(''V_start'', 2), (''Y'', 3)])) ''V_start'' = Some 2 \<and>
   map_of (fst (init par_dict_default [(''V_start'', 2), (''Y'', 3)])) ''Y'' = Some 0.5 \<and>
   snd (init par_dict_default [(''V_start'', 2), (''Y'', 3)]) = [MsgNotInitial ''Y'']"
proof -
  have d: "is_dict [(''V_start'', 2::real), (''Y'', 3)]" by (simp add: is_dict_def)
  show ?thesis
    using d init_refines[OF d, of par_dict_default]
    by (simp add: par_dict_default_def dict_of_def dict_keys_def)
qed

text \<open>
  Claim C23. A dictionary passed to \<^verbatim>\<open>par()\<close> as its first argument
  replaces the store that the checks read: when it lacks a checked key,
  \<^verbatim>\<open>par()\<close> raises \<open>KeyError\<close> and the global store is unchanged.
\<close>

theorem par_positional_raises:
  assumes "\<exists>c \<in> set cs. check_key c \<notin> set (dict_keys d)"
  shows "\<exists>m. par_call pd cs (CallPos d kw) = Inl (KeyError, (pd, m))"
proof -
  have "check_errors (par_store d kw) cs = Inl KeyError"
    using assms by (intro check_errors_missing) (simp add: par_store_keys)
  then show ?thesis by (simp add: par_call_def par_eq)
qed

theorem par_positional_raises_witness:
  "(\<exists>m. par_call par_dict_default par_check_default (CallPos [(''Y'', 0.6)] []) =
        Inl (KeyError, (par_dict_default, m)))"
proof -
  have h: "\<exists>c \<in> set par_check_default. check_key c \<notin> set (dict_keys [(''Y'', 0.6::real)])"
    by (simp add: par_check_default_def dict_keys_def)
  show ?thesis using h par_positional_raises[OF h, of par_dict_default "[]"] by simp
qed

end
