(* ===== verification/Accessor.thy ===== *)
theory Accessor
  imports Catalog
begin

text \<open>
  The value accessor \<^verbatim>\<open>model_get(parLoc)\<close> (lines 373--399): it scans the
  whole catalog, and for the variable named \<open>parLoc\<close> reads the start value,
  the first or last sample of the last simulation result, or the override of
  the last run, depending on its causality and variability. The globals
  \<^verbatim>\<open>sim_res\<close> and \<^verbatim>\<open>start_values\<close> exist only after the first run: they are
  \<open>option\<close>s, and \<open>None\<close> is the \<open>NameError\<close> the function catches.
\<close>

text \<open>A simulation result: FMPy's structured array, one column per
  recorded variable and one for \<^verbatim>\<open>time\<close>.\<close>

type_synonym sim_result = "(string, real list) pydict"

text \<open>\<^verbatim>\<open>sim_res[name]\<close>: numpy raises \<open>ValueError\<close> for a missing field.\<close>

definition res_col :: "sim_result \<Rightarrow> string \<Rightarrow> py_error + real list" where
  "res_col r n = (case map_of r n of None \<Rightarrow> Inl ValueError | Some ts \<Rightarrow> Inr ts)"

text \<open>Lines 378--398 for one catalog entry: the value (\<open>None\<close> is Python's
  \<^verbatim>\<open>None\<close>) and the lines printed, or the exception that escapes.\<close>

definition model_get_var ::
    "model_variable \<Rightarrow> sim_result option \<Rightarrow> (string, real option) pydict option \<Rightarrow>
     py_error + (real option \<times> msg list)"
where
  "model_get_var v sr sv =
     (if mv_causality v = Local \<and> mv_variability v = Constant then
        (case py_float (mv_start v) of Inl e \<Rightarrow> Inl e | Inr x \<Rightarrow> Inr (Some x, []))
      else if mv_causality v = Parameter then
        (case py_float (mv_start v) of Inl e \<Rightarrow> Inl e | Inr x \<Rightarrow> Inr (Some x, []))
      else if mv_causality v = CalculatedParameter then
        (case sr of
           None \<Rightarrow> Inr (None, [MsgAfterFirstSimulation])
         | Some r \<Rightarrow> (case res_col r (mv_name v) of
                        Inl e \<Rightarrow> Inl e
                      | Inr [] \<Rightarrow> Inl IndexError
                      | Inr (x # _) \<Rightarrow> Inr (Some x, [])))
      else (case sv of
              None \<Rightarrow> Inr (None, [MsgAfterFirstSimulation])
            | Some svd \<Rightarrow>
                if mv_name v \<in> set (dict_keys svd) then Inr (the (map_of svd (mv_name v)), [])
                else if mv_variability v = Continuous then
                  (case sr of
                     None \<Rightarrow> Inr (None, [MsgAfterFirstSimulation])
                   | Some r \<Rightarrow> (case res_col r (mv_name v) of
                                  Inl ValueError \<Rightarrow> Inr (None, [MsgNotLogged])
                                | Inl e \<Rightarrow> Inl e
                                | Inr ts \<Rightarrow> if ts = [] then Inl IndexError
                                            else Inr (Some (last ts), [])))
                else Inr (None, [])))"

text \<open>The loop of lines 376--398: every entry named \<open>parLoc\<close> assigns
  \<^verbatim>\<open>value\<close>; \<open>None\<close> in the accumulator is a \<^verbatim>\<open>value\<close> never assigned.\<close>

fun model_get_loop ::
    "string \<Rightarrow> catalog \<Rightarrow> sim_result option \<Rightarrow> (string, real option) pydict option \<Rightarrow>
     real option option \<times> msg list \<Rightarrow> py_error + (real option option \<times> msg list)"
where
  "model_get_loop n [] sr sv acc = Inr acc"
| "model_get_loop n (v # vs) sr sv (val, m) =
     (if mv_name v = n then
        (case model_get_var v sr sv of
           Inl e \<Rightarrow> Inl e
         | Inr (x, m') \<Rightarrow> model_get_loop n vs sr sv (Some x, m @ m'))
      else model_get_loop n vs sr sv (val, m))"

text \<open>Line 399: \<^verbatim>\<open>return value\<close> raises \<open>UnboundLocalError\<close> when no
  entry had the name.\<close>

definition model_get ::
    "string \<Rightarrow> catalog \<Rightarrow> sim_result option \<Rightarrow> (string, real option) pydict option \<Rightarrow>
     py_error + (real option \<times> msg list)"
where
  "model_get n cat sr sv =
     (case model_get_loop n cat sr sv (None, []) of
        Inl e \<Rightarrow> Inl e
      | Inr (None, m) \<Rightarrow> Inl UnboundLocalError
      | Inr (Some x, m) \<Rightarrow> Inr (x, m))"

section \<open>Lemmas\<close>

lemma model_get_loop_miss:
  "n \<notin> mv_name ` set vs \<Longrightarrow> model_get_loop n vs sr sv acc = Inr acc"
  by (induction n vs sr sv acc rule: model_get_loop.induct) auto

lemma model_get_loop_hit:
  assumes "n \<notin> mv_name ` set vs" "mv_name v = n"
  shows "model_get_loop n (v # vs) sr sv (val, m) =
           (case model_get_var v sr sv of Inl e \<Rightarrow> Inl e | Inr (x, m') \<Rightarrow> Inr (Some x, m @ m'))"
  using assms by (simp add: model_get_loop_miss split: sum.split)

lemma model_get_find:
  assumes "wf_catalog cat"
  shows "model_get n cat sr sv =
           (case find (\<lambda>v. mv_name v = n) cat of
              None \<Rightarrow> Inl UnboundLocalError
            | Some v \<Rightarrow> model_get_var v sr sv)"
  using assms
proof (induction cat)
  case Nil
  then show ?case by (simp add: model_get_def)
next
  case (Cons v vs)
  then have d: "wf_catalog vs" "mv_name v \<notin> mv_name ` set vs"
    by (auto simp: wf_catalog_def catalog_names_def)
  show ?case
  proof (cases "mv_name v = n")
    case True
    with d model_get_loop_hit[of n vs v sr sv None "[]"] show ?thesis
      by (simp add: model_get_def split: sum.split)
  next
    case False
    with Cons.IH d show ?thesis by (simp add: model_get_def)
  qed
qed

lemma find_name:
  "wf_catalog cat \<Longrightarrow> v \<in> set cat \<Longrightarrow> find (\<lambda>w. mv_name w = mv_name v) cat = Some v"
  by (induction cat) (auto simp: wf_catalog_def catalog_names_def)

lemma find_name_None:
  "n \<notin> set (catalog_names cat) \<Longrightarrow> find (\<lambda>w. mv_name w = n) cat = None"
  by (induction cat) (auto simp: catalog_names_def)

lemma wf_bpl: "wf_catalog bpl_catalog"
  by (simp add: wf_catalog_def catalog_names_def bpl_catalog_def)

text \<open>The exceptions that escape \<^verbatim>\<open>model_get\<close>: it catches
  \<open>NameError\<close> itself.\<close>

lemma py_float_error: "py_float s = Inl e \<Longrightarrow> e \<in> {TypeError, ValueError}"
  by (auto simp: py_float_def split: option.splits startval.splits)

lemma res_col_error: "res_col r n = Inl e \<Longrightarrow> e = ValueError"
  by (simp add: res_col_def split: option.splits)

lemma model_get_var_error:
  "model_get_var v sr sv = Inl e \<Longrightarrow> e \<in> {TypeError, ValueError, IndexError}"
  by (auto simp: model_get_var_def dest: py_float_error res_col_error
      split: if_splits option.splits sum.splits list.splits py_error.splits)

lemma model_get_loop_error:
  "model_get_loop n cat sr sv acc = Inl e \<Longrightarrow> e \<in> {TypeError, ValueError, IndexError}"
  by (induction n cat sr sv acc rule: model_get_loop.induct)
     (auto dest: model_get_var_error split: if_splits sum.splits prod.splits)

section \<open>Properties of model\_get()\<close>

text \<open>
  Claim C24. Before any run, a constant or a parameter reads as its numeric
  start value, and a continuous local variable reads as \<^verbatim>\<open>None\<close> with the
  diagnostic that information is available after the first simulation.
\<close>

theorem model_get_before_first_run:
  assumes "wf_catalog cat" "v \<in> set cat"
  shows "((mv_causality v = Local \<and> mv_variability v = Constant \<or> mv_causality v = Parameter) \<and>
           mv_start v = Some (Numeric r) \<longrightarrow> model_get (mv_name v) cat None None = Inr (Some r, [])) \<and>
         (mv_causality v = Local \<and> mv_variability v = Continuous \<longrightarrow>
           model_get (mv_name v) cat None None = Inr (None, [MsgAfterFirstSimulation]))"
  using assms by (auto simp: model_get_find find_name model_get_var_def py_float_def)

theorem model_get_before_first_run_witness:
  "wf_catalog bpl_catalog \<and> mvar ''bioreactor.culture.Y'' Parameter Fixed (Some (Numeric 0.5)) None \<in> set bpl_catalog \<and>
   model_get ''bioreactor.culture.Y'' bpl_catalog None None = Inr (Some 0.5, []) \<and>
   wf_catalog bpl_catalog \<and> mvar ''bioreactor.m[1]'' Local Continuous None None \<in> set bpl_catalog \<and>
   model_get ''bioreactor.m[1]'' bpl_catalog None None = Inr (None, [MsgAfterFirstSimulation])"
proof -
  have h1: "mvar ''bioreactor.culture.Y'' Parameter Fixed (Some (Numeric 0.5)) None \<in> set bpl_catalog"
    and h2: "mvar ''bioreactor.m[1]'' Local Continuous None None \<in> set bpl_catalog"
    by (simp_all add: bpl_catalog_def)
  show ?thesis
    using model_get_before_first_run[OF wf_bpl h1, of "0.5"] model_get_before_first_run[OF wf_bpl h2]
      wf_bpl h1 h2 by simp
qed

text \<open>
  Claim C25. A name that is no variable of the catalog makes
  \<^verbatim>\<open>model_get\<close> raise \<open>UnboundLocalError\<close> at \<^verbatim>\<open>return value\<close>, before or
  after any run.
\<close>

theorem model_get_unknown_name:
  assumes "n \<notin> set (catalog_names cat)"
  shows "model_get n cat sr sv = Inl UnboundLocalError"
proof -
  have "n \<notin> mv_name ` set cat" using assms by (simp add: catalog_names_def)
  then show ?thesis by (simp add: model_get_def model_get_loop_miss)
qed

theorem model_get_unknown_name_witness:
  "''bioreactor.X'' \<notin> set (catalog_names bpl_catalog) \<and>
   model_get ''bioreactor.X'' bpl_catalog None None = Inl UnboundLocalError"
proof -
  have h: "''bioreactor.X'' \<notin> set (catalog_names bpl_catalog)"
    by (simp add: catalog_names_def bpl_catalog_def)
  show ?thesis using h model_get_unknown_name[OF h] by simp
qed

text \<open>
  Claim C26. After a run, a continuous local variable that is no override
  reads as the last sample of its recorded column, and as \<^verbatim>\<open>None\<close> with
  the diagnostic "Variable not logged" when the run did not record it.
\<close>

theorem model_get_after_run:
  assumes "wf_catalog cat" "v \<in> set cat" "mv_causality v = Local" "mv_variability v = Continuous"
    and "mv_name v \<notin> set (dict_keys svd)"
  shows "(map_of r (mv_name v) = Some ts \<and> ts \<noteq> [] \<longrightarrow>
            model_get (mv_name v) cat (Some r) (Some svd) = Inr (Some (last ts), [])) \<and>
         (map_of r (mv_name v) = None \<longrightarrow>
            model_get (mv_name v) cat (Some r) (Some svd) = Inr (None, [MsgNotLogged]))"
  using assms by (auto simp: model_get_find find_name model_get_var_def res_col_def)

theorem model_get_after_run_witness:
  "wf_catalog bpl_catalog \<and> mvar ''bioreactor.c[1]'' Local Continuous None None \<in> set bpl_catalog \<and>
   model_get ''bioreactor.c[1]'' bpl_catalog (Some [(''time'', [0, 5]), (''bioreactor.c[1]'', [1, 3])]) (Some []) =
     Inr (Some 3, []) \<and>
   model_get ''bioreactor.c[1]'' bpl_catalog (Some [(''time'', [0, 5])]) (Some []) =
     Inr (None, [MsgNotLogged])"
proof -
  have h: "mvar ''bioreactor.c[1]'' Local Continuous None None \<in> set bpl_catalog"
    by (simp add: bpl_catalog_def)
  have k: "mv_name (mvar ''bioreactor.c[1]'' Local Continuous None None) \<notin> set (dict_keys [])"
    by simp
  show ?thesis
    using model_get_after_run[OF wf_bpl h _ _ k, of "[(''time'', [0, 5]), (''bioreactor.c[1]'', [1, 3])]" "[1, 3]"]
      model_get_after_run[OF wf_bpl h _ _ k, of "[(''time'', [0, 5])]"] wf_bpl h
    by simp
qed

end
