(* ===== verification/Selector.thy ===== *)
theory Selector
  imports Catalog
begin

text \<open>
  The output variable selector: \<^verbatim>\<open>extract_variables(diagrams)\<close>, the helper
  inside \<^verbatim>\<open>simu()\<close> (lines 482--489), and the set of variables a run asks
  the FMU to record (lines 506 and 542):
  \<^verbatim>\<open>list(set(extract_variables(diagrams) + list(stateDict.keys()) + key_variables))\<close>.
  The order of a list built from a set is arbitrary in Python, so the request
  carries the set.
\<close>

text \<open>Lines 483--489: for every diagram command, in order, every local
  variable whose name occurs in the command text.\<close>

definition extract_variables :: "catalog \<Rightarrow> string list \<Rightarrow> string list" where
  "extract_variables cat diagrams =
     concat (map (\<lambda>d. map mv_name (filter (\<lambda>v. py_in (mv_name v) d) (locals_of cat))) diagrams)"

definition simu_output ::
    "catalog \<Rightarrow> string list \<Rightarrow> (string, real option) pydict \<Rightarrow> string list \<Rightarrow> string set" where
  "simu_output cat diagrams sd kv = set (extract_variables cat diagrams @ dict_keys sd @ kv)"

end
