(* ===== verification/Plot.thy ===== *)
theory Plot
  imports Prelude
begin

text \<open>
  The plot state the driver depends on: the pen cycle \<^verbatim>\<open>linecycler\<close> that
  \<^verbatim>\<open>setLines()\<close> creates (lines 458--461) and \<^verbatim>\<open>next(linecycler)\<close> advances,
  and the list of diagram commands that \<^verbatim>\<open>newplot()\<close> (lines 197--304)
  installs for \<^verbatim>\<open>simu()\<close> and \<^verbatim>\<open>show()\<close> to evaluate. The figure and axes
  calls of matplotlib are drawing effects and are not modelled; evaluating a
  command is an external render step of the driver.
\<close>

text \<open>\<^verbatim>\<open>itertools.cycle(lines)\<close>: the list and the number of items taken;
  \<open>None\<close> until \<^verbatim>\<open>setLines()\<close> has run (the global does not exist).\<close>

type_synonym linecycler = "(string list \<times> nat) option"

definition default_lines :: "string list" where
  "default_lines = [''-'', ''--'', '':'', ''-.'']"

definition set_lines :: "string list \<Rightarrow> linecycler" where
  "set_lines lines = Some (lines, 0)"

text \<open>\<^verbatim>\<open>next(linecycler)\<close>: \<open>NameError\<close> before \<^verbatim>\<open>setLines()\<close>,
  \<open>StopIteration\<close> on the cycle of an empty list.\<close>

definition next_line :: "linecycler \<Rightarrow> py_error + (string \<times> linecycler)" where
  "next_line lc = (case lc of
       None \<Rightarrow> Inl NameError
     | Some (ls, i) \<Rightarrow> if ls = [] then Inl StopIteration
                       else Inr (ls ! (i mod length ls), Some (ls, Suc i)))"

text \<open>The commands of lines 226--301 for each plot type.\<close>

definition newplot_diagrams :: "string \<Rightarrow> string list option" where
  "newplot_diagrams plotType =
     (if plotType = ''TimeSeries'' then Some
        [''ax1.plot(sim_res['time'],sim_res['bioreactor.c[1]'],color='r',linestyle=linetype)'',
         ''ax1.plot(sim_res['time'],sim_res['bioreactor.c[2]'],color='b',linestyle=linetype)'',
         ''ax2.plot(sim_res['time'],sim_res['bioreactor.culture.mu'],color='r',linestyle=linetype)'']
      else if plotType = ''TimeSeries2'' then Some
        [''ax1.plot(sim_res['time'],sim_res['bioreactor.c[1]'],color='b',linestyle=linetype)'',
         ''ax2.plot(sim_res['time'],sim_res['bioreactor.c[2]'],color='b',linestyle=linetype)'']
      else if plotType = ''Demo_1'' then Some
        [''ax1.plot(sim_res['time'],sim_res['bioreactor.c[2]'],color='b',linestyle=linetype)'',
         ''ax2.plot(sim_res['time'],sim_res['bioreactor.c[1]'],color='r',linestyle=linetype)'']
      else if plotType = ''Demo_2'' then Some
        [''ax1.plot(sim_res['time'],sim_res['bioreactor.c[2]'],'b*')'',
         ''ax2.plot(sim_res['time'],sim_res['bioreactor.c[1]'],'r*')'']
      else if plotType = ''PhasePlane'' then Some
        [''ax.plot(sim_res['bioreactor.m[1]'],sim_res['bioreactor.m[2]'],color='b',linestyle=linetype)'']
      else None)"

text \<open>\<^verbatim>\<open>newplot(title, plotType)\<close> on the pair (\<^verbatim>\<open>diagrams\<close>,
  \<^verbatim>\<open>linecycler\<close>): the pens are reset first, whatever the type; an unknown
  type prints and leaves the commands as they were.\<close>

definition newplot ::
    "string \<Rightarrow> string list \<times> linecycler \<Rightarrow> (string list \<times> linecycler) \<times> msg list" where
  "newplot plotType st =
     (let lc = set_lines default_lines
      in case newplot_diagrams plotType of
           Some ds \<Rightarrow> ((ds, lc), [])
         | None \<Rightarrow> ((fst st, lc), [MsgPlotTypeNotCorrect]))"

end
