(* ===== verification/Describe.thy ===== *)
theory Describe
  imports Accessor Names "HOL-Library.Char_ord" "HOL-Library.List_Lexorder"
begin

text \<open>
  The description functions that read the model: the component names of
  \<^verbatim>\<open>describe_parts()\<close> (lines 566--594), which appends to the list it is
  given, and that list is the global \<^verbatim>\<open>component_list_minimum\<close> when
  \<^verbatim>\<open>describe('parts')\<close> calls it; the value display \<^verbatim>\<open>disp()\<close>
  (lines 416--455) with its helper \<^verbatim>\<open>dict_reverser\<close>; and the lookups
  \<^verbatim>\<open>model_get_variable_description/unit()\<close> (lines 401--413).
\<close>

section \<open>Component names\<close>

text \<open>The loop of lines 574--581: append \<^verbatim>\<open>variable_name[i]\<close> to
  \<^verbatim>\<open>name\<close> until the last character or until the next one is
  \<^verbatim>\<open>.\<close> or \<^verbatim>\<open>(\<close>. An index past the end raises \<open>IndexError\<close>;
  from \<open>i = 0\<close> on a non-empty name it never happens.\<close>

function model_component_loop :: "string \<Rightarrow> nat \<Rightarrow> string \<Rightarrow> py_error + string" where
  "model_component_loop v i name =
     (if length v \<le> i then Inl IndexError
      else let name' = name @ [v ! i]
           in if i = length v - 1 then Inr name'
              else if v ! Suc i \<in> set ''.('' then Inr name'
              else model_component_loop v (Suc i) name')"
  by pat_completeness auto
termination
  by (relation "measure (\<lambda>(v, i, name). length v - i)") auto

text \<open>Names the function maps to the empty component (line 582).\<close>

definition component_blank :: "string list" where
  "component_blank = [''der'', ''temp_1'', ''temp_2'', ''temp_3'', ''temp_4'', ''temp_5'', ''temp_6'', ''temp_7'']"

text \<open>\<^verbatim>\<open>model_component(variable_name)\<close>, lines 569--583:
  \<^verbatim>\<open>variable_name[0]\<close> raises on the empty name.\<close>

definition model_component :: "string \<Rightarrow> py_error + string" where
  "model_component v =
     (case py_at v 0 of
        Inl e \<Rightarrow> Inl e
      | Inr c0 \<Rightarrow>
          (case (if c0 \<noteq> CHR ''_'' then model_component_loop v 0 [] else Inr []) of
             Inl e \<Rightarrow> Inl e
           | Inr name \<Rightarrow> Inr (if name \<in> set component_blank then [] else name)))"

text \<open>The components line 591 never lists.\<close>

definition component_excluded :: "string list" where
  "component_excluded = [[], ''BPL'', ''Customer'', ''today[1]'', ''today[2]'', ''today[3]'', ''temp_2'', ''temp_3'']"

text \<open>One iteration of lines 588--592 on the list \<^verbatim>\<open>component_list\<close>,
  which Python mutates in place: a raise keeps the appends made so far.\<close>

definition part_step :: "string \<Rightarrow> string list \<Rightarrow> string list outcome" where
  "part_step v cl =
     olift (model_component v) cl (\<lambda>c.
       Inr (if c \<notin> set cl \<and> c \<notin> set component_excluded then cl @ [c] else cl))"

text \<open>\<^verbatim>\<open>str.casefold\<close> on the ASCII letters of Modelica names.\<close>

definition lower_ascii :: "char \<Rightarrow> char" where
  "lower_ascii c = (if (65::nat) \<le> of_char c \<and> of_char c \<le> (90::nat) then char_of (of_char c + (32::nat)) else c)"

definition py_casefold :: "string \<Rightarrow> string" where
  "py_casefold s = map lower_ascii s"

text \<open>\<^verbatim>\<open>describe_parts(component_list)\<close>, lines 566--594: the list after
  the loop and the printed line \<^verbatim>\<open>sorted(component_list,
  key=str.casefold)\<close> (a stable sort, as \<open>sort_key\<close> is).\<close>

definition describe_parts :: "catalog \<Rightarrow> string list \<Rightarrow> (string list \<times> msg list) outcome" where
  "describe_parts cat cl =
     (case ofold part_step (catalog_names cat) cl of
        Inl (e, cl') \<Rightarrow> Inl (e, (cl', []))
      | Inr cl' \<Rightarrow> Inr (cl', [MsgParts (sort_key py_casefold cl')]))"

text \<open>Line 119: \<^verbatim>\<open>component_list_minimum\<close>, the list \<^verbatim>\<open>describe('parts')\<close>
  passes and \<^verbatim>\<open>describe_parts\<close> extends.\<close>

definition component_list_minimum :: "string list" where
  "component_list_minimum = [''bioreactor'', ''bioreactor.culture'']"

text \<open>The reference: the first character, then the characters up to the
  first \<^verbatim>\<open>.\<close> or \<^verbatim>\<open>(\<close>.\<close>

definition component_of :: "string \<Rightarrow> string" where
  "component_of v =
     (if hd v = CHR ''_'' then []
      else let name = hd v # takeWhile (\<lambda>c. c \<notin> set ''.('') (tl v)
           in if name \<in> set component_blank then [] else name)"

text \<open>The list after the loop, by the reference.\<close>

definition add_part :: "string \<Rightarrow> string list \<Rightarrow> string list" where
  "add_part c cl = (if c \<notin> set cl \<and> c \<notin> set component_excluded then cl @ [c] else cl)"

section \<open>Display of parameters\<close>

text \<open>\<^verbatim>\<open>dict_reverser(d)\<close>, lines 420--422. The set \<^verbatim>\<open>seen\<close> is never
  filled: the test \<^verbatim>\<open>v not in seen\<close> is always true and
  \<^verbatim>\<open>seen.add(v)\<close> never runs, so the comprehension is
  \<^verbatim>\<open>{v: k for k, v in d.items()}\<close> and a later key overwrites an
  earlier one with the same value.\<close>

definition dict_reverser :: "('k, 'v) pydict \<Rightarrow> ('v, 'k) pydict" where
  "dict_reverser d = dict_of (map (\<lambda>(k, v). (v, k)) (filter (\<lambda>(k, v). v \<notin> {}) d))"

text \<open>\<^verbatim>\<open>np.round(x, decimals)\<close>: to the nearest multiple of
  \<open>10 ^ -decimals\<close>, ties to the even one (on exact reals).\<close>

definition np_round :: "int \<Rightarrow> real \<Rightarrow> real" where
  "np_round d x =
     (let p = (10::real) ^ nat d; q = (10::real) ^ nat (- d); y = x * p / q; f = \<lfloor>y\<rfloor>;
          r = y - of_int f;
          n = (if r < 1 / 2 then f else if 1 / 2 < r then f + 1 else if even f then f else f + 1)
      in of_int n * q / p)"

text \<open>\<^verbatim>\<open>[parLocation[k] for k in parDict.keys()]\<close> (lines 426 and 444).\<close>

fun dict_gets :: "('k, 'v) pydict \<Rightarrow> 'k list \<Rightarrow> py_error + 'v list" where
  "dict_gets d [] = Inr []"
| "dict_gets d (k # ks) =
     (case dict_get d k of
        Inl e \<Rightarrow> Inl e
      | Inr v \<Rightarrow> (case dict_gets d ks of Inl e \<Rightarrow> Inl e | Inr vs \<Rightarrow> Inr (v # vs)))"

text \<open>The reads of \<^verbatim>\<open>disp()\<close>: \<^verbatim>\<open>model_get\<close> on the globals of the last
  run.\<close>

record disp_ctx =
  dc_catalog :: catalog
  dc_sim_res :: "sim_result option"
  dc_start_values :: "(string, real option) pydict option"
  dc_par_dict :: "(string, real) pydict"
  dc_par_location :: "(string, string) pydict"

definition dc_get :: "disp_ctx \<Rightarrow> string \<Rightarrow> py_error + (real option \<times> msg list)" where
  "dc_get c loc = model_get loc (dc_catalog c) (dc_sim_res c) (dc_start_values c)"

text \<open>One printed entry: \<^verbatim>\<open>type(model_get(check_loc)) != np.bool_\<close> (a
  \<^verbatim>\<open>float\<close> or \<^verbatim>\<open>None\<close> is never \<^verbatim>\<open>np.bool_\<close>, so the \<^verbatim>\<open>else\<close>
  branches of lines 430 and 439 never run), then the labels, then
  \<^verbatim>\<open>np.round(model_get(val_loc), decimals)\<close>, which raises
  \<open>TypeError\<close> on \<^verbatim>\<open>None\<close>. The lines \<^verbatim>\<open>model_get\<close> prints stay
  printed when a later step raises.\<close>

definition disp_entry ::
    "disp_ctx \<Rightarrow> int \<Rightarrow> string \<Rightarrow> py_error + string list \<Rightarrow> py_error + string \<Rightarrow> msg list \<Rightarrow> msg list outcome"
where
  "disp_entry c d check_loc labels val_loc out =
     olift (dc_get c check_loc) out (\<lambda>(_, m1).
       let out1 = out @ m1
       in olift labels out1 (\<lambda>ls.
            olift val_loc out1 (\<lambda>vl.
              olift (dc_get c vl) out1 (\<lambda>(x, m2).
                let out2 = out1 @ m2
                in case x of
                     None \<Rightarrow> Inl (TypeError, out2)
                   | Some v \<Rightarrow> Inr (out2 @ [MsgDisp ls (np_round d v)])))))"

text \<open>The first loop of each mode (lines 426--433 and 444--449): an entry for
  every location that contains \<^verbatim>\<open>name\<close>, and the count \<^verbatim>\<open>k\<close> of the
  others.\<close>

definition disp_loc_step ::
    "disp_ctx \<Rightarrow> string \<Rightarrow> int \<Rightarrow> bool \<Rightarrow> string \<Rightarrow> msg list \<times> nat \<Rightarrow> (msg list \<times> nat) outcome"
where
  "disp_loc_step c name d long loc st =
     (let (out, k) = st
      in if py_in name loc then
           (case disp_entry c d loc
                   (map_sum id (\<lambda>r. if long then [loc, r] else [r])
                      (dict_get (dict_reverser (dc_par_location c)) loc))
                   (Inr loc) out of
              Inl (e, out') \<Rightarrow> Inl (e, (out', k))
            | Inr out' \<Rightarrow> Inr (out', k))
         else Inr (out, Suc k))"

text \<open>The second loop of each mode (lines 434--440 and 450--455), over the
  parameter names that contain \<^verbatim>\<open>name\<close>. Its type check reads
  \<^verbatim>\<open>model_get(Location)\<close> with the variable \<^verbatim>\<open>Location\<close> left over from
  the first loop (\<open>None\<close>: never assigned, \<open>UnboundLocalError\<close>).\<close>

definition disp_par_step ::
    "disp_ctx \<Rightarrow> string \<Rightarrow> int \<Rightarrow> bool \<Rightarrow> string option \<Rightarrow> string \<Rightarrow> msg list \<Rightarrow> msg list outcome"
where
  "disp_par_step c name d long stale pn out =
     (if py_in name pn then
        (case stale of
           None \<Rightarrow> Inl (UnboundLocalError, out)
         | Some l \<Rightarrow>
             disp_entry c d l
               (if long then
                  (case dict_get (dc_par_location c) pn of
                     Inl e \<Rightarrow> Inl e
                   | Inr pl \<Rightarrow> map_sum id (\<lambda>r. [pl, r, pn]) (dict_get (dict_reverser (dc_par_location c)) l))
                else Inr [pn])
               (dict_get (dc_par_location c) pn) out)
      else Inr out)"

text \<open>One mode of \<^verbatim>\<open>disp()\<close>: the first loop, and the second one only
  when the count of non-matching locations equals \<^verbatim>\<open>len(parLocation)\<close>.\<close>

definition disp_mode :: "disp_ctx \<Rightarrow> string \<Rightarrow> int \<Rightarrow> bool \<Rightarrow> msg list \<Rightarrow> msg list outcome" where
  "disp_mode c name d long out =
     olift (dict_gets (dc_par_location c) (dict_keys (dc_par_dict c))) out (\<lambda>locs.
       case ofold (disp_loc_step c name d long) locs (out, 0) of
         Inl (e, (out', k)) \<Rightarrow> Inl (e, out')
       | Inr (out', k) \<Rightarrow>
           if k = length (dict_keys (dc_par_location c)) then
             ofold (disp_par_step c name d long (if locs = [] then None else Some (last locs)))
               (dict_keys (dc_par_dict c)) out'
           else Inr out')"

text \<open>\<^verbatim>\<open>disp(name, decimals, mode)\<close>, lines 416--455, on the printed lines.\<close>

definition disp :: "disp_ctx \<Rightarrow> string \<Rightarrow> int \<Rightarrow> string \<Rightarrow> msg list \<Rightarrow> msg list outcome" where
  "disp c name d mode out =
     obind (if mode \<in> set [''short''] then disp_mode c name d False out else Inr out) (\<lambda>out1.
       if mode \<in> set [''long'', ''location''] then disp_mode c name d True out1 else Inr out1)"

section \<open>Descriptions and units\<close>

text \<open>\<^verbatim>\<open>model_get_variable_description(parLoc)\<close> and
  \<^verbatim>\<open>model_get_variable_unit(parLoc)\<close>, lines 401--413: the field of the
  first variable whose name contains \<^verbatim>\<open>parLoc\<close> as a substring;
  \<^verbatim>\<open>value[0]\<close> raises \<open>IndexError\<close> when no name does.\<close>

definition model_get_variable_description :: "string \<Rightarrow> catalog \<Rightarrow> py_error + string" where
  "model_get_variable_description parLoc par_var =
     (case map mv_description (filter (\<lambda>x. py_in parLoc (mv_name x)) par_var) of
        [] \<Rightarrow> Inl IndexError
      | v # _ \<Rightarrow> Inr v)"

text \<open>Lines 408--413.\<close>

definition model_get_variable_unit :: "string \<Rightarrow> catalog \<Rightarrow> py_error + string" where
  "model_get_variable_unit parLoc par_var =
     (case map mv_unit (filter (\<lambda>x. py_in parLoc (mv_name x)) par_var) of
        [] \<Rightarrow> Inl IndexError
      | v # _ \<Rightarrow> Inr v)"


section \<open>Lemmas\<close>

declare model_component_loop.simps [simp del]

lemma model_component_loop_eq:
  "i < length v \<Longrightarrow>
   model_component_loop v i name = Inr (name @ v ! i # takeWhile (\<lambda>c. c \<notin> set ''.('') (drop (Suc i) v))"
proof (induction v i name rule: model_component_loop.induct)
  case (1 v i name)
  have ne: "\<not> length v \<le> i" using "1.prems" by simp
  show ?case
  proof (cases "i = length v - 1")
    case True
    then have "drop (Suc i) v = []" using "1.prems" by simp
    then show ?thesis using True ne by (subst model_component_loop.simps) (simp add: Let_def)
  next
    case False
    then have si: "Suc i < length v" using "1.prems" by simp
    have d: "drop (Suc i) v = v ! Suc i # drop (Suc (Suc i)) v" using si by (simp add: Cons_nth_drop_Suc)
    show ?thesis
    proof (cases "v ! Suc i \<in> set ''.(''")
      case True
      then show ?thesis using False ne d by (subst model_component_loop.simps) (simp add: Let_def)
    next
      case nd: False
      have "model_component_loop v (Suc i) (name @ [v ! i]) =
              Inr ((name @ [v ! i]) @ v ! Suc i # takeWhile (\<lambda>c. c \<notin> set ''.('') (drop (Suc (Suc i)) v))"
        using "1.IH"[OF ne refl False nd] si by simp
      then show ?thesis using False ne d nd by (subst model_component_loop.simps) (simp add: Let_def)
    qed
  qed
qed

lemma model_component_eq: "v \<noteq> [] \<Longrightarrow> model_component v = Inr (component_of v)"
proof -
  assume v: "v \<noteq> []"
  then have at: "py_at v 0 = Inr (hd v)" by (simp add: py_at_def hd_conv_nth)
  have loop: "model_component_loop v 0 [] = Inr (hd v # takeWhile (\<lambda>c. c \<notin> set ''.('') (tl v))"
    using model_component_loop_eq[of 0 v "[]"] v by (simp add: hd_conv_nth drop_Suc)
  show ?thesis using at loop by (simp add: model_component_def component_of_def Let_def)
qed

lemma part_step_ok: "v \<noteq> [] \<Longrightarrow> part_step v cl = Inr (add_part (component_of v) cl)"
  by (simp add: part_step_def model_component_eq add_part_def)

lemma ofold_part_step:
  "\<forall>v \<in> set vs. v \<noteq> [] \<Longrightarrow> ofold part_step vs cl = Inr (fold (\<lambda>v. add_part (component_of v)) vs cl)"
  by (induction vs arbitrary: cl) (simp_all add: part_step_ok)

lemma fold_add_part:
  "distinct cl \<Longrightarrow>
   prefix cl (fold (\<lambda>v. add_part (component_of v)) vs cl) \<and>
   distinct (fold (\<lambda>v. add_part (component_of v)) vs cl) \<and>
   set (fold (\<lambda>v. add_part (component_of v)) vs cl) = set cl \<union> (component_of ` set vs - set component_excluded)"
proof (induction vs arbitrary: cl)
  case Nil
  then show ?case by simp
next
  case (Cons v vs)
  let ?a = "add_part (component_of v) cl"
  have d: "distinct ?a" using Cons.prems by (simp add: add_part_def)
  have p: "prefix cl ?a" by (simp add: add_part_def)
  have s: "set ?a = set cl \<union> ({component_of v} - set component_excluded)" by (auto simp: add_part_def)
  from Cons.IH[OF d] have
    "prefix ?a (fold (\<lambda>v. add_part (component_of v)) vs ?a) \<and>
     distinct (fold (\<lambda>v. add_part (component_of v)) vs ?a) \<and>
     set (fold (\<lambda>v. add_part (component_of v)) vs ?a) = set ?a \<union> (component_of ` set vs - set component_excluded)" .
  then show ?case using p s by (auto intro: prefix_order.trans)
qed

lemma fold_add_part_fixed:
  "component_of ` set vs - set component_excluded \<subseteq> set cl \<Longrightarrow> fold (\<lambda>v. add_part (component_of v)) vs cl = cl"
  by (induction vs) (auto simp: add_part_def)

lemma fold_add_part_mono: "set cl \<subseteq> set (fold (\<lambda>v. add_part (component_of v)) vs cl)"
  by (induction vs arbitrary: cl) (fastforce simp: add_part_def)+

lemma fold_add_part_covers:
  "component_of ` set vs - set component_excluded \<subseteq> set (fold (\<lambda>v. add_part (component_of v)) vs cl)"
proof (induction vs arbitrary: cl)
  case Nil
  then show ?case by simp
next
  case (Cons v vs)
  have "component_of v \<notin> set component_excluded \<Longrightarrow> component_of v \<in> set (add_part (component_of v) cl)"
    by (simp add: add_part_def)
  then have "component_of v \<notin> set component_excluded \<Longrightarrow>
             component_of v \<in> set (fold (\<lambda>v. add_part (component_of v)) vs (add_part (component_of v) cl))"
    using fold_add_part_mono by blast
  with Cons.IH[of "add_part (component_of v) cl"] show ?case by auto
qed

lemma describe_parts_bpl:
  "describe_parts bpl_catalog component_list_minimum =
     Inr ([''bioreactor'', ''bioreactor.culture'', ''liquidphase''],
          [MsgParts [''bioreactor'', ''bioreactor.culture'', ''liquidphase'']])"
  by (simp add: describe_parts_def bpl_catalog_def catalog_names_def component_list_minimum_def
      part_step_def model_component_eq component_of_def component_blank_def component_excluded_def
      py_casefold_def lower_ascii_def)

lemma dict_reverser_eq: "dict_reverser d = dict_of (map (\<lambda>(k, v). (v, k)) d)"
  by (simp add: dict_reverser_def)

lemma distinct_values:
  "is_dict d \<Longrightarrow> inj_on (map_of d) (set (dict_keys d)) \<Longrightarrow> distinct (map snd d)"
proof (induction d)
  case Nil
  then show ?case by simp
next
  case (Cons p d)
  obtain k v where p: "p = (k, v)" by (cases p)
  have kd: "k \<notin> set (dict_keys d)" and dd: "is_dict d" using Cons.prems p by (simp_all add: is_dict_def dict_keys_def)
  have "inj_on (map_of (p # d)) (set (dict_keys d))"
    using Cons.prems(2) by (rule inj_on_subset) (simp add: p dict_keys_def subset_insertI)
  moreover have "\<And>x. x \<in> set (dict_keys d) \<Longrightarrow> map_of (p # d) x = map_of d x" using kd p by auto
  ultimately have inj: "inj_on (map_of d) (set (dict_keys d))" using inj_on_cong by blast
  have "v \<notin> set (map snd d)"
  proof
    assume "v \<in> set (map snd d)"
    then obtain k' where k': "(k', v) \<in> set d" by auto
    then have "k' \<in> set (dict_keys d)" by (force simp: dict_keys_def)
    moreover have "map_of d k' = Some v" using k' dd by (simp add: is_dict_def)
    ultimately have "map_of (p # d) k' = map_of (p # d) k" using kd p by auto
    moreover have "k' \<in> set (dict_keys (p # d))" "k \<in> set (dict_keys (p # d))"
      using \<open>k' \<in> set (dict_keys d)\<close> p by (simp_all add: dict_keys_def)
    ultimately have "k' = k" using Cons.prems(2) by (auto dest: inj_onD)
    with kd \<open>k' \<in> set (dict_keys d)\<close> show False by simp
  qed
  with Cons.IH[OF dd inj] p show ?case by simp
qed

lemma dict_gets_ok:
  "set ks \<subseteq> set (dict_keys d) \<Longrightarrow> dict_gets d ks = Inr (map (\<lambda>k. the (map_of d k)) ks)"
  by (induction ks) (auto simp: dict_get_def dict_keys_in_iff split: option.split)

lemma ofold_disp_loc_miss:
  "\<forall>l \<in> set ls. \<not> py_in name l \<Longrightarrow> ofold (disp_loc_step c name d long) ls (out, k) = Inr (out, k + length ls)"
  by (induction ls arbitrary: k) (simp_all add: disp_loc_step_def)

text \<open>The list only grows, also when the loop raises.\<close>

lemma describe_parts_grows: "set cl \<subseteq> set (fst (ostate (describe_parts cat cl)))"
proof -
  have "set cl \<subseteq> set (ostate (ofold part_step (catalog_names cat) cl))"
    by (rule ofold_invariant[where P = "\<lambda>cl'. set cl \<subseteq> set cl'"])
       (auto simp: part_step_def olift_def split: sum.split)
  then show ?thesis by (auto simp: describe_parts_def ostate_def split: sum.split prod.split)
qed

text \<open>\<^verbatim>\<open>disp()\<close> reads \<^verbatim>\<open>parDict\<close> only through its keys: the
  printed lines do not depend on its values.\<close>

lemma dc_get_par_dict [simp]: "dc_get (c\<lparr>dc_par_dict := pd\<rparr>) = dc_get c"
  by (simp add: dc_get_def fun_eq_iff)

lemma disp_entry_par_dict [simp]: "disp_entry (c\<lparr>dc_par_dict := pd\<rparr>) = disp_entry c"
  by (simp add: disp_entry_def fun_eq_iff)

lemma disp_loc_step_par_dict [simp]: "disp_loc_step (c\<lparr>dc_par_dict := pd\<rparr>) = disp_loc_step c"
  by (simp add: disp_loc_step_def fun_eq_iff)

lemma disp_par_step_par_dict [simp]: "disp_par_step (c\<lparr>dc_par_dict := pd\<rparr>) = disp_par_step c"
  by (simp add: disp_par_step_def fun_eq_iff cong: if_cong option.case_cong sum.case_cong)

lemma disp_par_dict_keys:
  assumes "dict_keys pd = dict_keys (dc_par_dict c)"
  shows "disp (c\<lparr>dc_par_dict := pd\<rparr>) name d mode out = disp c name d mode out"
proof -
  have "disp_mode (c\<lparr>dc_par_dict := pd\<rparr>) = disp_mode c"
    using assms by (simp add: disp_mode_def fun_eq_iff cong: if_cong sum.case_cong)
  then show ?thesis by (simp add: disp_def)
qed
section \<open>Properties of the description functions\<close>

text \<open>
  Claim C27. The scan of \<^verbatim>\<open>model_component\<close> (a \<^verbatim>\<open>while\<close> loop
  that ends because its index grows towards the last character) returns on
  every non-empty name, and equals the reference: the first character and the
  characters before the first \<^verbatim>\<open>.\<close> or \<^verbatim>\<open>(\<close>, blanked for
  \<^verbatim>\<open>der\<close> and the \<^verbatim>\<open>temp_\<close> names.
\<close>

theorem model_component_spec: "v \<noteq> [] \<Longrightarrow> model_component v = Inr (component_of v)"
  by (rule model_component_eq)

theorem model_component_spec_witness:
  "''bioreactor.culture.mu'' \<noteq> [] \<and> model_component ''bioreactor.culture.mu'' = Inr ''bioreactor'' \<and>
   ''der(bioreactor.V)'' \<noteq> [] \<and> model_component ''der(bioreactor.V)'' = Inr []"
  using model_component_spec[of "''bioreactor.culture.mu''"] model_component_spec[of "''der(bioreactor.V)''"]
  by (simp add: component_of_def component_blank_def)

text \<open>
  Claim C28. \<^verbatim>\<open>describe_parts\<close> extends the list it is given, without
  duplicates, by exactly the components of the catalog's names that are not
  excluded, and prints that list sorted by \<^verbatim>\<open>str.casefold\<close>.
\<close>

theorem describe_parts_components:
  assumes "\<forall>v \<in> set (catalog_names cat). v \<noteq> []" "distinct cl"
  shows "\<exists>cl'. describe_parts cat cl = Inr (cl', [MsgParts (sort_key py_casefold cl')]) \<and>
           prefix cl cl' \<and> distinct cl' \<and>
           set cl' = set cl \<union> (component_of ` set (catalog_names cat) - set component_excluded)"
  using fold_add_part[OF assms(2), of "catalog_names cat"] ofold_part_step[OF assms(1), of cl]
  by (simp add: describe_parts_def)

theorem describe_parts_components_witness:
  "\<exists>cl'. describe_parts bpl_catalog component_list_minimum = Inr (cl', [MsgParts (sort_key py_casefold cl')]) \<and>
     set cl' = {''bioreactor'', ''bioreactor.culture'', ''liquidphase''}"
proof -
  have h: "\<forall>v \<in> set (catalog_names bpl_catalog). v \<noteq> []" "distinct component_list_minimum"
    by (simp_all add: catalog_names_def bpl_catalog_def component_list_minimum_def)
  from describe_parts_components[OF h] obtain cl' where
    "describe_parts bpl_catalog component_list_minimum = Inr (cl', [MsgParts (sort_key py_casefold cl')])"
    "set cl' = set component_list_minimum \<union>
       (component_of ` set (catalog_names bpl_catalog) - set component_excluded)"
    by blast
  then show ?thesis
    by (intro exI[of _ cl']) (auto simp: catalog_names_def bpl_catalog_def component_list_minimum_def
        component_of_def component_blank_def component_excluded_def)
qed

text \<open>
  Claim C29. \<^verbatim>\<open>describe('parts')\<close> mutates the global
  \<^verbatim>\<open>component_list_minimum\<close>, but a second call finds every component
  already there: it leaves the list as the first call left it and prints the
  same line.
\<close>

theorem describe_parts_idempotent:
  assumes "\<forall>v \<in> set (catalog_names cat). v \<noteq> []" "describe_parts cat cl = Inr (cl', m)"
  shows "describe_parts cat cl' = Inr (cl', m)"
proof -
  let ?f = "fold (\<lambda>v. add_part (component_of v)) (catalog_names cat)"
  have "describe_parts cat cl = Inr (?f cl, [MsgParts (sort_key py_casefold (?f cl))])"
    using ofold_part_step[OF assms(1), of cl] by (simp add: describe_parts_def)
  with assms(2) have c: "cl' = ?f cl" "m = [MsgParts (sort_key py_casefold cl')]" by auto
  have "?f cl' = cl'"
    unfolding c(1) by (rule fold_add_part_fixed[OF fold_add_part_covers])
  then show ?thesis using c ofold_part_step[OF assms(1), of cl'] by (simp add: describe_parts_def)
qed

theorem describe_parts_idempotent_witness:
  "describe_parts bpl_catalog [''bioreactor'', ''bioreactor.culture'', ''liquidphase''] =
     Inr ([''bioreactor'', ''bioreactor.culture'', ''liquidphase''],
          [MsgParts [''bioreactor'', ''bioreactor.culture'', ''liquidphase'']])"
proof -
  have h: "\<forall>v \<in> set (catalog_names bpl_catalog). v \<noteq> []"
    by (simp add: catalog_names_def bpl_catalog_def)
  show ?thesis by (rule describe_parts_idempotent[OF h describe_parts_bpl])
qed

text \<open>
  Claim C30. On a dictionary whose values are distinct,
  \<^verbatim>\<open>dict_reverser\<close> inverts it: the reverse of the value of a key is the
  key. \<^verbatim>\<open>disp()\<close> relies on this for \<^verbatim>\<open>parLocation\<close>.
\<close>

theorem dict_reverser_roundtrip:
  assumes "is_dict d" "inj_on (map_of d) (set (dict_keys d))" "k \<in> set (dict_keys d)"
  shows "map_of (dict_reverser d) (the (map_of d k)) = Some k"
proof -
  have dv: "is_dict (map (\<lambda>(k, v). (v, k)) d)"
    using distinct_values[OF assms(1,2)] by (simp add: is_dict_def comp_def split_def)
  obtain v where v: "map_of d k = Some v" using assms(3) by (auto simp: dict_keys_in_iff)
  then have "(v, k) \<in> set (map (\<lambda>(k, v). (v, k)) d)" by (force dest: map_of_SomeD)
  then have "map_of (map (\<lambda>(k, v). (v, k)) d) v = Some k"
    using dv by (simp add: is_dict_def)
  then show ?thesis
    using v dv by (simp add: dict_reverser_eq map_of_dict_of map_of_rev_dict)
qed

theorem dict_reverser_roundtrip_witness:
  "map_of (dict_reverser par_location_default) ''bioreactor.m_start[1]'' = Some ''VX_start''"
proof -
  have h: "is_dict par_location_default" "inj_on (map_of par_location_default) (set (dict_keys par_location_default))"
    "''VX_start'' \<in> set (dict_keys par_location_default)"
    by (simp_all add: par_location_default_def dict_of_def dict_keys_def is_dict_def)
  show ?thesis using dict_reverser_roundtrip[OF h] by (simp add: par_location_default_def dict_of_def)
qed

text \<open>
  Claim C31. When two keys share a value, \<^verbatim>\<open>dict_reverser\<close> maps the
  value to the last of them: the \<^verbatim>\<open>seen\<close> set meant to keep the first is
  never filled.
\<close>

theorem dict_reverser_last_wins:
  assumes "v \<notin> snd ` set ys"
  shows "map_of (dict_reverser (xs @ (k, v) # ys)) v = Some k"
proof -
  have "map_of (rev (map (\<lambda>(k, v). (v, k)) ys)) v = None"
    using assms by (force simp: map_of_eq_None_iff)
  then show ?thesis by (simp add: dict_reverser_eq map_of_dict_of map_of_append map_add_def)
qed

theorem dict_reverser_last_wins_witness:
  "map_of (dict_reverser [(''V'', ''bioreactor.V''), (''Vol'', ''bioreactor.V'')]) ''bioreactor.V'' = Some ''Vol''"
  using dict_reverser_last_wins[of "''bioreactor.V''" "[]" "[(''V'', ''bioreactor.V'')]" "''Vol''"] by simp

text \<open>
  Claim C32. When no location of a parameter contains \<^verbatim>\<open>name\<close> and
  \<^verbatim>\<open>parDict\<close> has fewer keys than \<^verbatim>\<open>parLocation\<close> (6 against 10 in
  the script), \<^verbatim>\<open>disp(name)\<close> prints nothing: the search among the
  parameter names is never reached, because it waits for a count of
  non-matching \<^verbatim>\<open>parDict\<close> entries equal to \<^verbatim>\<open>len(parLocation)\<close>.
\<close>

theorem disp_fallback_unreachable:
  assumes "set (dict_keys (dc_par_dict c)) \<subseteq> set (dict_keys (dc_par_location c))"
    and "\<forall>p \<in> set (dict_keys (dc_par_dict c)). \<not> py_in name (the (map_of (dc_par_location c) p))"
    and "length (dict_keys (dc_par_dict c)) \<noteq> length (dict_keys (dc_par_location c))"
  shows "disp c name d ''short'' out = Inr out"
proof -
  let ?locs = "map (\<lambda>k. the (map_of (dc_par_location c) k)) (dict_keys (dc_par_dict c))"
  have "ofold (disp_loc_step c name d False) ?locs (out, 0) = Inr (out, length (dict_keys (dc_par_dict c)))"
    using ofold_disp_loc_miss[of ?locs name c d False out 0] assms(2) by simp
  then show ?thesis using dict_gets_ok[OF assms(1)] assms(3) by (simp add: disp_def disp_mode_def)
qed

theorem disp_fallback_unreachable_witness:
  "disp \<lparr>dc_catalog = bpl_catalog, dc_sim_res = None, dc_start_values = None,
         dc_par_dict = par_dict_default, dc_par_location = par_location_default\<rparr> ''VX_start'' 3 ''short'' [] = Inr []"
proof -
  let ?c = "\<lparr>dc_catalog = bpl_catalog, dc_sim_res = None, dc_start_values = None,
             dc_par_dict = par_dict_default, dc_par_location = par_location_default\<rparr>"
  have h: "set (dict_keys (dc_par_dict ?c)) \<subseteq> set (dict_keys (dc_par_location ?c))"
    "\<forall>p \<in> set (dict_keys (dc_par_dict ?c)). \<not> py_in ''VX_start'' (the (map_of (dc_par_location ?c) p))"
    "length (dict_keys (dc_par_dict ?c)) \<noteq> length (dict_keys (dc_par_location ?c))"
    by (simp_all add: par_dict_default_def par_location_default_def dict_of_def dict_keys_def)
  show ?thesis by (rule disp_fallback_unreachable[OF h])
qed

end
