(* ===== verification/Info.thy ===== *)
theory Info
  imports Describe
begin

text \<open>
  The function \<^verbatim>\<open>describe(name, decimals)\<close> (lines 307--336) and the
  functions it dispatches to: the fixed texts of the culture and the broth,
  \<^verbatim>\<open>describe_parts()\<close> of theory \<open>Describe\<close>, \<^verbatim>\<open>describe_MSL()\<close>
  (lines 597--599), and \<^verbatim>\<open>describe_general()\<close> (lines 602--637), which
  prints the description, value and unit of one variable. They read the
  globals of \<open>disp_ctx\<close> and \<^verbatim>\<open>MSL_usage\<close>; only the branch
  \<^verbatim>\<open>'parts'\<close> changes a global, \<^verbatim>\<open>component_list_minimum\<close>.
\<close>

section \<open>Definitions\<close>

text \<open>One variable of \<^verbatim>\<open>describe_general()\<close> (lines 610--622 and 625--637):
  its description, then \<^verbatim>\<open>model_get\<close> (with the lines it prints), then
  its unit. The name \<^verbatim>\<open>FMUException\<close> is never imported, so when the
  unit lookup raises, evaluating the clause \<^verbatim>\<open>except FMUException\<close>
  raises \<open>NameError\<close> instead of catching the \<open>IndexError\<close>. The value is a \<^verbatim>\<open>float\<close> or
  \<^verbatim>\<open>None\<close>, never \<^verbatim>\<open>np.bool_\<close>, so it is rounded, and
  \<^verbatim>\<open>np.round(None)\<close> raises \<open>TypeError\<close>; the two print formats
  differ only in the unit, which the line carries (empty when there is
  none).\<close>

definition general_entry :: "disp_ctx \<Rightarrow> int \<Rightarrow> string \<Rightarrow> msg list \<Rightarrow> msg list outcome" where
  "general_entry c d loc out =
     olift (model_get_variable_description loc (dc_catalog c)) out (\<lambda>desc.
       olift (dc_get c loc) out (\<lambda>(x, m).
         let out1 = out @ m
         in case model_get_variable_unit loc (dc_catalog c) of
              Inl _ \<Rightarrow> Inl (NameError, out1)
            | Inr unit \<Rightarrow>
                (case x of
                   None \<Rightarrow> Inl (TypeError, out1)
                 | Some v \<Rightarrow> Inr (out1 @ [MsgDescribe desc (Some (np_round d v)) unit]))))"

text \<open>\<^verbatim>\<open>describe_general(name, decimals)\<close>, lines 602--637: the time, a
  parameter name through \<^verbatim>\<open>parLocation\<close>, or a location.\<close>

definition describe_general :: "disp_ctx \<Rightarrow> string \<Rightarrow> int \<Rightarrow> msg list \<Rightarrow> msg list outcome" where
  "describe_general c name d out =
     (if name = ''time'' then Inr (out @ [MsgDescribe ''Time'' None ''h''])
      else if name \<in> set (dict_keys (dc_par_location c))
      then olift (dict_get (dc_par_location c) name) out (\<lambda>loc. general_entry c d loc out)
      else general_entry c d name out)"

text \<open>Lines 316--327: index, description and molecular weight of the two
  substances, read in the order of the source, then four printed lines.\<close>

definition describe_broth :: "disp_ctx \<Rightarrow> msg list \<Rightarrow> msg list outcome" where
  "describe_broth c out =
     olift (dc_get c ''liquidphase.X'') out (\<lambda>(x, m1). let out1 = out @ m1 in
     olift (model_get_variable_description ''liquidphase.X'' (dc_catalog c)) out1 (\<lambda>xd.
     olift (dc_get c ''liquidphase.mw[1]'') out1 (\<lambda>(xmw, m2). let out2 = out1 @ m2 in
     olift (dc_get c ''liquidphase.S'') out2 (\<lambda>(sx, m3). let out3 = out2 @ m3 in
     olift (model_get_variable_description ''liquidphase.S'' (dc_catalog c)) out3 (\<lambda>sd.
     olift (dc_get c ''liquidphase.mw[2]'') out3 (\<lambda>(smw, m4).
       Inr (out3 @ m4 @ [MsgText ''Reactor broth substances included in the model'', MsgText [],
                         MsgSubstance xd x xmw, MsgSubstance sd sx smw])))))))"

text \<open>\<^verbatim>\<open>describe_MSL()\<close>, lines 597--599.\<close>

definition describe_MSL :: "startval option \<Rightarrow> msg list \<Rightarrow> msg list outcome" where
  "describe_MSL msl_usage out = Inr (out @ [MsgMSL msl_usage])"

text \<open>A call that prints and changes no list, on the state of
  \<^verbatim>\<open>describe('parts')\<close>.\<close>

definition keep_list :: "string list \<Rightarrow> msg list outcome \<Rightarrow> (string list \<times> msg list) outcome" where
  "keep_list cl r = (case r of Inl (e, m) \<Rightarrow> Inl (e, (cl, m)) | Inr m \<Rightarrow> Inr (cl, m))"

text \<open>\<^verbatim>\<open>describe(name, decimals)\<close>, lines 307--336: the list
  \<^verbatim>\<open>component_list_minimum\<close> after the call and the lines printed.\<close>

definition describe ::
    "disp_ctx \<Rightarrow> startval option \<Rightarrow> string list \<Rightarrow> string \<Rightarrow> int \<Rightarrow> (string list \<times> msg list) outcome" where
  "describe c msl_usage cl name d =
     (if name = ''culture''
      then Inr (cl, [MsgText ''Simplified text book model - only substrate S and cell concentration X''])
      else if name \<in> set [''broth'', ''liquidphase'', ''media''] then keep_list cl (describe_broth c [])
      else if name \<in> set [''parts''] then describe_parts (dc_catalog c) cl
      else if name \<in> set [''MSL''] then keep_list cl (describe_MSL msl_usage [])
      else keep_list cl (describe_general c name d []))"

section \<open>Lemmas\<close>

lemma fst_ostate_keep_list [simp]: "fst (ostate (keep_list cl r)) = cl"
  by (simp add: keep_list_def ostate_def split: sum.split prod.split)

text \<open>Only \<^verbatim>\<open>describe('parts')\<close> changes the component list, and it
  only adds to it.\<close>

lemma describe_list_grows:
  "set cl \<subseteq> set (fst (ostate (describe c msl cl name d)))"
  using describe_parts_grows[of cl "dc_catalog c"] by (simp add: describe_def)

lemma describe_list_kept:
  "name \<noteq> ''parts'' \<Longrightarrow> fst (ostate (describe c msl cl name d)) = cl"
  by (simp add: describe_def)

text \<open>A variable whose description is found has a unit too: both search
  the same names, so the unit lookup never raises after the description
  lookup returned.\<close>

lemma unit_after_description:
  "model_get_variable_description loc cat = Inr desc \<Longrightarrow> \<exists>u. model_get_variable_unit loc cat = Inr u"
  by (auto simp: model_get_variable_description_def model_get_variable_unit_def split: list.splits)

text \<open>Before the first run \<^verbatim>\<open>model_get\<close> of a continuous local variable
  prints its message and returns \<^verbatim>\<open>None\<close>, and
  \<^verbatim>\<open>describe_general\<close> then raises in \<^verbatim>\<open>np.round\<close>.\<close>

lemma describe_general_before_run:
  "describe_general \<lparr>dc_catalog = bpl_catalog, dc_sim_res = None, dc_start_values = None,
       dc_par_dict = par_dict_default, dc_par_location = par_location_default\<rparr> ''bioreactor.c[1]'' 3 [] =
     Inl (TypeError, [MsgAfterFirstSimulation])"
  by (simp add: describe_general_def general_entry_def dc_get_def par_location_default_def dict_of_def
      dict_keys_def model_get_variable_description_def model_get_variable_unit_def bpl_catalog_def mvar_def
      model_get_def model_get_var_def olift_def)

lemma dc_get_error: "dc_get c loc = Inl e \<Longrightarrow> e \<noteq> NameError"
  using model_get_loop_error
  by (fastforce simp: dc_get_def model_get_def split: sum.splits prod.splits option.splits)

lemma general_entry_error: "general_entry c d loc out \<noteq> Inl (NameError, out')"
proof
  assume h: "general_entry c d loc out = Inl (NameError, out')"
  show False
  proof (cases "model_get_variable_description loc (dc_catalog c)")
    case (Inl e)
    then have "e = IndexError"
      by (simp add: model_get_variable_description_def split: list.splits)
    then show False using h Inl by (simp add: general_entry_def olift_def)
  next
    case (Inr desc)
    obtain u where u: "model_get_variable_unit loc (dc_catalog c) = Inr u"
      using unit_after_description[OF Inr] by blast
    show False
    proof (cases "dc_get c loc")
      case (Inl e)
      then show False using h Inr dc_get_error[OF Inl] by (simp add: general_entry_def olift_def)
    next
      case (Inr r)
      then show False using h \<open>model_get_variable_description loc (dc_catalog c) = Inr desc\<close> u
        by (auto simp: general_entry_def olift_def Let_def split: prod.splits option.splits)
    qed
  qed
qed

section \<open>Properties of the description functions\<close>

text \<open>Claim C33. The handler \<^verbatim>\<open>except FMUException\<close> of
  \<^verbatim>\<open>describe_general()\<close> is never reached: \<^verbatim>\<open>FMUException\<close> is not
  imported, so reaching it would raise \<open>NameError\<close>, and no call of
  \<^verbatim>\<open>describe_general()\<close>, on any globals, name and precision, raises
  \<open>NameError\<close>: the unit lookup always succeeds after the description
  lookup, and \<^verbatim>\<open>model_get\<close> catches its own \<open>NameError\<close>.\<close>

theorem describe_general_no_name_error: "describe_general c name d out \<noteq> Inl (NameError, out')"
  using general_entry_error
  by (auto simp: describe_general_def olift_def dict_get_def split: sum.splits option.splits)

end
