(* ===== verification/Driver.thy ===== *)
theory Driver
  imports Store Accessor Selector Plot Info
begin

text \<open>
  The simulation driver: the module globals of the script as one session
  record, the startup code that fills them (lines 111--194), the run
  function \<^verbatim>\<open>simu()\<close> (lines 472--563) in its fresh (\<^verbatim>\<open>'init'\<close>) and
  continued (\<^verbatim>\<open>'cont'\<close>) modes, and the session operations a user calls
  between runs. The FMU is an environment: \<^verbatim>\<open>simulate_fmu\<close> maps a request
  to a result or an exception, and the evaluation of a diagram command
  succeeds or raises. A run that raises leaves every global as assigned
  before the raise.
\<close>

section \<open>Session state\<close>

record session =
  s_catalog :: catalog \<comment> \<open>\<^verbatim>\<open>model_description.modelVariables\<close>\<close>
  s_par_dict :: "(string, real) pydict" \<comment> \<open>\<^verbatim>\<open>parDict\<close>\<close>
  s_par_location :: "(string, string) pydict" \<comment> \<open>\<^verbatim>\<open>parLocation\<close>\<close>
  s_par_check :: "check list" \<comment> \<open>\<^verbatim>\<open>parCheck\<close>\<close>
  s_key_variables :: "string list" \<comment> \<open>\<^verbatim>\<open>key_variables\<close>\<close>
  s_state_dict :: "(string, real option) pydict" \<comment> \<open>\<^verbatim>\<open>stateDict\<close>\<close>
  s_state_dict_initial :: "(string, string) pydict" \<comment> \<open>\<^verbatim>\<open>stateDictInitial\<close>\<close>
  s_state_dict_initial_loc :: "(string, string) pydict" \<comment> \<open>\<^verbatim>\<open>stateDictInitialLoc\<close>\<close>
  s_prev_final_time :: real \<comment> \<open>\<^verbatim>\<open>prevFinalTime\<close>\<close>
  s_sim_res :: "sim_result option" \<comment> \<open>\<^verbatim>\<open>sim_res\<close>, \<open>None\<close> before it exists\<close>
  s_start_values :: "(string, real option) pydict option" \<comment> \<open>\<^verbatim>\<open>start_values\<close>\<close>
  s_diagrams :: "string list" \<comment> \<open>\<^verbatim>\<open>diagrams\<close>\<close>
  s_linecycler :: linecycler \<comment> \<open>\<^verbatim>\<open>linecycler\<close>\<close>
  s_component_list :: "string list" \<comment> \<open>\<^verbatim>\<open>component_list_minimum\<close>, which \<^verbatim>\<open>describe('parts')\<close> extends\<close>
  s_msl_usage :: "startval option" \<comment> \<open>\<^verbatim>\<open>MSL_usage\<close>, from the platform setup\<close>
  s_log :: "msg list" \<comment> \<open>the lines printed so far\<close>

text \<open>The arguments of \<^verbatim>\<open>simulate_fmu\<close> that vary (\<^verbatim>\<open>filename\<close>,
  \<^verbatim>\<open>validate=False\<close>, \<^verbatim>\<open>record_events=True\<close> and
  \<^verbatim>\<open>fmi_call_logger=None\<close> are the same in every call).\<close>

record sim_request =
  rq_start_time :: real
  rq_stop_time :: real
  rq_output_interval :: real
  rq_start_values :: "(string, real option) pydict"
  rq_output :: "string set"

record fmu_env =
  simulate :: "sim_request \<Rightarrow> py_error + sim_result"
  render :: "string \<Rightarrow> string \<Rightarrow> sim_result \<Rightarrow> bool" \<comment> \<open>command, pen, result: no exception\<close>

section \<open>Startup\<close>

text \<open>Lines 112--194, on the catalog the FMU describes. The naming loop may
  raise on a short state name, which aborts the import of the script.\<close>

definition startup :: "catalog \<Rightarrow> startval option \<Rightarrow> py_error + session" where
  "startup cat msl_usage =
     (let sd = state_dict_of cat []
      in case state_dict_initial sd of
           Inl e \<Rightarrow> Inl e
         | Inr (sdi, m) \<Rightarrow> Inr
             \<lparr>s_catalog = cat, s_par_dict = par_dict_default, s_par_location = par_location_default,
              s_par_check = par_check_default, s_key_variables = key_variables_default,
              s_state_dict = sd, s_state_dict_initial = sdi,
              s_state_dict_initial_loc = state_dict_initial_loc sdi,
              s_prev_final_time = 0, s_sim_res = None, s_start_values = None,
              s_diagrams = [], s_linecycler = None, s_component_list = component_list_minimum,
              s_msl_usage = msl_usage, s_log = m\<rparr>)"

section \<open>Overrides of a run\<close>

text \<open>The comprehension \<^verbatim>\<open>{loc[k]: d[k] for k in d.keys()}\<close> of lines 494
  and 530: \<open>KeyError\<close> for a key without a location.\<close>

fun loc_comp ::
    "(string, string) pydict \<Rightarrow> (string, 'v) pydict \<Rightarrow> (string, 'v) pydict \<Rightarrow> py_error + (string, 'v) pydict"
where
  "loc_comp loc [] acc = Inr acc"
| "loc_comp loc ((k, v) # d) acc =
     (case dict_get loc k of Inl e \<Rightarrow> Inl e | Inr l \<Rightarrow> loc_comp loc d (AList.update l v acc))"

definition start_values_fresh ::
    "(string, real) pydict \<Rightarrow> (string, string) pydict \<Rightarrow> py_error + (string, real option) pydict" where
  "start_values_fresh pd loc = loc_comp loc (map (\<lambda>(k, v). (k, Some v)) pd) []"

text \<open>Lines 518--523: every parameter whose location is an initial-value
  name of a state is deleted from the copies of \<^verbatim>\<open>parDict\<close> and
  \<^verbatim>\<open>parLocation\<close>.\<close>

fun reduce_loop ::
    "(string, string) pydict \<Rightarrow> string list \<Rightarrow> string list \<Rightarrow>
     (string, real) pydict \<times> (string, string) pydict \<Rightarrow>
     py_error + ((string, real) pydict \<times> (string, string) pydict)"
where
  "reduce_loop loc ivals [] acc = Inr acc"
| "reduce_loop loc ivals (k # ks) (pdr, plr) =
     (case dict_get loc k of
        Inl e \<Rightarrow> Inl e
      | Inr l \<Rightarrow> reduce_loop loc ivals ks
                  (if l \<in> set ivals then (AList.delete k pdr, AList.delete k plr) else (pdr, plr)))"

text \<open>Line 528: \<^verbatim>\<open>[(stateDictInitial[key], stateDict[key]) for key in stateDict.keys()]\<close>.\<close>

fun state_overrides ::
    "(string, string) pydict \<Rightarrow> (string, real option) pydict \<Rightarrow> py_error + (string \<times> real option) list"
where
  "state_overrides sdi [] = Inr []"
| "state_overrides sdi ((k, x) # sd) =
     (case dict_get sdi k of
        Inl e \<Rightarrow> Inl e
      | Inr n \<Rightarrow> (case state_overrides sdi sd of Inl e \<Rightarrow> Inl e | Inr ps \<Rightarrow> Inr ((n, x) # ps)))"

text \<open>Lines 518--530: the overrides of a continued run.\<close>

definition cont_start_values :: "session \<Rightarrow> py_error + (string, real option) pydict" where
  "cont_start_values s =
     (case reduce_loop (s_par_location s) (map snd (s_state_dict_initial s))
             (dict_keys (s_par_dict s)) (s_par_dict s, s_par_location s) of
        Inl e \<Rightarrow> Inl e
      | Inr (pdr, plr) \<Rightarrow>
          (let plm = dict_of (plr @ s_state_dict_initial_loc s)
           in case state_overrides (s_state_dict_initial s) (s_state_dict s) of
                Inl e \<Rightarrow> Inl e
              | Inr ps \<Rightarrow> loc_comp plm (dict_of (map (\<lambda>(k, v). (k, Some v)) pdr @ ps)) []))"

section \<open>A run\<close>

text \<open>Lines 497--507 and 533--543: the arguments of a run from \<open>t0\<close> for
  \<open>T\<close> time units with \<^verbatim>\<open>options['ncp']\<close> output intervals. Python
  evaluates \<^verbatim>\<open>simulationTime/options['ncp']\<close> before the call, and it
  raises \<open>ZeroDivisionError\<close> when \<open>ncp = 0\<close>.\<close>

definition simu_request ::
    "session \<Rightarrow> real \<Rightarrow> real \<Rightarrow> real \<Rightarrow> (string, real option) pydict \<Rightarrow> py_error + sim_request" where
  "simu_request s t0 T ncp sv =
     (if ncp = 0 then Inl ZeroDivisionError
      else Inr \<lparr>rq_start_time = t0, rq_stop_time = t0 + T, rq_output_interval = T / ncp,
               rq_start_values = sv,
               rq_output = simu_output (s_catalog s) (s_diagrams s) (s_state_dict s) (s_key_variables s)\<rparr>)"

text \<open>Line 557: \<^verbatim>\<open>stateDict[key] = model_get(key)\<close> for one key.\<close>

definition store_state :: "string \<Rightarrow> session \<Rightarrow> session outcome" where
  "store_state k s =
     olift (model_get k (s_catalog s) (s_sim_res s) (s_start_values s)) s
       (\<lambda>(x, m). Inr (s\<lparr>s_state_dict := AList.update k x (s_state_dict s), s_log := s_log s @ m\<rparr>))"

text \<open>Lines 550--560, after a run returned: take a pen, evaluate the
  diagram commands, store the final state, move the cursor.\<close>

definition simu_post :: "fmu_env \<Rightarrow> sim_result \<Rightarrow> session \<Rightarrow> session outcome" where
  "simu_post env r s =
     olift (next_line (s_linecycler s)) s (\<lambda>(lt, lc).
       let s1 = s\<lparr>s_linecycler := lc\<rparr>
       in if \<not> list_all (\<lambda>c. render env c lt r) (s_diagrams s1) then Inl (RenderError, s1)
          else obind (ofold store_state (dict_keys (s_state_dict s1)) s1) (\<lambda>s2.
                 olift (res_col r ''time'') s2 (\<lambda>ts.
                   if ts = [] then Inl (IndexError, s2)
                   else Inr (s2\<lparr>s_prev_final_time := last ts\<rparr>))))"

text \<open>Lines 492--507 and 509: a fresh run from time 0.\<close>

definition simu_fresh :: "fmu_env \<Rightarrow> real \<Rightarrow> real \<Rightarrow> session \<Rightarrow> session outcome" where
  "simu_fresh env T ncp s =
     olift (start_values_fresh (s_par_dict s) (s_par_location s)) s (\<lambda>sv.
       let s1 = s\<lparr>s_start_values := Some sv\<rparr>
       in olift (simu_request s1 0 T ncp sv) s1 (\<lambda>rq.
            olift (simulate env rq) s1 (\<lambda>r.
              simu_post env r (s1\<lparr>s_sim_res := Some r\<rparr>))))"

text \<open>Lines 511--545: a continued run from the cursor, refused before the
  cursor has moved.\<close>

definition simu_cont :: "fmu_env \<Rightarrow> real \<Rightarrow> real \<Rightarrow> session \<Rightarrow> session outcome" where
  "simu_cont env T ncp s =
     (if s_prev_final_time s = 0 then Inr (s\<lparr>s_log := s_log s @ [MsgFirstInit, MsgNoSimulation]\<rparr>)
      else olift (cont_start_values s) s (\<lambda>sv.
        let s1 = s\<lparr>s_start_values := Some sv\<rparr>
        in olift (simu_request s1 (s_prev_final_time s) T ncp sv) s1 (\<lambda>rq.
             olift (simulate env rq) s1 (\<lambda>r.
               simu_post env r (s1\<lparr>s_sim_res := Some r\<rparr>)))))"

text \<open>\<^verbatim>\<open>simu(simulationTime, mode, options)\<close>, lines 472--563, with the
  global \<^verbatim>\<open>diagrams\<close> as the command list.\<close>

definition simu :: "fmu_env \<Rightarrow> real \<Rightarrow> string \<Rightarrow> real \<Rightarrow> session \<Rightarrow> session outcome" where
  "simu env T mode ncp s =
     (if mode \<in> set [''Initial'', ''initial'', ''init''] then simu_fresh env T ncp s
      else if mode \<in> set [''Continued'', ''continued'', ''cont''] then simu_cont env T ncp s
      else Inr (s\<lparr>s_log := s_log s @ [MsgModeNotCorrect, MsgNoSimulation]\<rparr>))"

section \<open>Session operations\<close>

text \<open>\<^verbatim>\<open>show(diagrams=diagrams)\<close>, lines 463--468: take a pen and evaluate
  the diagram commands on the global \<^verbatim>\<open>sim_res\<close>, which does not exist
  before the first run (\<open>NameError\<close> once there is a command).\<close>

definition show_diagrams :: "fmu_env \<Rightarrow> session \<Rightarrow> session outcome" where
  "show_diagrams env s =
     olift (next_line (s_linecycler s)) s (\<lambda>(lt, lc).
       let s1 = s\<lparr>s_linecycler := lc\<rparr>
       in if s_diagrams s1 = [] then Inr s1
          else case s_sim_res s1 of
                 None \<Rightarrow> Inl (NameError, s1)
               | Some r \<Rightarrow> if list_all (\<lambda>c. render env c lt r) (s_diagrams s1) then Inr s1
                           else Inl (RenderError, s1))"

text \<open>The globals \<^verbatim>\<open>disp()\<close> reads.\<close>

definition disp_ctx_of :: "session \<Rightarrow> disp_ctx" where
  "disp_ctx_of s = \<lparr>dc_catalog = s_catalog s, dc_sim_res = s_sim_res s, dc_start_values = s_start_values s,
                    dc_par_dict = s_par_dict s, dc_par_location = s_par_location s\<rparr>"

text \<open>The calls a user makes between runs: \<^verbatim>\<open>par()\<close>, \<^verbatim>\<open>init()\<close>,
  \<^verbatim>\<open>newplot()\<close>, \<^verbatim>\<open>setLines()\<close> (lines 458--461), \<^verbatim>\<open>show()\<close>,
  \<^verbatim>\<open>simu()\<close>, \<^verbatim>\<open>disp()\<close> and \<^verbatim>\<open>describe()\<close> (lines 307--336),
  whose branch \<^verbatim>\<open>'parts'\<close> extends \<^verbatim>\<open>component_list_minimum\<close>. A
  direct call of \<^verbatim>\<open>model_get()\<close> only prints and is not a step.\<close>

datatype session_op =
    OpPar call | OpInit call | OpNewplot string | OpSetLines "string list" | OpShow
  | OpSimu real string real \<comment> \<open>\<^verbatim>\<open>simulationTime\<close>, \<^verbatim>\<open>mode\<close>, \<^verbatim>\<open>options['ncp']\<close>\<close>
  | OpDisp string int string \<comment> \<open>\<^verbatim>\<open>name\<close>, \<^verbatim>\<open>decimals\<close>, \<^verbatim>\<open>mode\<close>\<close>
  | OpDescribe string int \<comment> \<open>\<^verbatim>\<open>name\<close>, \<^verbatim>\<open>decimals\<close>\<close>

definition apply_op :: "fmu_env \<Rightarrow> session_op \<Rightarrow> session \<Rightarrow> session outcome" where
  "apply_op env op s = (case op of
       OpPar c \<Rightarrow> (case par_call (s_par_dict s) (s_par_check s) c of
           Inl (e, (pd, m)) \<Rightarrow> Inl (e, s\<lparr>s_par_dict := pd, s_log := s_log s @ m\<rparr>)
         | Inr (pd, m) \<Rightarrow> Inr (s\<lparr>s_par_dict := pd, s_log := s_log s @ m\<rparr>))
     | OpInit c \<Rightarrow> (let (pd, m) = init_call (s_par_dict s) c
                   in Inr (s\<lparr>s_par_dict := pd, s_log := s_log s @ m\<rparr>))
     | OpNewplot pt \<Rightarrow> (let ((ds, lc), m) = newplot pt (s_diagrams s, s_linecycler s)
                       in Inr (s\<lparr>s_diagrams := ds, s_linecycler := lc, s_log := s_log s @ m\<rparr>))
     | OpSetLines ls \<Rightarrow> Inr (s\<lparr>s_linecycler := set_lines ls\<rparr>)
     | OpShow \<Rightarrow> show_diagrams env s
     | OpSimu T mode ncp \<Rightarrow> simu env T mode ncp s
     | OpDisp name d mode \<Rightarrow> (case disp (disp_ctx_of s) name d mode (s_log s) of
           Inl (e, out) \<Rightarrow> Inl (e, s\<lparr>s_log := out\<rparr>)
         | Inr out \<Rightarrow> Inr (s\<lparr>s_log := out\<rparr>))
     | OpDescribe name d \<Rightarrow> (case describe (disp_ctx_of s) (s_msl_usage s) (s_component_list s) name d of
           Inl (e, (cl, m)) \<Rightarrow> Inl (e, s\<lparr>s_component_list := cl, s_log := s_log s @ m\<rparr>)
         | Inr (cl, m) \<Rightarrow> Inr (s\<lparr>s_component_list := cl, s_log := s_log s @ m\<rparr>)))"

text \<open>The sessions of a notebook: the state after the import of the
  script, and the state after any call, returned or raised (an exception
  ends the cell, not the session).\<close>

inductive reachable :: "fmu_env \<Rightarrow> catalog \<Rightarrow> session \<Rightarrow> bool" where
  reachable_start: "startup cat msl = Inr s \<Longrightarrow> reachable env cat s"
| reachable_step: "reachable env cat s \<Longrightarrow> reachable env cat (ostate (apply_op env op s))"


section \<open>Predicates of the proofs\<close>

text \<open>The value \<^verbatim>\<open>model_get(key)\<close> stores for a state key.\<close>

definition state_value :: "session \<Rightarrow> string \<Rightarrow> real option" where
  "state_value s k = fst (projr (model_get k (s_catalog s) (s_sim_res s) (s_start_values s)))"

text \<open>The globals a continued run needs to compute its overrides without
  an exception: every parameter has a location, every state an initial-value
  name, the names and locations are one-to-one, and no parameter is itself
  the initial-value name of a state.\<close>

definition cont_ready :: "session \<Rightarrow> bool" where
  "cont_ready s \<longleftrightarrow>
     is_dict (s_par_dict s) \<and> is_dict (s_par_location s) \<and> is_dict (s_state_dict s) \<and>
     set (dict_keys (s_par_dict s)) \<subseteq> set (dict_keys (s_par_location s)) \<and>
     set (dict_keys (s_state_dict s)) \<subseteq> set (dict_keys (s_state_dict_initial s)) \<and>
     s_state_dict_initial_loc s = state_dict_initial_loc (s_state_dict_initial s) \<and>
     inj_on (map_of (s_state_dict_initial s)) (set (dict_keys (s_state_dict s))) \<and>
     inj_on (map_of (s_par_location s)) (set (dict_keys (s_par_dict s))) \<and>
     set (dict_keys (s_par_dict s)) \<inter> set (map snd (s_state_dict_initial s)) = {}"

text \<open>The invariant of a session on catalog \<open>cat\<close>: the globals that no call
  rebinds keep their startup values, \<^verbatim>\<open>stateDict\<close> keeps its keys,
  \<^verbatim>\<open>parDict\<close> keeps the parameters of the application, and the cursor
  has moved only after a run that produced a result.\<close>

definition session_inv :: "catalog \<Rightarrow> session \<Rightarrow> bool" where
  "session_inv cat s \<longleftrightarrow>
     s_catalog s = cat \<and>
     dict_keys (s_state_dict s) = dict_keys (state_dict_of cat []) \<and> is_dict (s_state_dict s) \<and>
     map_sum id fst (state_dict_initial (state_dict_of cat [])) = Inr (s_state_dict_initial s) \<and>
     s_state_dict_initial_loc s = state_dict_initial_loc (s_state_dict_initial s) \<and>
     s_par_location s = par_location_default \<and> s_par_check s = par_check_default \<and>
     s_key_variables s = key_variables_default \<and>
     set component_list_minimum \<subseteq> set (s_component_list s) \<and>
     is_dict (s_par_dict s) \<and> set (dict_keys par_dict_default) \<subseteq> set (dict_keys (s_par_dict s)) \<and>
     (s_prev_final_time s = 0 \<or> (\<exists>r. s_sim_res s = Some r))"

text \<open>An FMU whose time column lies in the requested interval.\<close>

definition env_times_ok :: "fmu_env \<Rightarrow> bool" where
  "env_times_ok env \<longleftrightarrow> (\<forall>rq r. rq_start_time rq \<le> rq_stop_time rq \<longrightarrow> simulate env rq = Inr r \<longrightarrow>
     (\<exists>ts. res_col r ''time'' = Inr ts \<and> set ts \<subseteq> {rq_start_time rq .. rq_stop_time rq}))"

section \<open>An example session\<close>

text \<open>The session after the import of the script on the example catalog,
  and an FMU that returns one result and draws every command; test data
  for the witnesses.\<close>

definition bpl_session :: session where
  "bpl_session = projr (startup bpl_catalog (Some (Text ''3.2.3 - used components: none'')))"

definition example_result :: "real \<Rightarrow> real \<Rightarrow> sim_result" where
  "example_result t0 t1 =
     [(''time'', [t0, t1]), (''bioreactor.V'', [1, 1]), (''bioreactor.m[1]'', [1, 3]),
      (''bioreactor.m[2]'', [10, 6]), (''bioreactor.c[1]'', [1, 3]), (''bioreactor.c[2]'', [10, 6]),
      (''bioreactor.culture.mu'', [0.5, 0.4])]"

definition example_env :: fmu_env where
  "example_env =
     \<lparr>simulate = (\<lambda>rq. Inr (example_result (rq_start_time rq) (rq_stop_time rq))),
      render = (\<lambda>c l r. True)\<rparr>"

definition failing_env :: fmu_env where
  "failing_env = \<lparr>simulate = (\<lambda>rq. Inl SimulationError), render = (\<lambda>c l r. True)\<rparr>"


text \<open>The example session after \<^verbatim>\<open>newplot()\<close>, the start values of its
  first run, and the session after that run.\<close>

definition bpl_plot_session :: session where
  "bpl_plot_session = ostate (apply_op example_env (OpNewplot ''TimeSeries'') bpl_session)"

definition bpl_start_values :: "(string, real option) pydict" where
  "bpl_start_values =
     [(''bioreactor.V_start'', Some 1), (''bioreactor.m_start[1]'', Some 1),
      (''bioreactor.m_start[2]'', Some 10), (''bioreactor.culture.Y'', Some 0.5),
      (''bioreactor.culture.qSmax'', Some 1), (''bioreactor.culture.Ks'', Some 0.1)]"

definition bpl_run_session :: session where
  "bpl_run_session =
     bpl_plot_session\<lparr>s_state_dict := [(''bioreactor.V'', Some 1), (''bioreactor.m[1]'', Some 3),
                                        (''bioreactor.m[2]'', Some 6)],
                      s_prev_final_time := 5, s_sim_res := Some (example_result 0 5),
                      s_start_values := Some bpl_start_values, s_linecycler := Some (default_lines, 1)\<rparr>"

text \<open>The overrides of a continued run from \<open>bpl_run_session\<close>.\<close>

definition bpl_cont_values :: "(string, real option) pydict" where
  "bpl_cont_values =
     [(''bioreactor.culture.Y'', Some 0.5), (''bioreactor.culture.qSmax'', Some 1),
      (''bioreactor.culture.Ks'', Some 0.1), (''bioreactor.V_start'', Some 1),
      (''bioreactor.m_start[1]'', Some 3), (''bioreactor.m_start[2]'', Some 6)]"

section \<open>Lemmas\<close>

lemma mode_cont_not_init:
  "mode \<in> set [''Continued'', ''continued'', ''cont''] \<Longrightarrow> mode \<notin> set [''Initial'', ''initial'', ''init'']"
  by auto

lemma simu_request_start_values [simp]:
  "simu_request (s\<lparr>s_start_values := x\<rparr>) = simu_request s"
  by (simp add: simu_request_def fun_eq_iff)

lemma bpl_session_eq:
  "bpl_session =
     \<lparr>s_catalog = bpl_catalog, s_par_dict = par_dict_default, s_par_location = par_location_default,
      s_par_check = par_check_default, s_key_variables = key_variables_default,
      s_state_dict = [(''bioreactor.V'', None), (''bioreactor.m[1]'', None), (''bioreactor.m[2]'', None)],
      s_state_dict_initial = [(''bioreactor.V'', ''bioreactor.V_start''),
        (''bioreactor.m[1]'', ''bioreactor.m_start[1]''), (''bioreactor.m[2]'', ''bioreactor.m_start[2]'')],
      s_state_dict_initial_loc = [(''bioreactor.V_start'', ''bioreactor.V_start''),
        (''bioreactor.m_start[1]'', ''bioreactor.m_start[1]''), (''bioreactor.m_start[2]'', ''bioreactor.m_start[2]'')],
      s_prev_final_time = 0, s_sim_res = None, s_start_values = None,
      s_diagrams = [], s_linecycler = None, s_component_list = component_list_minimum,
      s_msl_usage = Some (Text ''3.2.3 - used components: none''), s_log = []\<rparr>"
  by (simp add: bpl_session_def startup_def state_dict_of_def bpl_catalog_def dict_of_def
      state_dict_initial_def state_initial_name_def py_at_def py_take_end_def py_drop_end_def
      dict_keys_def state_dict_initial_loc_def)

lemma startup_bpl: "startup bpl_catalog (Some (Text ''3.2.3 - used components: none'')) = Inr bpl_session"
  by (simp add: bpl_session_def startup_def state_dict_of_def bpl_catalog_def dict_of_def
      state_dict_initial_def state_initial_name_def py_at_def py_take_end_def py_drop_end_def dict_keys_def)

subsection \<open>Storing the final state\<close>

lemma store_state_keys:
  "k \<in> set (dict_keys (s_state_dict s)) \<Longrightarrow>
   dict_keys (s_state_dict (ostate (store_state k s))) = dict_keys (s_state_dict s)"
  by (auto simp: store_state_def olift_def dict_keys_def update_keys split: sum.split)

lemma ofold_store_state:
  assumes "\<forall>k \<in> set ks. \<exists>x m. model_get k (s_catalog s) (s_sim_res s) (s_start_values s) = Inr (x, m)"
    and "set ks \<subseteq> set (dict_keys (s_state_dict s))"
  shows "\<exists>sd' ms. ofold store_state ks s = Inr (s\<lparr>s_state_dict := sd', s_log := s_log s @ ms\<rparr>) \<and>
           dict_keys sd' = dict_keys (s_state_dict s) \<and>
           (\<forall>k. map_of sd' k = (if k \<in> set ks then Some (state_value s k) else map_of (s_state_dict s) k))"
  using assms
proof (induction ks arbitrary: s)
  case Nil
  then show ?case by (intro exI[of _ "s_state_dict s"] exI[of _ "[]"]) simp
next
  case (Cons k ks)
  from Cons.prems obtain x m where g: "model_get k (s_catalog s) (s_sim_res s) (s_start_values s) = Inr (x, m)"
    by auto
  let ?s1 = "s\<lparr>s_state_dict := AList.update k x (s_state_dict s), s_log := s_log s @ m\<rparr>"
  have st: "store_state k s = Inr ?s1" using g by (simp add: store_state_def)
  have kin: "k \<in> set (dict_keys (s_state_dict s))" using Cons.prems(2) by simp
  have keys1: "dict_keys (AList.update k x (s_state_dict s)) = dict_keys (s_state_dict s)"
    using kin by (simp add: dict_keys_def update_keys)
  have "\<forall>k \<in> set ks. \<exists>x m. model_get k (s_catalog ?s1) (s_sim_res ?s1) (s_start_values ?s1) = Inr (x, m)"
    "set ks \<subseteq> set (dict_keys (s_state_dict ?s1))"
    using Cons.prems keys1 by auto
  from Cons.IH[OF this] obtain sd' ms where
    r: "ofold store_state ks ?s1 = Inr (?s1\<lparr>s_state_dict := sd', s_log := s_log ?s1 @ ms\<rparr>)"
    and k': "dict_keys sd' = dict_keys (s_state_dict ?s1)"
    and v: "\<forall>k'. map_of sd' k' = (if k' \<in> set ks then Some (state_value ?s1 k') else map_of (s_state_dict ?s1) k')"
    by blast
  have sv: "state_value ?s1 = state_value s" by (simp add: state_value_def fun_eq_iff)
  have "ofold store_state (k # ks) s = Inr (s\<lparr>s_state_dict := sd', s_log := s_log s @ (m @ ms)\<rparr>)"
    using st r by simp
  moreover have "dict_keys sd' = dict_keys (s_state_dict s)" using k' keys1 by simp
  moreover have "\<forall>k'. map_of sd' k' = (if k' \<in> set (k # ks) then Some (state_value s k') else map_of (s_state_dict s) k')"
    using v sv g by (auto simp: update_conv' state_value_def)
  ultimately show ?case by blast
qed

lemma state_overrides_ok:
  "set (dict_keys sd) \<subseteq> set (dict_keys sdi) \<Longrightarrow>
   state_overrides sdi sd = Inr (map (\<lambda>(k, x). (the (map_of sdi k), x)) sd)"
proof (induction sd)
  case Nil
  then show ?case by simp
next
  case (Cons p sd)
  obtain k x where p: "p = (k, x)" by (cases p)
  with Cons.prems obtain n where "map_of sdi k = Some n"
    by (auto simp: dict_keys_def dest: weak_map_of_SomeI)
  with Cons p show ?case by (auto simp: dict_get_def dict_keys_def)
qed

lemma loc_comp_ok:
  "set (dict_keys d) \<subseteq> set (dict_keys loc) \<Longrightarrow>
   loc_comp loc d acc = Inr (dict_update acc (map (\<lambda>(k, v). (the (map_of loc k), v)) d))"
proof (induction d arbitrary: acc)
  case Nil
  then show ?case by simp
next
  case (Cons p d)
  obtain k v where p: "p = (k, v)" by (cases p)
  with Cons.prems obtain l where "map_of loc k = Some l"
    by (auto simp: dict_keys_def dest: weak_map_of_SomeI)
  with Cons p show ?case by (auto simp: dict_get_def dict_keys_def)
qed

lemma reduce_loop_ok:
  assumes "set ks \<subseteq> set (dict_keys loc)"
  shows "\<exists>pdr plr. reduce_loop loc ivals ks (a, b) = Inr (pdr, plr) \<and>
           map_of pdr = map_of a |` (- {k \<in> set ks. the (map_of loc k) \<in> set ivals}) \<and>
           map_of plr = map_of b |` (- {k \<in> set ks. the (map_of loc k) \<in> set ivals}) \<and>
           (is_dict a \<longrightarrow> is_dict pdr) \<and> (is_dict b \<longrightarrow> is_dict plr)"
  using assms
proof (induction ks arbitrary: a b)
  case Nil
  then show ?case by simp
next
  case (Cons k ks)
  from Cons.prems obtain l where l: "map_of loc k = Some l"
    by (auto simp: dict_keys_def dest: weak_map_of_SomeI)
  show ?case
  proof (cases "l \<in> set ivals")
    case True
    from Cons.IH[of "AList.delete k a" "AList.delete k b"] Cons.prems obtain pdr plr where
      r: "reduce_loop loc ivals ks (AList.delete k a, AList.delete k b) = Inr (pdr, plr)"
      and m: "map_of pdr = map_of (AList.delete k a) |` (- {k \<in> set ks. the (map_of loc k) \<in> set ivals})"
             "map_of plr = map_of (AList.delete k b) |` (- {k \<in> set ks. the (map_of loc k) \<in> set ivals})"
      and d: "is_dict (AList.delete k a) \<longrightarrow> is_dict pdr" "is_dict (AList.delete k b) \<longrightarrow> is_dict plr"
      by auto
    have "map_of pdr = map_of a |` (- {k' \<in> set (k # ks). the (map_of loc k') \<in> set ivals})"
         "map_of plr = map_of b |` (- {k' \<in> set (k # ks). the (map_of loc k') \<in> set ivals})"
      using m True l by (auto simp: delete_conv' restrict_map_def fun_eq_iff)
    moreover have "is_dict a \<longrightarrow> is_dict pdr" "is_dict b \<longrightarrow> is_dict plr"
      using d by (auto simp: is_dict_def distinct_delete)
    ultimately show ?thesis using r l True by (simp add: dict_get_def)
  next
    case False
    from Cons.IH[of a b] Cons.prems obtain pdr plr where
      r: "reduce_loop loc ivals ks (a, b) = Inr (pdr, plr)"
      and m: "map_of pdr = map_of a |` (- {k \<in> set ks. the (map_of loc k) \<in> set ivals})"
             "map_of plr = map_of b |` (- {k \<in> set ks. the (map_of loc k) \<in> set ivals})"
      and d: "is_dict a \<longrightarrow> is_dict pdr" "is_dict b \<longrightarrow> is_dict plr"
      by auto
    have "{k' \<in> set (k # ks). the (map_of loc k') \<in> set ivals} = {k' \<in> set ks. the (map_of loc k') \<in> set ivals}"
      using False l by auto
    with r m d l False show ?thesis by (simp add: dict_get_def)
  qed
qed


subsection \<open>The session invariant\<close>

lemma session_inv_upd [simp]:
  "session_inv cat (s\<lparr>s_start_values := x\<rparr>) = session_inv cat s"
  "session_inv cat (s\<lparr>s_log := l\<rparr>) = session_inv cat s"
  "session_inv cat (s\<lparr>s_linecycler := lc\<rparr>) = session_inv cat s"
  "session_inv cat (s\<lparr>s_diagrams := ds\<rparr>) = session_inv cat s"
  by (simp_all add: session_inv_def)

lemma session_inv_sim_res: "session_inv cat s \<Longrightarrow> session_inv cat (s\<lparr>s_sim_res := Some r\<rparr>)"
  by (simp add: session_inv_def)

lemma session_inv_prev:
  "session_inv cat s \<Longrightarrow> s_sim_res s \<noteq> None \<Longrightarrow> session_inv cat (s\<lparr>s_prev_final_time := t\<rparr>)"
  by (simp add: session_inv_def)

lemma session_inv_state_dict:
  "session_inv cat s \<Longrightarrow> k \<in> set (dict_keys (s_state_dict s)) \<Longrightarrow>
   session_inv cat (s\<lparr>s_state_dict := AList.update k x (s_state_dict s)\<rparr>)"
proof -
  assume inv: "session_inv cat s" and k: "k \<in> set (dict_keys (s_state_dict s))"
  have "dict_keys (AList.update k x (s_state_dict s)) = dict_keys (s_state_dict s)"
    using k by (simp add: dict_keys_def update_keys)
  moreover have "is_dict (AList.update k x (s_state_dict s))"
    using inv by (simp add: session_inv_def is_dict_def distinct_update)
  ultimately show ?thesis using inv unfolding session_inv_def by simp
qed

lemma session_inv_par_dict:
  "session_inv cat s \<Longrightarrow> is_dict pd \<Longrightarrow> set (dict_keys (s_par_dict s)) \<subseteq> set (dict_keys pd) \<Longrightarrow>
   session_inv cat (s\<lparr>s_par_dict := pd\<rparr>)"
  by (auto simp: session_inv_def)

lemma session_inv_store_state:
  "session_inv cat s \<Longrightarrow> s_sim_res s \<noteq> None \<Longrightarrow> k \<in> set (dict_keys (s_state_dict s)) \<Longrightarrow>
   session_inv cat (ostate (store_state k s)) \<and> s_sim_res (ostate (store_state k s)) \<noteq> None"
  by (auto simp: store_state_def olift_def session_inv_state_dict split: sum.split)

lemma session_inv_ofold_store_state:
  assumes "session_inv cat s" "s_sim_res s \<noteq> None"
  shows "session_inv cat (ostate (ofold store_state (dict_keys (s_state_dict s)) s)) \<and>
         s_sim_res (ostate (ofold store_state (dict_keys (s_state_dict s)) s)) \<noteq> None"
proof -
  have ks: "dict_keys (s_state_dict s) = dict_keys (state_dict_of cat [])"
    using assms(1) by (simp add: session_inv_def)
  show ?thesis
  proof (rule ofold_invariant[where P = "\<lambda>t. session_inv cat t \<and> s_sim_res t \<noteq> None"])
    show "session_inv cat s \<and> s_sim_res s \<noteq> None" using assms by simp
  next
    fix x t assume x: "x \<in> set (dict_keys (s_state_dict s))" and t: "session_inv cat t \<and> s_sim_res t \<noteq> None"
    then have "x \<in> set (dict_keys (s_state_dict t))" using ks by (simp add: session_inv_def)
    with t show "session_inv cat (ostate (store_state x t)) \<and> s_sim_res (ostate (store_state x t)) \<noteq> None"
      using session_inv_store_state by blast
  qed
qed

lemma session_inv_simu_post:
  assumes "session_inv cat s" "s_sim_res s \<noteq> None"
  shows "session_inv cat (ostate (simu_post env r s))"
proof (cases "next_line (s_linecycler s)")
  case (Inl e)
  then show ?thesis using assms by (simp add: simu_post_def)
next
  case (Inr a)
  then obtain lt lc where n: "next_line (s_linecycler s) = Inr (lt, lc)" by (cases a) auto
  let ?s1 = "s\<lparr>s_linecycler := lc\<rparr>"
  have p1: "session_inv cat ?s1" "s_sim_res ?s1 \<noteq> None" using assms by simp_all
  note f = session_inv_ofold_store_state[OF p1]
  show ?thesis
  proof (cases "list_all (\<lambda>c. render env c lt r) (s_diagrams ?s1)")
    case False
    then show ?thesis using n p1 by (simp add: simu_post_def)
  next
    case True
    let ?o = "ofold store_state (dict_keys (s_state_dict ?s1)) ?s1"
    let ?k = "\<lambda>s2. olift (res_col r ''time'') s2 (\<lambda>ts.
                if ts = [] then Inl (IndexError, s2) else Inr (s2\<lparr>s_prev_final_time := last ts\<rparr>))"
    have "simu_post env r s = obind ?o ?k" using n True by (simp add: simu_post_def)
    moreover have "session_inv cat (ostate (obind ?o ?k))"
    proof (rule ostate_obind)
      show "session_inv cat (ostate ?o)" using f by blast
    next
      fix s2 assume o: "?o = Inr s2"
      have "session_inv cat s2 \<and> s_sim_res s2 \<noteq> None" using f[unfolded o ostate_simps] .
      then have s2: "session_inv cat s2" "s_sim_res s2 \<noteq> None" by simp_all
      show "session_inv cat (ostate (?k s2))"
      proof (cases "res_col r ''time''")
        case (Inl e)
        then show ?thesis using s2 by simp
      next
        case (Inr ts)
        then show ?thesis using s2 by (simp add: session_inv_prev)
      qed
    qed
    ultimately show ?thesis by (simp only:)
  qed
qed

lemma session_inv_simu:
  assumes "session_inv cat s"
  shows "session_inv cat (ostate (simu env T mode ncp s))"
proof -
  have run: "session_inv cat (ostate (olift (simulate env rq) s1 (\<lambda>r. simu_post env r (s1\<lparr>s_sim_res := Some r\<rparr>))))"
    if "session_inv cat s1" for s1 rq
    using that by (intro ostate_olift[where P = "session_inv cat"] session_inv_simu_post session_inv_sim_res) simp_all
  have fresh: "session_inv cat (ostate (simu_fresh env T ncp s))"
    unfolding simu_fresh_def Let_def by (intro ostate_olift[where P = "session_inv cat"] run) (simp_all add: assms)
  have cont: "session_inv cat (ostate (simu_cont env T ncp s))"
  proof (cases "s_prev_final_time s = 0")
    case True
    then show ?thesis using assms by (simp add: simu_cont_def)
  next
    case False
    then show ?thesis unfolding simu_cont_def Let_def
      by (simp only: if_False) (intro ostate_olift[where P = "session_inv cat"] run; simp add: assms)
  qed
  show ?thesis using fresh cont assms by (simp add: simu_def)
qed

lemma disp_ctx_of_par_dict:
  "disp_ctx_of (s\<lparr>s_par_dict := pd, s_log := m\<rparr>) = (disp_ctx_of s)\<lparr>dc_par_dict := pd\<rparr>"
  by (simp add: disp_ctx_of_def)

lemma par_call_store:
  "fst (ostate (par_call pd checks c)) = (case c of CallKw kw \<Rightarrow> par_store pd kw | CallPos d kw \<Rightarrow> pd)"
proof (cases c)
  case (CallKw kw)
  then show ?thesis by (simp add: par_call_def)
next
  case (CallPos d kw)
  then show ?thesis by (auto simp: par_call_def ostate_def split: sum.split prod.split)
qed

lemma par_call_keys: "dict_keys (fst (ostate (par_call pd checks c))) = dict_keys pd"
  by (simp add: par_call_store par_store_keys split: call.split)

text \<open>\<^verbatim>\<open>show()\<close> changes the pen only, whether it returns or raises.\<close>

lemma show_diagrams_state:
  "ostate (show_diagrams env s) =
     s\<lparr>s_linecycler := (case next_line (s_linecycler s) of Inl e \<Rightarrow> s_linecycler s | Inr (lt, lc) \<Rightarrow> lc)\<rparr>"
  by (cases "next_line (s_linecycler s)") (auto simp: show_diagrams_def Let_def split: option.split)

lemma init_call_store:
  "fst (init_call pd c) =
     (case c of CallKw kw \<Rightarrow> dict_update pd (dict_of (filter (\<lambda>(k, v). py_in ''_start'' k) kw)) | CallPos d kw \<Rightarrow> pd)"
  by (simp add: init_call_def init_eq split: call.split)

lemma session_inv_apply_op:
  assumes "session_inv cat s"
  shows "session_inv cat (ostate (apply_op env op s))"
proof (cases op)
  case (OpPar c)
  let ?pd = "fst (ostate (par_call (s_par_dict s) (s_par_check s) c))"
  have st: "ostate (apply_op env op s) =
              s\<lparr>s_par_dict := ?pd, s_log := s_log s @ snd (ostate (par_call (s_par_dict s) (s_par_check s) c))\<rparr>"
    using OpPar by (auto simp: apply_op_def ostate_def split: sum.split prod.split)
  have "is_dict ?pd \<and> set (dict_keys (s_par_dict s)) \<subseteq> set (dict_keys ?pd)"
    using assms by (auto simp: par_call_store session_inv_def par_store_keys is_dict_par_store split: call.split)
  then show ?thesis using st assms session_inv_par_dict by simp
next
  case (OpInit c)
  let ?pd = "fst (init_call (s_par_dict s) c)"
  have st: "ostate (apply_op env op s) = s\<lparr>s_par_dict := ?pd, s_log := s_log s @ snd (init_call (s_par_dict s) c)\<rparr>"
    using OpInit by (simp add: apply_op_def split: prod.split)
  have "is_dict ?pd \<and> set (dict_keys (s_par_dict s)) \<subseteq> set (dict_keys ?pd)"
    using assms by (auto simp: init_call_store session_inv_def set_dict_keys_update is_dict_update split: call.split)
  then show ?thesis using st assms session_inv_par_dict by simp
next
  case (OpNewplot pt)
  then show ?thesis using assms by (simp add: apply_op_def split: prod.split)
next
  case (OpSetLines ls)
  then show ?thesis using assms by (simp add: apply_op_def)
next
  case OpShow
  then show ?thesis using assms by (simp add: apply_op_def show_diagrams_state)
next
  case (OpSimu T mode ncp)
  then show ?thesis using assms session_inv_simu by (simp add: apply_op_def)
next
  case (OpDisp name d mode)
  then show ?thesis using assms by (simp add: apply_op_def ostate_def split: sum.split prod.split)
next
  case (OpDescribe name d)
  let ?r = "describe (disp_ctx_of s) (s_msl_usage s) (s_component_list s) name d"
  have st: "ostate (apply_op env op s) =
              s\<lparr>s_component_list := fst (ostate ?r), s_log := s_log s @ snd (ostate ?r)\<rparr>"
    using OpDescribe by (auto simp: apply_op_def ostate_def split: sum.split prod.split)
  have "set (s_component_list s) \<subseteq> set (fst (ostate ?r))" by (rule describe_list_grows)
  then show ?thesis using st assms by (auto simp: session_inv_def)
qed

lemma session_inv_startup: "startup cat msl = Inr s \<Longrightarrow> session_inv cat s"
  unfolding startup_def Let_def
  by (auto simp: session_inv_def is_dict_state_dict_of is_dict_of par_dict_default_def
      split: sum.splits prod.splits)


subsection \<open>Runs on the example session and the run lemmas\<close>

lemma bpl_plot_session_eq:
  "bpl_plot_session = bpl_session\<lparr>s_diagrams := the (newplot_diagrams ''TimeSeries''),
                                   s_linecycler := Some (default_lines, 0)\<rparr>"
  by (simp add: bpl_plot_session_def apply_op_def newplot_def set_lines_def newplot_diagrams_def)

lemma model_get_bpl_states:
  assumes "set (dict_keys sv) \<inter> {''bioreactor.V'', ''bioreactor.m[1]'', ''bioreactor.m[2]''} = {}"
  shows "model_get ''bioreactor.V'' bpl_catalog (Some (example_result t0 t1)) (Some sv) = Inr (Some 1, [])"
    "model_get ''bioreactor.m[1]'' bpl_catalog (Some (example_result t0 t1)) (Some sv) = Inr (Some 3, [])"
    "model_get ''bioreactor.m[2]'' bpl_catalog (Some (example_result t0 t1)) (Some sv) = Inr (Some 6, [])"
proof -
  have "''bioreactor.V'' \<notin> set (dict_keys sv)" "''bioreactor.m[1]'' \<notin> set (dict_keys sv)"
    "''bioreactor.m[2]'' \<notin> set (dict_keys sv)" using assms by blast+
  then show "model_get ''bioreactor.V'' bpl_catalog (Some (example_result t0 t1)) (Some sv) = Inr (Some 1, [])"
    "model_get ''bioreactor.m[1]'' bpl_catalog (Some (example_result t0 t1)) (Some sv) = Inr (Some 3, [])"
    "model_get ''bioreactor.m[2]'' bpl_catalog (Some (example_result t0 t1)) (Some sv) = Inr (Some 6, [])"
    by (simp_all add: model_get_def bpl_catalog_def mvar_def model_get_var_def res_col_def example_result_def)
qed

lemma fresh_run_bpl: "simu example_env 5 ''init'' 500 bpl_plot_session = Inr bpl_run_session"
proof -
  have m: "set (dict_keys bpl_start_values) \<inter> {''bioreactor.V'', ''bioreactor.m[1]'', ''bioreactor.m[2]''} = {}"
    by (simp add: bpl_start_values_def dict_keys_def)
  have sv: "start_values_fresh (s_par_dict bpl_plot_session) (s_par_location bpl_plot_session) = Inr bpl_start_values"
    by (simp add: bpl_plot_session_eq bpl_session_eq start_values_fresh_def par_dict_default_def
        par_location_default_def dict_of_def dict_get_def bpl_start_values_def)
  obtain rq where rq: "simu_request (bpl_plot_session\<lparr>s_start_values := Some bpl_start_values\<rparr>) 0 5 500 bpl_start_values = Inr rq"
    "rq_start_time rq = 0" "rq_stop_time rq = 5"
    by (simp add: simu_request_def)
  have sim: "simulate example_env rq = Inr (example_result 0 5)" using rq by (simp add: example_env_def)
  let ?s2 = "bpl_plot_session\<lparr>s_start_values := Some bpl_start_values, s_sim_res := Some (example_result 0 5)\<rparr>"
  have run: "simu example_env 5 ''init'' 500 bpl_plot_session = simu_post example_env (example_result 0 5) ?s2"
    using sv rq sim by (simp add: simu_def simu_fresh_def Let_def)
  have post: "simu_post example_env (example_result 0 5) ?s2 = Inr bpl_run_session"
    using model_get_bpl_states[OF m, of 0 5]
    by (simp add: simu_post_def bpl_plot_session_eq bpl_session_eq next_line_def default_lines_def
        store_state_def bpl_run_session_def res_col_def example_env_def list_all_iff dict_keys_def
        example_result_def)
  show ?thesis using run post by simp
qed

lemma loc_comp_missing:
  "\<not> set (dict_keys d) \<subseteq> set (dict_keys loc) \<Longrightarrow> loc_comp loc d acc = Inl KeyError"
proof (induction d arbitrary: acc)
  case Nil
  then show ?case by simp
next
  case (Cons p d)
  obtain k v where p: "p = (k, v)" by (cases p)
  show ?case
  proof (cases "k \<in> set (dict_keys loc)")
    case True
    then obtain l where "map_of loc k = Some l" by (auto simp: dict_keys_in_iff)
    moreover have "\<not> set (dict_keys d) \<subseteq> set (dict_keys loc)" using Cons.prems p True by (simp add: dict_keys_def)
    ultimately show ?thesis using Cons.IH p by (simp add: dict_get_def)
  next
    case False
    then show ?thesis using p by (simp add: dict_get_def dict_keys_in_iff)
  qed
qed

lemma start_values_bpl:
  "start_values_fresh par_dict_default par_location_default = Inr bpl_start_values"
  by (simp add: start_values_fresh_def par_dict_default_def par_location_default_def dict_of_def
      dict_get_def bpl_start_values_def)

lemma simu_post_ok:
  assumes n: "next_line (s_linecycler s) = Inr (lt, lc)"
    and d: "list_all (\<lambda>c. render env c lt r) (s_diagrams s)"
    and g: "\<forall>k \<in> set (dict_keys (s_state_dict s)).
              \<exists>x m. model_get k (s_catalog s) (s_sim_res s) (s_start_values s) = Inr (x, m)"
    and t: "res_col r ''time'' = Inr ts" "ts \<noteq> []"
  shows "\<exists>sd' ms. simu_post env r s =
           Inr (s\<lparr>s_linecycler := lc, s_state_dict := sd', s_log := s_log s @ ms, s_prev_final_time := last ts\<rparr>) \<and>
         dict_keys sd' = dict_keys (s_state_dict s) \<and>
         (\<forall>k \<in> set (dict_keys (s_state_dict s)). map_of sd' k = Some (state_value s k))"
proof -
  let ?s1 = "s\<lparr>s_linecycler := lc\<rparr>"
  have "\<forall>k \<in> set (dict_keys (s_state_dict ?s1)).
          \<exists>x m. model_get k (s_catalog ?s1) (s_sim_res ?s1) (s_start_values ?s1) = Inr (x, m)"
    using g by simp
  from ofold_store_state[OF this order_refl] obtain sd' ms where
    o: "ofold store_state (dict_keys (s_state_dict ?s1)) ?s1 = Inr (?s1\<lparr>s_state_dict := sd', s_log := s_log ?s1 @ ms\<rparr>)"
    and k: "dict_keys sd' = dict_keys (s_state_dict ?s1)"
    and v: "\<forall>k. map_of sd' k = (if k \<in> set (dict_keys (s_state_dict ?s1)) then Some (state_value ?s1 k)
                               else map_of (s_state_dict ?s1) k)"
    by blast
  have sv: "state_value ?s1 = state_value s" by (simp add: state_value_def fun_eq_iff)
  have "simu_post env r s = Inr (?s1\<lparr>s_state_dict := sd', s_log := s_log ?s1 @ ms, s_prev_final_time := last ts\<rparr>)"
    using n d t o by (simp add: simu_post_def)
  then show ?thesis using k v sv by (intro exI[of _ sd'] exI[of _ ms]) simp
qed

lemma cont_values_bpl: "cont_start_values bpl_run_session = Inr bpl_cont_values"
  by (simp add: cont_start_values_def bpl_run_session_def bpl_plot_session_eq bpl_session_eq
      par_dict_default_def par_location_default_def dict_of_def dict_get_def dict_keys_def
      bpl_cont_values_def)

lemma par_Y_bpl:
  "ostate (apply_op example_env (OpPar (CallKw [(''Y'', 0.6)])) bpl_run_session) =
     bpl_run_session\<lparr>s_par_dict := AList.update ''Y'' 0.6 par_dict_default\<rparr>"
  by (simp add: apply_op_def par_call_def par_def bpl_run_session_def bpl_plot_session_eq bpl_session_eq
      par_dict_default_def dict_of_def dict_keys_def par_check_default_def dict_get_def)

lemma store_state_prev: "s_prev_final_time (ostate (store_state k s)) = s_prev_final_time s"
  by (simp add: store_state_def olift_def ostate_def split: sum.split prod.split)

lemma simu_post_prev:
  "s_prev_final_time (ostate (simu_post env r s)) = s_prev_final_time s \<or>
   (\<exists>ts. res_col r ''time'' = Inr ts \<and> ts \<noteq> [] \<and> s_prev_final_time (ostate (simu_post env r s)) = last ts)"
proof (cases "next_line (s_linecycler s)")
  case (Inl e)
  then show ?thesis by (simp add: simu_post_def)
next
  case (Inr a)
  then obtain lt lc where n: "next_line (s_linecycler s) = Inr (lt, lc)" by (cases a) auto
  let ?s1 = "s\<lparr>s_linecycler := lc\<rparr>"
  let ?o = "ofold store_state (dict_keys (s_state_dict ?s1)) ?s1"
  have f: "s_prev_final_time (ostate ?o) = s_prev_final_time s"
    by (rule ofold_invariant[where P = "\<lambda>t. s_prev_final_time t = s_prev_final_time s"]) (simp_all add: store_state_prev)
  show ?thesis
  proof (cases "list_all (\<lambda>c. render env c lt r) (s_diagrams ?s1)")
    case False
    then show ?thesis using n by (simp add: simu_post_def)
  next
    case True
    show ?thesis
    proof (cases ?o)
      case (Inl es)
      then show ?thesis using n True f by (cases es) (simp add: simu_post_def)
    next
      case (Inr s2)
      then have p2: "s_prev_final_time s2 = s_prev_final_time s" using f by simp
      show ?thesis
      proof (cases "res_col r ''time''")
        case (Inl e)
        then show ?thesis using n True Inr p2 by (simp add: simu_post_def)
      next
        case (Inr ts)
        then show ?thesis using n True \<open>?o = Inr s2\<close> p2 by (simp add: simu_post_def)
      qed
    qed
  qed
qed

lemma run_prev:
  assumes "env_times_ok env" "rq_start_time rq \<le> rq_stop_time rq"
  shows "s_prev_final_time (ostate (olift (simulate env rq) s1 (\<lambda>r. simu_post env r (s1\<lparr>s_sim_res := Some r\<rparr>)))) =
           s_prev_final_time s1 \<or>
         rq_start_time rq \<le> s_prev_final_time (ostate (olift (simulate env rq) s1 (\<lambda>r. simu_post env r (s1\<lparr>s_sim_res := Some r\<rparr>)))) \<and>
         s_prev_final_time (ostate (olift (simulate env rq) s1 (\<lambda>r. simu_post env r (s1\<lparr>s_sim_res := Some r\<rparr>)))) \<le> rq_stop_time rq"
proof (cases "simulate env rq")
  case (Inl e)
  then show ?thesis by simp
next
  case (Inr r)
  have "\<exists>ts. res_col r ''time'' = Inr ts \<and> set ts \<subseteq> {rq_start_time rq .. rq_stop_time rq}"
    using assms Inr unfolding env_times_ok_def by blast
  then obtain ts where ts: "res_col r ''time'' = Inr ts" "set ts \<subseteq> {rq_start_time rq .. rq_stop_time rq}"
    by blast
  from simu_post_prev[of env r "s1\<lparr>s_sim_res := Some r\<rparr>"] ts Inr show ?thesis
    by (auto dest!: last_in_set)
qed

section \<open>Properties of a session\<close>

text \<open>
  Claim C1. In every session of a notebook (the state after the import of
  the script, then any sequence of calls, each returning or raising) the
  globals that no call rebinds keep their startup values,
  \<^verbatim>\<open>stateDict\<close> keeps the keys of the model's states, \<^verbatim>\<open>parDict\<close>
  keeps every parameter of the application, and the cursor
  \<^verbatim>\<open>prevFinalTime\<close> is non-zero only after a run produced a result.
\<close>

theorem reachable_session_inv: "reachable env cat s \<Longrightarrow> session_inv cat s"
  by (induction rule: reachable.induct) (auto intro: session_inv_startup session_inv_apply_op)

theorem reachable_session_inv_witness:
  "reachable example_env bpl_catalog bpl_run_session \<and> session_inv bpl_catalog bpl_run_session"
proof -
  have r0: "reachable example_env bpl_catalog bpl_session" by (rule reachable_start[OF startup_bpl])
  have r1: "reachable example_env bpl_catalog bpl_plot_session"
    unfolding bpl_plot_session_def by (rule reachable_step[OF r0])
  have "reachable example_env bpl_catalog (ostate (apply_op example_env (OpSimu 5 ''init'' 500) bpl_plot_session))"
    by (rule reachable_step[OF r1])
  then have r2: "reachable example_env bpl_catalog bpl_run_session" by (simp add: apply_op_def fresh_run_bpl)
  show ?thesis using r2 reachable_session_inv[OF r2] by blast
qed

text \<open>
  Claim C2. A fresh run whose FMU call, pen, diagram commands and state
  reads all succeed returns: \<^verbatim>\<open>sim_res\<close> and \<^verbatim>\<open>start_values\<close>
  are those of the run, every state holds the value \<^verbatim>\<open>model_get\<close>
  reads from the result, \<^verbatim>\<open>parDict\<close> is untouched, and the cursor is
  the last time of the result.
\<close>

theorem simu_fresh_ok:
  assumes mode: "mode \<in> set [''Initial'', ''initial'', ''init'']"
    and sv: "start_values_fresh (s_par_dict s) (s_par_location s) = Inr sv"
    and ncp: "ncp \<noteq> 0"
    and sim: "simulate env (projr (simu_request s 0 T ncp sv)) = Inr r"
    and n: "next_line (s_linecycler s) = Inr (lt, lc)"
    and d: "list_all (\<lambda>c. render env c lt r) (s_diagrams s)"
    and g: "\<forall>k \<in> set (dict_keys (s_state_dict s)). \<exists>x m. model_get k (s_catalog s) (Some r) (Some sv) = Inr (x, m)"
    and t: "res_col r ''time'' = Inr ts" "ts \<noteq> []"
  shows "\<exists>s'. simu env T mode ncp s = Inr s' \<and>
           s_prev_final_time s' = last ts \<and> s_sim_res s' = Some r \<and> s_start_values s' = Some sv \<and>
           s_linecycler s' = lc \<and> s_par_dict s' = s_par_dict s \<and>
           dict_keys (s_state_dict s') = dict_keys (s_state_dict s) \<and>
           (\<forall>k \<in> set (dict_keys (s_state_dict s)).
              map_of (s_state_dict s') k = Some (fst (projr (model_get k (s_catalog s) (Some r) (Some sv)))))"
proof -
  let ?s2 = "s\<lparr>s_start_values := Some sv, s_sim_res := Some r\<rparr>"
  obtain rq where rq: "simu_request s 0 T ncp sv = Inr rq" using ncp by (simp add: simu_request_def)
  with sim have sim': "simulate env rq = Inr r" by simp
  have run: "simu env T mode ncp s = simu_post env r ?s2"
    using mode sv rq sim' by (simp add: simu_def simu_fresh_def Let_def)
  obtain sd' ms where
    p: "simu_post env r ?s2 =
          Inr (?s2\<lparr>s_linecycler := lc, s_state_dict := sd', s_log := s_log ?s2 @ ms, s_prev_final_time := last ts\<rparr>)"
    and k: "dict_keys sd' = dict_keys (s_state_dict ?s2)"
    and v: "\<forall>k \<in> set (dict_keys (s_state_dict ?s2)). map_of sd' k = Some (state_value ?s2 k)"
    using simu_post_ok[of ?s2 lt lc env r ts] n d g t by auto
  show ?thesis using run p k v by (simp add: state_value_def)
qed

theorem simu_fresh_ok_witness:
  "\<exists>s'. simu example_env 5 ''init'' 500 bpl_plot_session = Inr s' \<and>
      s_prev_final_time s' = 5 \<and> s_sim_res s' = Some (example_result 0 5) \<and>
      map_of (s_state_dict s') ''bioreactor.m[1]'' = Some (Some 3)"
proof -
  let ?s = bpl_plot_session
  have m: "set (dict_keys bpl_start_values) \<inter> {''bioreactor.V'', ''bioreactor.m[1]'', ''bioreactor.m[2]''} = {}"
    by (simp add: bpl_start_values_def dict_keys_def)
  have h1: "start_values_fresh (s_par_dict ?s) (s_par_location ?s) = Inr bpl_start_values"
    using start_values_bpl by (simp add: bpl_plot_session_eq bpl_session_eq)
  have h2: "simulate example_env (projr (simu_request ?s 0 5 500 bpl_start_values)) = Inr (example_result 0 5)"
    by (simp add: example_env_def simu_request_def)
  have h3: "next_line (s_linecycler ?s) = Inr (''-'', Some (default_lines, 1))"
    by (simp add: bpl_plot_session_eq next_line_def default_lines_def)
  have h4: "list_all (\<lambda>c. render example_env c ''-'' (example_result 0 5)) (s_diagrams ?s)"
    by (simp add: example_env_def list_all_iff)
  have keys: "set (dict_keys (s_state_dict ?s)) = {''bioreactor.V'', ''bioreactor.m[1]'', ''bioreactor.m[2]''}"
    by (simp add: bpl_plot_session_eq bpl_session_eq dict_keys_def)
  have cat: "s_catalog ?s = bpl_catalog" by (simp add: bpl_plot_session_eq bpl_session_eq)
  have h5: "\<forall>k \<in> set (dict_keys (s_state_dict ?s)).
              \<exists>x m. model_get k (s_catalog ?s) (Some (example_result 0 5)) (Some bpl_start_values) = Inr (x, m)"
    using model_get_bpl_states[OF m, of 0 5] by (simp add: keys cat)
  have h6: "res_col (example_result 0 5) ''time'' = Inr [0, 5]" by (simp add: res_col_def example_result_def)
  from simu_fresh_ok[OF _ h1 _ h2 h3 h4 h5 h6] obtain s' where
    r: "simu example_env 5 ''init'' 500 ?s = Inr s'" "s_prev_final_time s' = last [0, 5]"
       "s_sim_res s' = Some (example_result 0 5)"
    and v: "\<forall>k \<in> set (dict_keys (s_state_dict ?s)). map_of (s_state_dict s') k =
              Some (fst (projr (model_get k (s_catalog ?s) (Some (example_result 0 5)) (Some bpl_start_values))))"
    by auto
  have "map_of (s_state_dict s') ''bioreactor.m[1]'' = Some (Some 3)"
    using bspec[OF v, of "''bioreactor.m[1]''"] model_get_bpl_states(2)[OF m, of 0 5] by (simp add: keys cat)
  with r show ?thesis by auto
qed

text \<open>
  Claim C3. A continued run that succeeds starts at the cursor, stops
  \<open>T\<close> later, runs with the overrides computed from the previous final
  state, stores the new final state, and moves the cursor to the last time
  of its result.
\<close>

theorem simu_cont_ok:
  assumes mode: "mode \<in> set [''Continued'', ''continued'', ''cont'']"
    and prev: "s_prev_final_time s \<noteq> 0"
    and sv: "cont_start_values s = Inr sv"
    and ncp: "ncp \<noteq> 0"
    and sim: "simulate env (projr (simu_request s (s_prev_final_time s) T ncp sv)) = Inr r"
    and n: "next_line (s_linecycler s) = Inr (lt, lc)"
    and d: "list_all (\<lambda>c. render env c lt r) (s_diagrams s)"
    and g: "\<forall>k \<in> set (dict_keys (s_state_dict s)). \<exists>x m. model_get k (s_catalog s) (Some r) (Some sv) = Inr (x, m)"
    and t: "res_col r ''time'' = Inr ts" "ts \<noteq> []"
  shows "\<exists>s'. simu env T mode ncp s = Inr s' \<and>
           rq_start_time (projr (simu_request s (s_prev_final_time s) T ncp sv)) = s_prev_final_time s \<and>
           rq_stop_time (projr (simu_request s (s_prev_final_time s) T ncp sv)) = s_prev_final_time s + T \<and>
           s_prev_final_time s' = last ts \<and> s_sim_res s' = Some r \<and> s_start_values s' = Some sv \<and>
           s_par_dict s' = s_par_dict s \<and> dict_keys (s_state_dict s') = dict_keys (s_state_dict s) \<and>
           (\<forall>k \<in> set (dict_keys (s_state_dict s)).
              map_of (s_state_dict s') k = Some (fst (projr (model_get k (s_catalog s) (Some r) (Some sv)))))"
proof -
  let ?s2 = "s\<lparr>s_start_values := Some sv, s_sim_res := Some r\<rparr>"
  obtain rq where rq: "simu_request s (s_prev_final_time s) T ncp sv = Inr rq"
    "rq_start_time rq = s_prev_final_time s" "rq_stop_time rq = s_prev_final_time s + T"
    using ncp by (simp add: simu_request_def)
  with sim have sim': "simulate env rq = Inr r" by simp
  have run: "simu env T mode ncp s = simu_post env r ?s2"
    using mode prev sv rq sim' mode_cont_not_init[OF mode] by (simp add: simu_def simu_cont_def Let_def)
  obtain sd' ms where
    p: "simu_post env r ?s2 =
          Inr (?s2\<lparr>s_linecycler := lc, s_state_dict := sd', s_log := s_log ?s2 @ ms, s_prev_final_time := last ts\<rparr>)"
    and k: "dict_keys sd' = dict_keys (s_state_dict ?s2)"
    and v: "\<forall>k \<in> set (dict_keys (s_state_dict ?s2)). map_of sd' k = Some (state_value ?s2 k)"
    using simu_post_ok[of ?s2 lt lc env r ts] n d g t by auto
  show ?thesis using run p k v rq by (simp add: state_value_def)
qed

theorem simu_cont_ok_witness:
  "\<exists>s'. simu example_env 5 ''cont'' 500 bpl_run_session = Inr s' \<and>
      s_prev_final_time s' = 10 \<and> s_start_values s' = Some bpl_cont_values \<and>
      map_of (s_state_dict s') ''bioreactor.m[2]'' = Some (Some 6)"
proof -
  let ?s = bpl_run_session
  have m: "set (dict_keys bpl_cont_values) \<inter> {''bioreactor.V'', ''bioreactor.m[1]'', ''bioreactor.m[2]''} = {}"
    by (simp add: bpl_cont_values_def dict_keys_def)
  have pv: "s_prev_final_time ?s = 5" by (simp add: bpl_run_session_def)
  have h2: "simulate example_env (projr (simu_request ?s (s_prev_final_time ?s) 5 500 bpl_cont_values)) =
              Inr (example_result 5 10)"
    by (simp add: example_env_def simu_request_def pv)
  have h3: "next_line (s_linecycler ?s) = Inr (''--'', Some (default_lines, 2))"
    by (simp add: bpl_run_session_def next_line_def default_lines_def)
  have h4: "list_all (\<lambda>c. render example_env c ''--'' (example_result 5 10)) (s_diagrams ?s)"
    by (simp add: example_env_def list_all_iff)
  have keys: "set (dict_keys (s_state_dict ?s)) = {''bioreactor.V'', ''bioreactor.m[1]'', ''bioreactor.m[2]''}"
    by (simp add: bpl_run_session_def dict_keys_def)
  have cat: "s_catalog ?s = bpl_catalog" by (simp add: bpl_run_session_def bpl_plot_session_eq bpl_session_eq)
  have h5: "\<forall>k \<in> set (dict_keys (s_state_dict ?s)).
              \<exists>x m. model_get k (s_catalog ?s) (Some (example_result 5 10)) (Some bpl_cont_values) = Inr (x, m)"
    using model_get_bpl_states[OF m, of 5 10] by (simp add: keys cat)
  have h6: "res_col (example_result 5 10) ''time'' = Inr [5, 10]" by (simp add: res_col_def example_result_def)
  have h0: "s_prev_final_time ?s \<noteq> 0" by (simp add: pv)
  from simu_cont_ok[OF _ h0 cont_values_bpl _ h2 h3 h4 h5 h6] obtain s' where
    r: "simu example_env 5 ''cont'' 500 ?s = Inr s'" "s_prev_final_time s' = last [5, 10]"
       "s_start_values s' = Some bpl_cont_values"
    and v: "\<forall>k \<in> set (dict_keys (s_state_dict ?s)). map_of (s_state_dict s') k =
              Some (fst (projr (model_get k (s_catalog ?s) (Some (example_result 5 10)) (Some bpl_cont_values))))"
    by auto
  have "map_of (s_state_dict s') ''bioreactor.m[2]'' = Some (Some 6)"
    using bspec[OF v, of "''bioreactor.m[2]''"] model_get_bpl_states(3)[OF m, of 5 10] by (simp add: keys cat)
  with r show ?thesis by auto
qed

text \<open>
  Claim C4. The overrides of a continued run refine the intended map: every
  state's initial-value name is bound to the state's value at the end of the
  previous run, and every parameter that is not an initial value of a state
  is bound at its location to its value in \<^verbatim>\<open>parDict\<close>; no other
  name is bound. This holds whenever the locations and names are one-to-one.
\<close>

theorem cont_overrides:
  assumes "cont_ready s"
  shows "\<exists>sv. cont_start_values s = Inr sv \<and>
    (\<forall>k \<in> set (dict_keys (s_state_dict s)).
       map_of sv (the (map_of (s_state_dict_initial s) k)) = map_of (s_state_dict s) k) \<and>
    (\<forall>p \<in> set (dict_keys (s_par_dict s)).
       the (map_of (s_par_location s) p) \<notin> set (map snd (s_state_dict_initial s)) \<longrightarrow>
       map_of sv (the (map_of (s_par_location s) p)) = map_option Some (map_of (s_par_dict s) p)) \<and>
    set (dict_keys sv) =
      (\<lambda>p. the (map_of (s_par_location s) p)) `
        {p \<in> set (dict_keys (s_par_dict s)). the (map_of (s_par_location s) p) \<notin> set (map snd (s_state_dict_initial s))}
      \<union> (\<lambda>k. the (map_of (s_state_dict_initial s) k)) ` set (dict_keys (s_state_dict s))"
proof -
  let ?pd = "s_par_dict s" and ?pl = "s_par_location s" and ?sd = "s_state_dict s"
    and ?sdi = "s_state_dict_initial s" and ?sdil = "s_state_dict_initial_loc s"
  let ?V = "set (map snd ?sdi)"
  let ?D = "{k \<in> set (dict_keys ?pd). the (map_of ?pl k) \<in> ?V}"
  have r: "is_dict ?pd" "is_dict ?pl" "is_dict ?sd"
    "set (dict_keys ?pd) \<subseteq> set (dict_keys ?pl)" "set (dict_keys ?sd) \<subseteq> set (dict_keys ?sdi)"
    "?sdil = state_dict_initial_loc ?sdi" "inj_on (map_of ?sdi) (set (dict_keys ?sd))"
    "inj_on (map_of ?pl) (set (dict_keys ?pd))" "set (dict_keys ?pd) \<inter> ?V = {}"
    using assms by (simp_all add: cont_ready_def)
  obtain pdr plr where red: "reduce_loop ?pl (map snd ?sdi) (dict_keys ?pd) (?pd, ?pl) = Inr (pdr, plr)"
    and mpdr: "map_of pdr = map_of ?pd |` (- ?D)" and mplr: "map_of plr = map_of ?pl |` (- ?D)"
    and dpdr: "is_dict pdr" and dplr: "is_dict plr"
    using reduce_loop_ok[OF r(4), of "map snd ?sdi" ?pd ?pl] r(1,2) by auto
  let ?ps = "map (\<lambda>(k, x). (the (map_of ?sdi k), x)) ?sd"
  have so: "state_overrides ?sdi ?sd = Inr ?ps" using r(5) by (rule state_overrides_ok)
  let ?A = "map (\<lambda>(k, v). (k, Some v)) pdr"
  let ?plm = "dict_of (plr @ ?sdil)"
  let ?pdm = "dict_of (?A @ ?ps)"
  let ?f = "\<lambda>k. the (map_of ?plm k)"
  have defined: "\<And>k. k \<in> set (dict_keys ?sd) \<Longrightarrow> \<exists>n. map_of ?sdi k = Some n \<and> n \<in> ?V"
  proof -
    fix k assume "k \<in> set (dict_keys ?sd)"
    with r(5) have "k \<in> set (dict_keys ?sdi)" by blast
    then obtain n where n: "map_of ?sdi k = Some n" by (auto simp: dict_keys_in_iff)
    then have "n \<in> ?V" by (force dest: map_of_SomeD)
    with n show "\<exists>n. map_of ?sdi k = Some n \<and> n \<in> ?V" by blast
  qed
  have ips: "inj_on (\<lambda>k. the (map_of ?sdi k)) (set (dict_keys ?sd))"
  proof (rule inj_onI)
    fix x y assume x: "x \<in> set (dict_keys ?sd)" and y: "y \<in> set (dict_keys ?sd)"
      and e: "the (map_of ?sdi x) = the (map_of ?sdi y)"
    from defined[OF x] defined[OF y] e have "map_of ?sdi x = map_of ?sdi y" by auto
    with x y r(7) show "x = y" by (auto dest: inj_onD)
  qed
  note ps = map_keys_inj[OF r(3) ips]
  have kpsV: "set (dict_keys ?ps) \<subseteq> ?V" using ps defined by force
  have dA: "is_dict ?A" using dpdr by (simp add: is_dict_def comp_def split_def)
  have kA: "set (dict_keys ?A) = set (dict_keys ?pd) - ?D"
  proof -
    have "set (dict_keys ?A) = dom (map_of pdr)"
      by (simp add: dict_keys_def dom_map_of_conv_image_fst image_image split_def)
    also have "\<dots> = set (dict_keys ?pd) - ?D"
      by (auto simp: mpdr dict_keys_def dom_map_of_conv_image_fst)
    finally show ?thesis .
  qed
  have mplm: "map_of ?plm = map_of plr ++ map_of ?sdil"
    using dplr r(6) by (simp add: map_of_dict_of_append is_dict_state_dict_initial_loc)
  have f_names: "\<And>n. n \<in> ?V \<Longrightarrow> ?f n = n"
    by (simp only: mplm) (simp add: r(6) map_of_state_dict_initial_loc map_add_def)
  have f_pars: "\<And>p. p \<in> set (dict_keys ?pd) - ?D \<Longrightarrow> ?f p = the (map_of ?pl p)"
  proof -
    fix p assume p: "p \<in> set (dict_keys ?pd) - ?D"
    then have "p \<notin> ?V" using r(9) by blast
    with p show "?f p = the (map_of ?pl p)"
      by (simp only: mplm) (simp add: r(6) mplr map_of_state_dict_initial_loc map_add_def)
  qed
  have kpdm: "set (dict_keys ?pdm) = (set (dict_keys ?pd) - ?D) \<union> set (dict_keys ?ps)"
  proof -
    have "set (dict_keys ?pdm) = set (map fst (?A @ ?ps))" by (rule set_dict_keys_dict_of)
    also have "\<dots> = set (dict_keys ?A) \<union> set (dict_keys ?ps)"
      by (simp only: dict_keys_def map_append set_append)
    finally show ?thesis using kA by simp
  qed
  have kplm: "set (dict_keys ?pdm) \<subseteq> set (dict_keys ?plm)"
  proof -
    have "set (dict_keys ?pd) - ?D \<subseteq> dom (map_of plr)"
      using r(4) by (auto simp: mplr dict_keys_def dom_map_of_conv_image_fst)
    moreover have "?V \<subseteq> dom (map_of ?sdil)"
    proof
      fix n assume "n \<in> ?V"
      then show "n \<in> dom (map_of ?sdil)"
        by (simp only: r(6)) (simp add: map_of_state_dict_initial_loc dom_def)
    qed
    ultimately have "set (dict_keys ?pdm) \<subseteq> dom (map_of plr) \<union> dom (map_of ?sdil)"
      using kpdm kpsV by blast
    also have "\<dots> = set (dict_keys ?plm)"
      by (simp add: set_dict_keys_dom mplm Un_commute)
    finally show ?thesis .
  qed
  have finj: "inj_on ?f (set (dict_keys ?pdm))"
  proof (rule inj_onI)
    fix x y assume x: "x \<in> set (dict_keys ?pdm)" and y: "y \<in> set (dict_keys ?pdm)" and e: "?f x = ?f y"
    have pv: "?f p \<notin> ?V" if p: "p \<in> set (dict_keys ?pd) - ?D" for p
    proof -
      have "the (map_of ?pl p) \<notin> ?V" using p by blast
      then show ?thesis using f_pars[OF p] by metis
    qed
    show "x = y"
    proof (cases "x \<in> ?V")
      case True
      have fx: "?f x = x" using f_names[OF True] .
      have y': "y \<in> ?V"
      proof (rule ccontr)
        assume "y \<notin> ?V"
        then have "y \<in> set (dict_keys ?pd) - ?D" using y kpdm kpsV by blast
        then have "?f y \<notin> ?V" by (rule pv)
        with e fx True show False by metis
      qed
      show ?thesis using fx f_names[OF y'] e by metis
    next
      case False
      then have xp: "x \<in> set (dict_keys ?pd) - ?D" using x kpdm kpsV by blast
      have "y \<notin> ?V"
      proof
        assume "y \<in> ?V"
        then have "?f y \<in> ?V" using f_names by metis
        with e pv[OF xp] show False by metis
      qed
      then have yp: "y \<in> set (dict_keys ?pd) - ?D" using y kpdm kpsV by blast
      have "x \<in> set (dict_keys ?pl)" "y \<in> set (dict_keys ?pl)" using xp yp r(4) by blast+
      then have ex: "map_of ?pl x \<noteq> None" "map_of ?pl y \<noteq> None" by (simp_all add: dict_keys_in_iff)
      have "the (map_of ?pl x) = the (map_of ?pl y)" using e f_pars[OF xp] f_pars[OF yp] by metis
      then have "map_of ?pl x = map_of ?pl y" using ex by (metis option.collapse)
      moreover have "x \<in> set (dict_keys ?pd)" "y \<in> set (dict_keys ?pd)" using xp yp by blast+
      ultimately show ?thesis using r(8) by (auto dest: inj_onD)
    qed
  qed
  note sv = map_keys_inj[OF is_dict_of finj]
  let ?sv = "dict_update [] (map (\<lambda>(k, v). (?f k, v)) ?pdm)"
  have csv: "cont_start_values s = Inr ?sv"
    using red so loc_comp_ok[OF kplm, of "[]"] by (simp add: cont_start_values_def Let_def)
  have msv: "map_of ?sv = map_of (map (\<lambda>(k, v). (?f k, v)) ?pdm)"
    using sv by (simp add: map_of_dict_update map_of_rev_dict)
  have ksv: "set (dict_keys ?sv) = ?f ` set (dict_keys ?pdm)"
  proof -
    have "set (dict_keys ?sv) = set (dict_keys (map (\<lambda>(k, v). (?f k, v)) ?pdm))"
      by (simp only: set_dict_keys_update dict_keys_Nil empty_set Un_empty_left) (simp add: dict_keys_def)
    also have "\<dots> = ?f ` set (dict_keys ?pdm)" by (rule conjunct2[OF conjunct2[OF sv]])
    finally show ?thesis .
  qed
  have mpdm: "map_of ?pdm = map_of ?A ++ map_of ?ps"
    using dA ps by (simp add: map_of_dict_of_append)
  note sv_v = conjunct1[OF conjunct2[OF sv]]
  note ps_v = conjunct1[OF conjunct2[OF ps]] and ps_k = conjunct2[OF conjunct2[OF ps]]
  have sv_at: "map_of ?sv (?f x) = map_of ?pdm x" if x: "x \<in> set (dict_keys ?pdm)" for x
  proof -
    have "map_of ?sv (?f x) = map_of (map (\<lambda>(k, v). (?f k, v)) ?pdm) (?f x)" by (simp only: msv)
    also have "\<dots> = map_of ?pdm x" by (rule bspec[OF sv_v x])
    finally show ?thesis .
  qed
  let ?P = "{p \<in> set (dict_keys ?pd). the (map_of ?pl p) \<notin> ?V}"
  have Deq: "set (dict_keys ?pd) - ?D = ?P" by blast
  show ?thesis
  proof (intro exI conjI ballI impI)
    show "cont_start_values s = Inr ?sv" by (rule csv)
  next
    fix k assume k: "k \<in> set (dict_keys ?sd)"
    then obtain n where n: "map_of ?sdi k = Some n" "n \<in> ?V" using defined by blast
    have "n = the (map_of ?sdi k)" using n(1) by simp
    with k have "n \<in> (\<lambda>k. the (map_of ?sdi k)) ` set (dict_keys ?sd)" by blast
    then have nps: "n \<in> set (dict_keys ?ps)" by (simp only: ps_k)
    then have npdm: "n \<in> set (dict_keys ?pdm)" using kpdm by blast
    have "map_of ?sv n = map_of ?sv (?f n)" by (simp only: f_names[OF n(2)])
    also have "\<dots> = map_of ?pdm n" by (rule sv_at[OF npdm])
    also have "\<dots> = map_of ?ps n"
    proof -
      have "n \<in> dom (map_of ?ps)" using nps by (simp only: set_dict_keys_dom)
      then have "(map_of ?A ++ map_of ?ps) n = map_of ?ps n" by (rule map_add_dom_app_simps(1))
      then show ?thesis by (simp only: mpdm)
    qed
    also have "\<dots> = map_of ?sd k" using bspec[OF ps_v k] n(1) by simp
    finally show "map_of ?sv (the (map_of ?sdi k)) = map_of ?sd k" using n(1) by simp
  next
    fix p assume p: "p \<in> set (dict_keys ?pd)" "the (map_of ?pl p) \<notin> ?V"
    then have pD: "p \<in> set (dict_keys ?pd) - ?D" by blast
    have nps: "p \<notin> set (dict_keys ?ps)" using pD kpsV r(9) by blast
    have "map_of ?sv (the (map_of ?pl p)) = map_of ?sv (?f p)" by (simp only: f_pars[OF pD])
    also have "\<dots> = map_of ?pdm p" using pD kpdm by (intro sv_at) blast
    also have "\<dots> = map_of ?A p"
    proof -
      have "p \<notin> dom (map_of ?ps)" using nps unfolding set_dict_keys_dom .
      then have "(map_of ?A ++ map_of ?ps) p = map_of ?A p" by (rule map_add_dom_app_simps(3))
      then show ?thesis by (simp only: mpdm)
    qed
    also have "\<dots> = map_option Some (map_of pdr p)" by (simp add: map_of_map)
    also have "\<dots> = map_option Some (map_of ?pd p)" using pD by (simp add: mpdr)
    finally show "map_of ?sv (the (map_of ?pl p)) = map_option Some (map_of ?pd p)" .
  next
    have fimg1: "?f ` ?P = (\<lambda>p. the (map_of ?pl p)) ` ?P"
    proof (rule image_cong[OF refl])
      fix p assume "p \<in> ?P"
      then have "p \<in> set (dict_keys ?pd) - ?D" by blast
      then show "?f p = the (map_of ?pl p)" by (rule f_pars)
    qed
    have "?f ` set (dict_keys ?ps) = (\<lambda>x. x) ` set (dict_keys ?ps)"
    proof (rule image_cong[OF refl])
      fix x assume "x \<in> set (dict_keys ?ps)"
      then have "x \<in> ?V" using kpsV by blast
      then show "?f x = x" by (rule f_names)
    qed
    also have "\<dots> = set (dict_keys ?ps)" by (rule image_ident)
    also have "\<dots> = (\<lambda>k. the (map_of ?sdi k)) ` set (dict_keys ?sd)" by (rule ps_k)
    finally have fimg2: "?f ` set (dict_keys ?ps) = (\<lambda>k. the (map_of ?sdi k)) ` set (dict_keys ?sd)" .
    show "set (dict_keys ?sv) = (\<lambda>p. the (map_of ?pl p)) ` ?P \<union> (\<lambda>k. the (map_of ?sdi k)) ` set (dict_keys ?sd)"
      by (simp only: ksv kpdm Deq image_Un fimg1 fimg2)
  qed
qed

theorem cont_overrides_witness:
  "cont_ready bpl_run_session \<and>
   (\<exists>sv. cont_start_values bpl_run_session = Inr sv \<and>
      map_of sv ''bioreactor.m_start[1]'' = Some (Some 3) \<and>
      map_of sv ''bioreactor.culture.Y'' = Some (Some 0.5))"
proof -
  have c: "cont_ready bpl_run_session"
    by (simp add: cont_ready_def bpl_run_session_def bpl_plot_session_eq bpl_session_eq
        par_dict_default_def par_location_default_def dict_of_def dict_keys_def is_dict_def
        state_dict_initial_loc_def)
  from cont_overrides[OF c] obtain sv where sv: "cont_start_values bpl_run_session = Inr sv"
    and st: "\<forall>k \<in> set (dict_keys (s_state_dict bpl_run_session)).
               map_of sv (the (map_of (s_state_dict_initial bpl_run_session) k)) = map_of (s_state_dict bpl_run_session) k"
    and pa: "\<forall>p \<in> set (dict_keys (s_par_dict bpl_run_session)).
               the (map_of (s_par_location bpl_run_session) p) \<notin> set (map snd (s_state_dict_initial bpl_run_session)) \<longrightarrow>
               map_of sv (the (map_of (s_par_location bpl_run_session) p)) = map_option Some (map_of (s_par_dict bpl_run_session) p)"
    by blast
  have "map_of sv ''bioreactor.m_start[1]'' = Some (Some 3)"
    using bspec[OF st, of "''bioreactor.m[1]''"]
    by (simp add: bpl_run_session_def bpl_plot_session_eq bpl_session_eq dict_keys_def)
  moreover have "map_of sv ''bioreactor.culture.Y'' = Some (Some 0.5)"
    using bspec[OF pa, of "''Y''"]
    by (simp add: bpl_run_session_def bpl_plot_session_eq bpl_session_eq dict_keys_def
        par_dict_default_def par_location_default_def dict_of_def)
  ultimately show ?thesis using c sv by blast
qed

text \<open>
  Claim C5. When the FMU raises in a fresh run, the exception escapes
  \<^verbatim>\<open>simu()\<close> after \<^verbatim>\<open>start_values\<close> has been overwritten; the
  results, the states and the cursor are those of the previous run.
\<close>

theorem simu_fresh_failure:
  assumes "mode \<in> set [''Initial'', ''initial'', ''init'']"
    and "start_values_fresh (s_par_dict s) (s_par_location s) = Inr sv" "ncp \<noteq> 0"
    and "simulate env (projr (simu_request s 0 T ncp sv)) = Inl e"
  shows "simu env T mode ncp s = Inl (e, s\<lparr>s_start_values := Some sv\<rparr>)"
proof -
  obtain rq where rq: "simu_request s 0 T ncp sv = Inr rq" using assms(3) by (simp add: simu_request_def)
  then show ?thesis using assms by (simp add: simu_def simu_fresh_def Let_def)
qed

theorem simu_fresh_failure_witness:
  "''init'' \<in> set [''Initial'', ''initial'', ''init''] \<and>
   start_values_fresh (s_par_dict bpl_plot_session) (s_par_location bpl_plot_session) = Inr bpl_start_values \<and>
   (500::real) \<noteq> 0 \<and>
   simulate failing_env (projr (simu_request bpl_plot_session 0 5 500 bpl_start_values)) = Inl SimulationError \<and>
   simu failing_env 5 ''init'' 500 bpl_plot_session =
     Inl (SimulationError, bpl_plot_session\<lparr>s_start_values := Some bpl_start_values\<rparr>)"
proof -
  have h: "start_values_fresh (s_par_dict bpl_plot_session) (s_par_location bpl_plot_session) = Inr bpl_start_values"
    using start_values_bpl by (simp add: bpl_plot_session_eq bpl_session_eq)
  have f: "simulate failing_env (projr (simu_request bpl_plot_session 0 5 500 bpl_start_values)) = Inl SimulationError"
    by (simp add: failing_env_def)
  show ?thesis using h f simu_fresh_failure[OF _ h _ f] by simp
qed

text \<open>
  Claim C6. A fresh run before any \<^verbatim>\<open>newplot()\<close> or
  \<^verbatim>\<open>setLines()\<close> simulates, stores \<^verbatim>\<open>sim_res\<close>, and then raises
  \<open>NameError\<close> at \<^verbatim>\<open>next(linecycler)\<close>: the states are not stored
  and the cursor does not move, so a following continued run is refused.
\<close>

theorem simu_before_newplot:
  assumes "mode \<in> set [''Initial'', ''initial'', ''init'']"
    and "start_values_fresh (s_par_dict s) (s_par_location s) = Inr sv" "ncp \<noteq> 0"
    and "simulate env (projr (simu_request s 0 T ncp sv)) = Inr r"
    and "s_linecycler s = None"
  shows "simu env T mode ncp s = Inl (NameError, s\<lparr>s_start_values := Some sv, s_sim_res := Some r\<rparr>)"
proof -
  obtain rq where rq: "simu_request s 0 T ncp sv = Inr rq" using assms(3) by (simp add: simu_request_def)
  then show ?thesis using assms by (simp add: simu_def simu_fresh_def simu_post_def next_line_def Let_def)
qed

theorem simu_before_newplot_witness:
  "''init'' \<in> set [''Initial'', ''initial'', ''init''] \<and>
   start_values_fresh (s_par_dict bpl_session) (s_par_location bpl_session) = Inr bpl_start_values \<and>
   (500::real) \<noteq> 0 \<and>
   simulate example_env (projr (simu_request bpl_session 0 5 500 bpl_start_values)) = Inr (example_result 0 5) \<and>
   s_linecycler bpl_session = None \<and>
   simu example_env 5 ''init'' 500 bpl_session =
     Inl (NameError, bpl_session\<lparr>s_start_values := Some bpl_start_values, s_sim_res := Some (example_result 0 5)\<rparr>)"
proof -
  have h: "start_values_fresh (s_par_dict bpl_session) (s_par_location bpl_session) = Inr bpl_start_values"
    using start_values_bpl by (simp add: bpl_session_eq)
  have f: "simulate example_env (projr (simu_request bpl_session 0 5 500 bpl_start_values)) = Inr (example_result 0 5)"
    by (simp add: example_env_def simu_request_def)
  have n: "s_linecycler bpl_session = None" by (simp add: bpl_session_eq)
  show ?thesis using h f n simu_before_newplot[OF _ h _ f n] by simp
qed

text \<open>
  Claim C7. \<^verbatim>\<open>init()\<close> accepts any key that contains
  \<^verbatim>\<open>_start\<close>, also one without a location; every later fresh run
  then raises \<open>KeyError\<close> while computing its start values, and changes
  no global.
\<close>

theorem init_unknown_start_key:
  assumes "py_in ''_start'' k" "k \<notin> set (dict_keys (s_par_location s))"
    and "mode \<in> set [''Initial'', ''initial'', ''init'']"
  shows "simu env T mode ncp (ostate (apply_op env (OpInit (CallKw [(k, v)])) s)) =
           Inl (KeyError, ostate (apply_op env (OpInit (CallKw [(k, v)])) s))"
proof -
  let ?s = "ostate (apply_op env (OpInit (CallKw [(k, v)])) s)"
  have pd: "s_par_dict ?s = AList.update k v (s_par_dict s)" and loc: "s_par_location ?s = s_par_location s"
    using assms(1) by (simp_all add: apply_op_def init_call_def init_eq dict_of_def)
  have "k \<in> set (dict_keys (map (\<lambda>(k, v). (k, Some v)) (s_par_dict ?s)))"
  proof -
    have "k \<in> set (dict_keys (s_par_dict ?s))" by (simp add: pd dict_keys_def dom_update)
    then show ?thesis by (simp add: dict_keys_def image_iff split_def)
  qed
  moreover have "k \<notin> set (dict_keys (s_par_location ?s))" unfolding loc by (rule assms(2))
  ultimately have "\<not> set (dict_keys (map (\<lambda>(k, v). (k, Some v)) (s_par_dict ?s))) \<subseteq> set (dict_keys (s_par_location ?s))"
    by blast
  then have "start_values_fresh (s_par_dict ?s) (s_par_location ?s) = Inl KeyError"
    unfolding start_values_fresh_def by (rule loc_comp_missing)
  then show ?thesis using assms(3) by (simp add: simu_def simu_fresh_def)
qed

theorem init_unknown_start_key_witness:
  "py_in ''_start'' ''X_start'' \<and> ''X_start'' \<notin> set (dict_keys (s_par_location bpl_run_session)) \<and>
   ''init'' \<in> set [''Initial'', ''initial'', ''init''] \<and>
   simu example_env 5 ''init'' 500 (ostate (apply_op example_env (OpInit (CallKw [(''X_start'', 2)])) bpl_run_session)) =
     Inl (KeyError, ostate (apply_op example_env (OpInit (CallKw [(''X_start'', 2)])) bpl_run_session))"
proof -
  have h1: "py_in ''_start'' ''X_start''" by simp
  have h2: "''X_start'' \<notin> set (dict_keys (s_par_location bpl_run_session))"
    by (simp add: bpl_run_session_def bpl_plot_session_eq bpl_session_eq par_location_default_def dict_of_def dict_keys_def)
  show ?thesis using h1 h2 init_unknown_start_key[OF h1 h2, of "''init''" example_env 5 500 2] by simp
qed

text \<open>
  Claim C8. A continued run before the cursor has moved simulates nothing:
  it prints the two error lines and leaves every global as it was.
\<close>

theorem simu_cont_requires_fresh:
  assumes "s_prev_final_time s = 0" "mode \<in> set [''Continued'', ''continued'', ''cont'']"
  shows "simu env T mode ncp s = Inr (s\<lparr>s_log := s_log s @ [MsgFirstInit, MsgNoSimulation]\<rparr>)"
  using assms mode_cont_not_init[OF assms(2)] by (simp add: simu_def simu_cont_def)

theorem simu_cont_requires_fresh_witness:
  "s_prev_final_time bpl_plot_session = 0 \<and> ''cont'' \<in> set [''Continued'', ''continued'', ''cont''] \<and>
   simu example_env 5 ''cont'' 500 bpl_plot_session =
     Inr (bpl_plot_session\<lparr>s_log := [MsgFirstInit, MsgNoSimulation]\<rparr>)"
  using simu_cont_requires_fresh[of bpl_plot_session "''cont''" example_env 5 500]
  by (simp add: bpl_plot_session_eq bpl_session_eq)

text \<open>
  Claim C9. A mode that is none of the six accepted spellings simulates
  nothing: \<^verbatim>\<open>simu()\<close> prints the two error lines and changes no global.
\<close>

theorem simu_bad_mode:
  assumes "mode \<notin> set [''Initial'', ''initial'', ''init'']" "mode \<notin> set [''Continued'', ''continued'', ''cont'']"
  shows "simu env T mode ncp s = Inr (s\<lparr>s_log := s_log s @ [MsgModeNotCorrect, MsgNoSimulation]\<rparr>)"
  using assms by (simp add: simu_def)

theorem simu_bad_mode_witness:
  "''INIT'' \<notin> set [''Initial'', ''initial'', ''init''] \<and> ''INIT'' \<notin> set [''Continued'', ''continued'', ''cont''] \<and>
   simu example_env 5 ''INIT'' 500 bpl_plot_session =
     Inr (bpl_plot_session\<lparr>s_log := [MsgModeNotCorrect, MsgNoSimulation]\<rparr>)"
  using simu_bad_mode[of "''INIT''" example_env 5 500 bpl_plot_session]
  by (simp add: bpl_plot_session_eq bpl_session_eq)

text \<open>
  Claim C10. \<^verbatim>\<open>options['ncp'] = 0\<close> makes a fresh run raise
  \<^verbatim>\<open>ZeroDivisionError\<close> before the FMU is called, after
  \<^verbatim>\<open>start_values\<close> has been overwritten.
\<close>

theorem simu_zero_ncp:
  assumes "mode \<in> set [''Initial'', ''initial'', ''init'']"
    and "start_values_fresh (s_par_dict s) (s_par_location s) = Inr sv"
  shows "simu env T mode 0 s = Inl (ZeroDivisionError, s\<lparr>s_start_values := Some sv\<rparr>)"
  using assms by (simp add: simu_def simu_fresh_def simu_request_def)

theorem simu_zero_ncp_witness:
  "''init'' \<in> set [''Initial'', ''initial'', ''init''] \<and>
   start_values_fresh (s_par_dict bpl_plot_session) (s_par_location bpl_plot_session) = Inr bpl_start_values \<and>
   simu example_env 5 ''init'' 0 bpl_plot_session =
     Inl (ZeroDivisionError, bpl_plot_session\<lparr>s_start_values := Some bpl_start_values\<rparr>)"
proof -
  have h: "start_values_fresh (s_par_dict bpl_plot_session) (s_par_location bpl_plot_session) = Inr bpl_start_values"
    using start_values_bpl by (simp add: bpl_plot_session_eq bpl_session_eq)
  show ?thesis using h simu_zero_ncp[OF _ h] by simp
qed


text \<open>
  Claim C11. \<^verbatim>\<open>par()\<close> has no effect on what \<^verbatim>\<open>disp()\<close> prints: after any
  call of \<^verbatim>\<open>par()\<close>, returned or raised, \<^verbatim>\<open>disp()\<close> prints the same
  lines as before it, for every name, precision and mode. \<^verbatim>\<open>disp()\<close>
  reads \<^verbatim>\<open>parDict\<close> only through its keys, which \<^verbatim>\<open>par()\<close> keeps,
  and reads the values from the model description.
\<close>

theorem disp_ignores_par:
  "disp (disp_ctx_of (ostate (apply_op env (OpPar c) s))) name d mode out = disp (disp_ctx_of s) name d mode out"
proof -
  let ?r = "par_call (s_par_dict s) (s_par_check s) c"
  have st: "ostate (apply_op env (OpPar c) s) =
              s\<lparr>s_par_dict := fst (ostate ?r), s_log := s_log s @ snd (ostate ?r)\<rparr>"
    by (auto simp: apply_op_def ostate_def split: sum.split prod.split)
  have "dict_keys (fst (ostate ?r)) = dict_keys (dc_par_dict (disp_ctx_of s))"
    by (simp add: par_call_keys disp_ctx_of_def)
  then show ?thesis unfolding st disp_ctx_of_par_dict by (rule disp_par_dict_keys)
qed

text \<open>
  On the session after a run, \<^verbatim>\<open>par(Y=0.6)\<close> stores 0.6, and
  \<^verbatim>\<open>disp('Y')\<close> then prints the start value 0.5 of the model, not the
  value in \<^verbatim>\<open>parDict\<close> nor one of the last simulation.
\<close>

lemma disp_after_par_example:
  "map_of (s_par_dict (ostate (apply_op example_env (OpPar (CallKw [(''Y'', 0.6)])) bpl_run_session))) ''Y'' = Some 0.6 \<and>
   s_log (ostate (apply_op example_env (OpDisp ''Y'' 3 ''short'')
     (ostate (apply_op example_env (OpPar (CallKw [(''Y'', 0.6)])) bpl_run_session)))) = [MsgDisp [''Y''] 0.5]"
proof -
  let ?s = "bpl_run_session\<lparr>s_par_dict := AList.update ''Y'' 0.6 par_dict_default\<rparr>"
  have locs: "dict_gets (s_par_location ?s) (dict_keys (s_par_dict ?s)) =
      Inr [''bioreactor.V_start'', ''bioreactor.m_start[1]'', ''bioreactor.m_start[2]'',
           ''bioreactor.culture.Y'', ''bioreactor.culture.qSmax'', ''bioreactor.culture.Ks'']"
    by (simp add: bpl_run_session_def bpl_plot_session_eq bpl_session_eq par_dict_default_def
        par_location_default_def dict_of_def dict_keys_def dict_get_def)
  have get: "dc_get (disp_ctx_of ?s) ''bioreactor.culture.Y'' = Inr (Some 0.5, [])"
    by (simp add: dc_get_def disp_ctx_of_def bpl_run_session_def bpl_plot_session_eq bpl_session_eq
        model_get_def bpl_catalog_def mvar_def model_get_var_def py_float_def)
  have rev: "dict_get (dict_reverser (s_par_location ?s)) ''bioreactor.culture.Y'' = Inr ''Y''"
    by (simp add: dict_reverser_def bpl_run_session_def bpl_plot_session_eq bpl_session_eq
        par_location_default_def dict_of_def dict_get_def)
  have rnd: "np_round 3 0.5 = 0.5" by (simp add: np_round_def)
  have "disp (disp_ctx_of ?s) ''Y'' 3 ''short'' (s_log ?s) = Inr [MsgDisp [''Y''] 0.5]"
    using locs get rev rnd
    by (simp add: disp_def disp_mode_def disp_loc_step_def disp_entry_def disp_ctx_of_def
        bpl_run_session_def bpl_plot_session_eq bpl_session_eq par_location_default_def dict_of_def dict_keys_def)
  then show ?thesis
    using par_Y_bpl by (simp add: apply_op_def par_dict_default_def dict_of_def)
qed

text \<open>
  Claim C12. When the FMU returns time columns inside the requested interval,
  every call of \<^verbatim>\<open>simu()\<close> with \<open>0 \<le> T\<close>, returned or raised, leaves
  the cursor where it was, or moves it into \<open>[0, T]\<close> (fresh run) or into
  \<open>[prevFinalTime, prevFinalTime + T]\<close> (continued run).
\<close>

theorem simu_cursor_bounds:
  assumes "env_times_ok env" "0 \<le> T"
  shows "s_prev_final_time (ostate (simu env T mode ncp s)) = s_prev_final_time s \<or>
         (mode \<in> set [''Initial'', ''initial'', ''init''] \<and>
            0 \<le> s_prev_final_time (ostate (simu env T mode ncp s)) \<and>
            s_prev_final_time (ostate (simu env T mode ncp s)) \<le> T) \<or>
         (mode \<in> set [''Continued'', ''continued'', ''cont''] \<and>
            s_prev_final_time s \<le> s_prev_final_time (ostate (simu env T mode ncp s)) \<and>
            s_prev_final_time (ostate (simu env T mode ncp s)) \<le> s_prev_final_time s + T)"
proof -
  have req: "\<And>s1 t0 sv rq. simu_request s1 t0 T ncp sv = Inr rq \<Longrightarrow> rq_start_time rq = t0 \<and> rq_stop_time rq = t0 + T"
    by (auto simp: simu_request_def split: if_splits)
  have fresh: "s_prev_final_time (ostate (simu_fresh env T ncp s)) = s_prev_final_time s \<or>
      0 \<le> s_prev_final_time (ostate (simu_fresh env T ncp s)) \<and> s_prev_final_time (ostate (simu_fresh env T ncp s)) \<le> T"
  proof (cases "start_values_fresh (s_par_dict s) (s_par_location s)")
    case (Inl e)
    then show ?thesis by (simp add: simu_fresh_def)
  next
    case (Inr sv)
    let ?s1 = "s\<lparr>s_start_values := Some sv\<rparr>"
    show ?thesis
    proof (cases "simu_request ?s1 0 T ncp sv")
      case (Inl e)
      then show ?thesis using Inr by (simp add: simu_fresh_def)
    next
      case rq: (Inr rq)
      have "simu_fresh env T ncp s =
              olift (simulate env rq) ?s1 (\<lambda>r. simu_post env r (?s1\<lparr>s_sim_res := Some r\<rparr>))"
        using Inr rq by (simp add: simu_fresh_def Let_def)
      then show ?thesis using run_prev[OF assms(1), of rq ?s1] req[OF rq] assms(2) by simp
    qed
  qed
  have cont: "s_prev_final_time (ostate (simu_cont env T ncp s)) = s_prev_final_time s \<or>
      s_prev_final_time s \<le> s_prev_final_time (ostate (simu_cont env T ncp s)) \<and>
      s_prev_final_time (ostate (simu_cont env T ncp s)) \<le> s_prev_final_time s + T"
  proof (cases "s_prev_final_time s = 0")
    case True
    then show ?thesis by (simp add: simu_cont_def)
  next
    case nz: False
    show ?thesis
    proof (cases "cont_start_values s")
      case (Inl e)
      then show ?thesis using nz by (simp add: simu_cont_def)
    next
      case (Inr sv)
      let ?s1 = "s\<lparr>s_start_values := Some sv\<rparr>"
      show ?thesis
      proof (cases "simu_request ?s1 (s_prev_final_time s) T ncp sv")
        case (Inl e)
        then show ?thesis using nz Inr by (simp add: simu_cont_def)
      next
        case rq: (Inr rq)
        have "simu_cont env T ncp s =
                olift (simulate env rq) ?s1 (\<lambda>r. simu_post env r (?s1\<lparr>s_sim_res := Some r\<rparr>))"
          using nz Inr rq by (simp add: simu_cont_def Let_def)
        then show ?thesis using run_prev[OF assms(1), of rq ?s1] req[OF rq] assms(2) by simp
      qed
    qed
  qed
  show ?thesis using fresh cont mode_cont_not_init[of mode] by (auto simp: simu_def)
qed

theorem simu_cursor_bounds_witness:
  "5 \<le> s_prev_final_time (ostate (simu example_env 5 ''cont'' 500 bpl_run_session)) \<and>
   s_prev_final_time (ostate (simu example_env 5 ''cont'' 500 bpl_run_session)) \<le> 10"
proof -
  have h: "env_times_ok example_env"
    by (simp add: env_times_ok_def example_env_def res_col_def example_result_def)
  have p: "s_prev_final_time bpl_run_session = 5" by (simp add: bpl_run_session_def)
  show ?thesis using simu_cursor_bounds[OF h, of 5 "''cont''" 500 bpl_run_session] p by auto
qed

end
