(* ===== verification/Setup.thy ===== *)
theory Setup
  imports Catalog
begin

text \<open>
  The platform and FMU setup that runs when the script is imported
  (lines 67--109): the choice of the FMU file, vendor and FMU type from
  \<^verbatim>\<open>platform.system()\<close>, the options profile \<^verbatim>\<open>opts_std\<close>, the
  model description read from the chosen file, and the library versions
  \<^verbatim>\<open>MSL_usage\<close>, \<^verbatim>\<open>MSL_version\<close> and \<^verbatim>\<open>BPL_version\<close>. Reading an
  FMU file is FMPy's I/O and appears as the parameter \<open>rd\<close>, the catalog
  \<^verbatim>\<open>read_model_description(file).modelVariables\<close>. A global that a
  branch leaves undefined is a \<open>NameError\<close> at its first use.
\<close>

section \<open>Definitions\<close>

text \<open>The globals the setup defines.\<close>

record fmu_setup =
  fs_fmu_model :: string
  fs_model_description :: catalog
  fs_flag_vendor :: string
  fs_flag_type :: string
  fs_opts_ncp :: real \<comment> \<open>\<^verbatim>\<open>opts_std['ncp']\<close>\<close>
  fs_MSL_usage :: "startval option"
  fs_MSL_version :: "startval option"
  fs_BPL_version :: "startval option"
  fs_log :: "msg list"

text \<open>Lines 68--81: file, vendor and type per platform, with the line
  printed; another platform prints and defines none of them.\<close>

definition setup_platform ::
    "string \<Rightarrow> (string \<times> string \<times> string) option \<times> msg list" where
  "setup_platform sys =
     (if sys = ''Windows''
      then (Some (''BPL_TEST2_Batch_windows_jm_cs.fmu'', ''JM'', ''CS''),
            [MsgPlatform ''Windows - run FMU pre-compiled JModelica 2.14''])
      else if sys = ''Linux''
      then (Some (''BPL_TEST2_Batch_linux_om_me.fmu'', ''OM'', ''ME''),
            [MsgPlatform ''Linux - run FMU pre-compiled OpenModelica''])
      else (None, [MsgNoPlatform]))"

text \<open>Lines 84--89: \<^verbatim>\<open>opts_std\<close> for the FMU type.\<close>

definition setup_opts :: "string \<Rightarrow> real option \<times> msg list" where
  "setup_opts flag_type =
     (if flag_type \<in> set [''CS'', ''cs''] then (Some 500, [])
      else if flag_type \<in> set [''ME'', ''me''] then (Some 500, [])
      else (None, [MsgNoPlatform]))"

text \<open>Lines 98--103: the start value of the first variable of
  \<^verbatim>\<open>constants\<close> whose name contains \<open>key\<close>; \<^verbatim>\<open>[0]\<close> raises
  \<open>IndexError\<close> when there is none.\<close>

definition first_start :: "model_variable list \<Rightarrow> string \<Rightarrow> py_error + startval option" where
  "first_start constants key =
     (case map mv_start (filter (\<lambda>x. py_in key (mv_name x)) constants) of
        [] \<Rightarrow> Inl IndexError
      | v # _ \<Rightarrow> Inr v)"

text \<open>Lines 95--109: the versions, read from the local variables of the
  model description for JModelica, written out for OpenModelica.\<close>

definition setup_versions ::
    "string \<Rightarrow> catalog \<Rightarrow> py_error + (startval option \<times> startval option \<times> startval option) option \<times> msg list" where
  "setup_versions flag_vendor md =
     (if flag_vendor \<in> set [''JM'', ''jm''] then
        (let constants = locals_of md
         in case first_start constants ''MSL.usage'' of Inl e \<Rightarrow> Inl e | Inr u \<Rightarrow>
            (case first_start constants ''MSL.version'' of Inl e \<Rightarrow> Inl e | Inr v \<Rightarrow>
             (case first_start constants ''BPL.version'' of Inl e \<Rightarrow> Inl e | Inr b \<Rightarrow>
               Inr (Some (u, v, b), []))))
      else if flag_vendor \<in> set [''OM'', ''om''] then
        Inr (Some (Some (Text ''3.2.3 - used components: none''), Some (Text ''3.2.3''),
                   Some (Text ''Bioprocess Library version 2.2.1 - GUI'')), [])
      else Inr (None, [MsgNoPlatform]))"

text \<open>Lines 67--109 in order. The model description is read again at
  line 92 from the same file. On another platform line 84 reads the
  undefined \<^verbatim>\<open>flag_type\<close>: \<open>NameError\<close>. The \<^verbatim>\<open>else\<close> branches of
  lines 88 and 108 cannot run after a platform branch; there the undefined
  global would raise \<open>NameError\<close> at its first use.\<close>

definition platform_setup ::
    "string \<Rightarrow> (string \<Rightarrow> catalog) \<Rightarrow> (py_error \<times> msg list) + fmu_setup" where
  "platform_setup sys rd =
     (case setup_platform sys of
        (None, m) \<Rightarrow> Inl (NameError, m)
      | (Some (fm, vendor, ftype), m) \<Rightarrow>
          (case setup_opts ftype of
             (None, m2) \<Rightarrow> Inl (NameError, m @ m2)
           | (Some ncp, m2) \<Rightarrow>
               (let md = rd fm
                in case setup_versions vendor md of
                     Inl e \<Rightarrow> Inl (e, m @ m2)
                   | Inr (None, m3) \<Rightarrow> Inl (NameError, m @ m2 @ m3)
                   | Inr (Some (u, v, b), m3) \<Rightarrow>
                       Inr \<lparr>fs_fmu_model = fm, fs_model_description = md, fs_flag_vendor = vendor,
                            fs_flag_type = ftype, fs_opts_ncp = ncp, fs_MSL_usage = u,
                            fs_MSL_version = v, fs_BPL_version = b, fs_log = m @ m2 @ m3\<rparr>)))"

text \<open>The FMUs the script ships: vendor, type and file of each platform.\<close>

definition supported_fmus :: "(string \<times> string \<times> string) list" where
  "supported_fmus =
     [(''JM'', ''CS'', ''BPL_TEST2_Batch_windows_jm_cs.fmu''),
      (''OM'', ''ME'', ''BPL_TEST2_Batch_linux_om_me.fmu'')]"

text \<open>A well-typed setup: a shipped vendor, type and file together, the
  option profile of 500 output intervals, and the model description of the
  chosen file.\<close>

definition setup_wf :: "(string \<Rightarrow> catalog) \<Rightarrow> fmu_setup \<Rightarrow> bool" where
  "setup_wf rd su \<longleftrightarrow>
     (fs_flag_vendor su, fs_flag_type su, fs_fmu_model su) \<in> set supported_fmus \<and>
     fs_opts_ncp su = 500 \<and> fs_model_description su = rd (fs_fmu_model su)"

section \<open>Lemmas\<close>

lemma first_start_Inl: "first_start cs key = Inl e \<longleftrightarrow> e = IndexError \<and> \<not> list_ex (\<lambda>x. py_in key (mv_name x)) cs"
  by (auto simp: first_start_def list_ex_iff filter_empty_conv split: list.splits)
     (metis (mono_tags, lifting) filter_empty_conv list.simps(8) neq_Nil_conv)

lemma setup_versions_error: "setup_versions vendor md = Inl e \<Longrightarrow> e = IndexError"
  by (auto simp: setup_versions_def Let_def first_start_Inl split: if_splits sum.splits)

lemma setup_versions_JM_some:
  "setup_versions ''JM'' md = Inr (x, m) \<Longrightarrow> x \<noteq> None"
  by (auto simp: setup_versions_def Let_def split: sum.splits)

lemma platform_setup_Windows:
  "platform_setup ''Windows'' rd =
     (case setup_versions ''JM'' (rd ''BPL_TEST2_Batch_windows_jm_cs.fmu'') of
        Inl e \<Rightarrow> Inl (e, [MsgPlatform ''Windows - run FMU pre-compiled JModelica 2.14''])
      | Inr (None, m3) \<Rightarrow> Inl (NameError, MsgPlatform ''Windows - run FMU pre-compiled JModelica 2.14'' # m3)
      | Inr (Some (u, v, b), m3) \<Rightarrow>
          Inr \<lparr>fs_fmu_model = ''BPL_TEST2_Batch_windows_jm_cs.fmu'',
               fs_model_description = rd ''BPL_TEST2_Batch_windows_jm_cs.fmu'', fs_flag_vendor = ''JM'',
               fs_flag_type = ''CS'', fs_opts_ncp = 500, fs_MSL_usage = u,
               fs_MSL_version = v, fs_BPL_version = b,
               fs_log = MsgPlatform ''Windows - run FMU pre-compiled JModelica 2.14'' # m3\<rparr>)"
  by (simp add: platform_setup_def setup_platform_def setup_opts_def Let_def split: sum.split prod.split option.split)

lemma platform_setup_Linux:
  "platform_setup ''Linux'' rd =
     Inr \<lparr>fs_fmu_model = ''BPL_TEST2_Batch_linux_om_me.fmu'',
          fs_model_description = rd ''BPL_TEST2_Batch_linux_om_me.fmu'', fs_flag_vendor = ''OM'',
          fs_flag_type = ''ME'', fs_opts_ncp = 500,
          fs_MSL_usage = Some (Text ''3.2.3 - used components: none''), fs_MSL_version = Some (Text ''3.2.3''),
          fs_BPL_version = Some (Text ''Bioprocess Library version 2.2.1 - GUI''),
          fs_log = [MsgPlatform ''Linux - run FMU pre-compiled OpenModelica'']\<rparr>"
  by (simp add: platform_setup_def setup_platform_def setup_opts_def setup_versions_def)

lemma platform_setup_other:
  "sys \<noteq> ''Windows'' \<Longrightarrow> sys \<noteq> ''Linux'' \<Longrightarrow> platform_setup sys rd = Inl (NameError, [MsgNoPlatform])"
  by (simp add: platform_setup_def setup_platform_def)

text \<open>Every successful setup is well typed; every failed one raises
  \<open>NameError\<close> or \<open>IndexError\<close>.\<close>

lemma platform_setup_wf:
  assumes "platform_setup sys rd = Inr su" shows "setup_wf rd su"
proof (cases "sys = ''Windows''")
  case True
  then obtain u v b m3 where
    "setup_versions ''JM'' (rd ''BPL_TEST2_Batch_windows_jm_cs.fmu'') = Inr (Some (u, v, b), m3)"
    using assms setup_versions_JM_some
    by (auto simp: platform_setup_Windows split: sum.splits prod.splits option.splits)
  then show ?thesis using assms True
    by (auto simp: platform_setup_Windows setup_wf_def supported_fmus_def)
next
  case False
  then show ?thesis using assms
    by (cases "sys = ''Linux''") (auto simp: platform_setup_Linux platform_setup_other setup_wf_def supported_fmus_def)
qed

lemma platform_setup_error:
  assumes "platform_setup sys rd = Inl (e, m)"
  shows "e \<in> {NameError, IndexError} \<and> (e = NameError \<longleftrightarrow> sys \<notin> {''Windows'', ''Linux''})"
proof (cases "sys = ''Windows''")
  case True
  then have "setup_versions ''JM'' (rd ''BPL_TEST2_Batch_windows_jm_cs.fmu'') = Inl e"
    using assms setup_versions_JM_some
    by (auto simp: platform_setup_Windows split: sum.splits prod.splits option.splits)
  then show ?thesis using True setup_versions_error by auto
next
  case False
  then show ?thesis using assms
    by (cases "sys = ''Linux''") (auto simp: platform_setup_Linux platform_setup_other)
qed

section \<open>Properties of the setup\<close>

text \<open>Claim C34. The setup is well typed: on every platform and every FMU
  it either defines the globals of a shipped FMU (vendor, type and file
  together, \<^verbatim>\<open>opts_std\<close> with 500 output intervals, the model
  description of that file), or it raises, \<open>NameError\<close> exactly on a
  platform other than Windows and Linux and \<open>IndexError\<close> otherwise (a
  JModelica FMU without a version constant).\<close>

theorem platform_setup_type:
  "(case platform_setup sys rd of
      Inl (e, _) \<Rightarrow> e \<in> {NameError, IndexError} \<and> (e = NameError \<longleftrightarrow> sys \<notin> {''Windows'', ''Linux''})
    | Inr su \<Rightarrow> setup_wf rd su)"
  by (auto split: sum.split dest: platform_setup_wf platform_setup_error)
end
